theory Spec2Isabelle
  imports Main "HOL-Library.Word"
begin

unbundle bit_operations_syntax

section \<open>The eNVMe endpoint function driver (pci-epf-nvme.c)\<close>

text \<open>
  A shallow embedding of the command and queue engine of
  \<^verbatim>\<open>src/firmware/evil_nvme_oot/pci-epf-nvme.c\<close>. C structs are records, the
  fixed-width integers of the driver are words (\<open>u16\<close> is \<open>16 word\<close>, \<open>size_t\<close> and
  \<open>phys_addr_t\<close> are 64 bits wide on the arm64 target of the Makefile), a C \<open>int\<close> that
  only holds small values is an \<open>int\<close> or a \<open>nat\<close>. A pointer into one of the two queue
  arrays is the index of the slot; reading a slot outside the array, or through a NULL
  pointer, is undefined behaviour in C and is the value \<open>Inl\<close> of a fault here. The kernel
  services the driver calls (endpoint controller, DMA engine, allocator) are fields of
  the state that give the outcome of each call; what the driver does to the outside
  (completion entries written to host memory, interrupts raised, commands freed, queues
  torn down) is appended to logs in the state. Work items run one at a time: the model
  is of a driver with no other work item pending or running.
\<close>

type_synonym u8 = "8 word"
type_synonym u16 = "16 word"
type_synonym u32 = "32 word"
type_synonym u64 = "64 word"

datatype fault = OutOfBounds | NullPointer

subsection \<open>Constants of the driver and of the kernel headers it includes\<close>

text \<open>
  \<open>PCI_EPF_NVME_*\<close> and \<open>NVME_EVIL_ACTIVATION_KEY_LEN\<close> are defined in the driver. The
  others are the values of \<^verbatim>\<open>include/linux/nvme.h\<close>, \<^verbatim>\<open>include/linux/sizes.h\<close>,
  \<^verbatim>\<open>include/linux/pci.h\<close> and the errno headers of the Linux kernel the module is
  built against (they are fixed by the NVMe specification and the kernel ABI).
\<close>

definition NVME_EVIL_ACTIVATION_KEY_LEN :: nat where
  "NVME_EVIL_ACTIVATION_KEY_LEN = 256"

definition PCI_EPF_NVME_QUEUE_IS_SQ :: u32 where
  "PCI_EPF_NVME_QUEUE_IS_SQ = push_bit 0 1"

definition PCI_EPF_NVME_QUEUE_LIVE :: u32 where
  "PCI_EPF_NVME_QUEUE_LIVE = push_bit 1 1"

definition NVME_QUEUE_PHYS_CONTIG :: u32 where
  "NVME_QUEUE_PHYS_CONTIG = push_bit 0 1"

definition NVME_CQ_IRQ_ENABLED :: u32 where
  "NVME_CQ_IRQ_ENABLED = push_bit 1 1"

definition NVME_CC_ENABLE :: u32 where
  "NVME_CC_ENABLE = push_bit 0 1"

definition NVME_CC_SHN_NORMAL :: u32 where
  "NVME_CC_SHN_NORMAL = push_bit 14 1"

definition NVME_CSTS_RDY :: u32 where
  "NVME_CSTS_RDY = push_bit 0 1"

definition NVME_CSTS_SHST_CMPLT :: u32 where
  "NVME_CSTS_SHST_CMPLT = push_bit 2 2"

definition NVME_REG_CC :: u32 where
  "NVME_REG_CC = 0x14"

definition NVME_REG_CSTS :: u32 where
  "NVME_REG_CSTS = 0x1c"

definition NVME_REG_AQA :: u32 where
  "NVME_REG_AQA = 0x24"

definition NVME_REG_ASQ :: u32 where
  "NVME_REG_ASQ = 0x28"

definition NVME_REG_ACQ :: u32 where
  "NVME_REG_ACQ = 0x30"

definition NVME_REG_DBS :: u32 where
  "NVME_REG_DBS = 0x1000"

definition NVME_CC_MPS_SHIFT :: nat where
  "NVME_CC_MPS_SHIFT = 7"

definition NVME_CC_IOSQES_SHIFT :: nat where
  "NVME_CC_IOSQES_SHIFT = 16"

definition NVME_CC_IOCQES_SHIFT :: nat where
  "NVME_CC_IOCQES_SHIFT = 20"

definition NVME_ADM_SQES :: nat where
  "NVME_ADM_SQES = 6"

text \<open>\<open>sizeof(struct nvme_command)\<close> and \<open>sizeof(struct nvme_completion)\<close>.\<close>

definition sizeof_nvme_command :: u64 where
  "sizeof_nvme_command = 64"

definition sizeof_nvme_completion :: u64 where
  "sizeof_nvme_completion = 16"

definition NVME_CTRL_PAGE_SHIFT :: nat where
  "NVME_CTRL_PAGE_SHIFT = 12"

definition NVME_CTRL_PAGE_SIZE :: u64 where
  "NVME_CTRL_PAGE_SIZE = 4096"

definition NVME_SC_SUCCESS :: u32 where
  "NVME_SC_SUCCESS = 0x0"

definition NVME_SC_INVALID_FIELD :: u32 where
  "NVME_SC_INVALID_FIELD = 0x2"

definition NVME_SC_DATA_XFER_ERROR :: u32 where
  "NVME_SC_DATA_XFER_ERROR = 0x4"

definition NVME_SC_INTERNAL :: u32 where
  "NVME_SC_INTERNAL = 0x6"

definition NVME_SC_PRP_INVALID_OFFSET :: u32 where
  "NVME_SC_PRP_INVALID_OFFSET = 0x13"

definition NVME_SC_CQ_INVALID :: u32 where
  "NVME_SC_CQ_INVALID = 0x100"

definition NVME_SC_QID_INVALID :: u32 where
  "NVME_SC_QID_INVALID = 0x101"

definition NVME_SC_QUEUE_SIZE :: u32 where
  "NVME_SC_QUEUE_SIZE = 0x102"

definition NVME_SC_INVALID_VECTOR :: u32 where
  "NVME_SC_INVALID_VECTOR = 0x108"

definition NVME_SC_INVALID_QUEUE :: u32 where
  "NVME_SC_INVALID_QUEUE = 0x10c"

definition NVME_STATUS_DNR :: u32 where
  "NVME_STATUS_DNR = 0x4000"

definition NVME_CMD_SGL_ALL :: u8 where
  "NVME_CMD_SGL_ALL = 0xc0"

definition nvme_cmd_write :: u8 where
  "nvme_cmd_write = 0x01"

definition SZ_1K :: u64 where
  "SZ_1K = 0x400"

definition SZ_4K :: u64 where
  "SZ_4K = 0x1000"

definition SZ_128K :: u64 where
  "SZ_128K = 0x20000"

definition PCI_IRQ_INTX :: u32 where
  "PCI_IRQ_INTX = push_bit 0 1"

definition PCI_IRQ_MSI :: u32 where
  "PCI_IRQ_MSI = push_bit 1 1"

definition PCI_IRQ_MSIX :: u32 where
  "PCI_IRQ_MSIX = push_bit 2 1"

definition EIO :: int where
  "EIO = 5"

definition ENOMEM :: int where
  "ENOMEM = 12"

definition EINVAL :: int where
  "EINVAL = 22"

definition ETIMEDOUT :: int where
  "ETIMEDOUT = 110"

text \<open>\<open>NVME_CAP_MQES(cap)\<close> is \<open>(cap) & 0xffff\<close>, an \<open>int\<close> in the driver.\<close>

definition NVME_CAP_MQES :: "u64 \<Rightarrow> int" where
  "NVME_CAP_MQES c = uint (c AND 0xffff)"

subsection \<open>The activation key\<close>

text \<open>
  The key is declared as an array of 256 values of type \<open>u32\<close> (the entry 256 does not
  fit a byte). \<open>memcmp\<close> reads it as bytes, so on the little-endian target every entry
  contributes its low byte followed by three zero bytes.
\<close>

definition activation_key :: "u32 list" where
  "activation_key =
   [173,104,115,108,144, 88, 50, 76, 41,228,178, 51,145,254,156, 44,
     99, 98, 58,140,233,176,165,109,134,  8,181, 95, 26, 43,107, 60,
    161, 61,246, 87, 78, 73, 57,215, 53,175,  7, 11,184, 77, 37,  2,
    148,200,205, 19,137, 66, 13,186, 93,236,248,111, 21,177,120,234,
    163, 65,  4,133,141,243,151,174,129, 74, 64,  0,195,157,216,162,
    235, 45,249,213, 22,155,247, 14, 32, 75, 67,183, 63,139,  1, 59,
     20,113,136,138,187,154,223,189,193,110,225,101,203,222, 81,240,
    125, 72,238,204, 12, 55,231, 24,255,244,118, 17,152, 56, 97,116,
     80,135, 79, 70, 42,250,114,159,209,207, 52,237,188,167, 71, 40,
    160, 36, 82,182,142,126, 38, 10,103, 49, 27,106,194,226,253, 68,
    206, 69,201,171,251, 34,218,  3,128,170,121,146, 96,150,  6, 85,
     89,119,197,153, 86,202,  5,179, 91, 94,211,219,100,239, 35,217,
    224,149,105,196, 62, 90,117,191, 31,147,131,  9,185,230,158,166,
    199,232, 25,172,252, 46,242, 39,130,122,164,143, 48,124, 15,180,
    102,220,241,227,229,190,169,212,208, 33, 16, 28, 47,214, 18,123,
    245,198, 54,127,256, 23, 30,132, 92,210,192, 83,112, 84,221, 29]"

text \<open>The four bytes of a \<open>u32\<close> in memory, least significant first.\<close>

definition le32_bytes :: "u32 \<Rightarrow> u8 list" where
  "le32_bytes w = [ucast w, ucast (drop_bit 8 w), ucast (drop_bit 16 w), ucast (drop_bit 24 w)]"

definition activation_key_bytes :: "u8 list" where
  "activation_key_bytes = concat (map le32_bytes activation_key)"

text \<open>
  \<open>memcmp(cs, ct, count)\<close> of the kernel: the difference of the first pair of bytes
  that differ, 0 when the first \<open>count\<close> bytes agree. The first argument is a pointer
  that may be NULL (\<open>None\<close>) and an allocation that may be shorter than \<open>count\<close>; reading
  through NULL or past the end of the allocation is a fault.
\<close>

fun memcmp_bytes :: "u8 list \<Rightarrow> u8 list \<Rightarrow> int" where
  "memcmp_bytes [] _ = 0"
| "memcmp_bytes _ [] = 0"
| "memcmp_bytes (a # as) (b # bs) =
     (if a \<noteq> b then uint a - uint b else memcmp_bytes as bs)"

definition memcmp :: "u8 list option \<Rightarrow> u8 list \<Rightarrow> nat \<Rightarrow> fault + int" where
  "memcmp cs ct count =
     (case cs of
        None \<Rightarrow> Inl NullPointer
      | Some bs \<Rightarrow>
          if length bs < count \<or> length ct < count then Inl OutOfBounds
          else Inr (memcmp_bytes (take count bs) (take count ct)))"

subsection \<open>Data structures\<close>

text \<open>\<open>struct pci_epf_nvme_segment\<close>: a host PCI memory segment.\<close>

record pci_epf_nvme_segment =
  pci_addr_s :: u64
  size_s :: u64

text \<open>\<open>enum dma_data_direction\<close>.\<close>

datatype dma_data_direction = DMA_BIDIRECTIONAL | DMA_TO_DEVICE | DMA_FROM_DEVICE | DMA_NONE

text \<open>
  \<open>struct nvme_command\<close>, the fields the driver reads: the common header, the two data
  pointers and the command dwords 10 to 12 that the create-queue and read/write views
  of the union overlay.
\<close>

record nvme_command =
  opcode :: u8
  flags_c :: u8
  command_id_c :: u16
  nsid :: u32
  prp1 :: u64
  prp2 :: u64
  cdw10 :: u32
  cdw11 :: u32
  cdw12 :: u32

text \<open>
  The views \<open>cmd->create_cq\<close> and \<open>cmd->create_sq\<close> of the union: in both, the queue id
  and the queue size are the two halves of dword 10; dword 11 holds the flags in its low
  half and the interrupt vector (create CQ) or the completion queue id (create SQ) in its
  high half.
\<close>

definition create_cq_cqid :: "nvme_command \<Rightarrow> u16" where
  "create_cq_cqid c = ucast (cdw10 c)"

definition create_cq_qsize :: "nvme_command \<Rightarrow> u16" where
  "create_cq_qsize c = ucast (drop_bit 16 (cdw10 c))"

definition create_cq_cq_flags :: "nvme_command \<Rightarrow> u16" where
  "create_cq_cq_flags c = ucast (cdw11 c)"

definition create_cq_irq_vector :: "nvme_command \<Rightarrow> u16" where
  "create_cq_irq_vector c = ucast (drop_bit 16 (cdw11 c))"

definition create_sq_sqid :: "nvme_command \<Rightarrow> u16" where
  "create_sq_sqid c = ucast (cdw10 c)"

definition create_sq_qsize :: "nvme_command \<Rightarrow> u16" where
  "create_sq_qsize c = ucast (drop_bit 16 (cdw10 c))"

definition create_sq_sq_flags :: "nvme_command \<Rightarrow> u16" where
  "create_sq_sq_flags c = ucast (cdw11 c)"

definition create_sq_cqid :: "nvme_command \<Rightarrow> u16" where
  "create_sq_cqid c = ucast (drop_bit 16 (cdw11 c))"

text \<open>The view \<open>cmd->delete_queue\<close>: the queue id is the low half of dword 10.\<close>

definition delete_queue_qid :: "nvme_command \<Rightarrow> u16" where
  "delete_queue_qid c = ucast (cdw10 c)"


text \<open>\<open>struct nvme_completion\<close>.\<close>

record nvme_completion =
  result :: u64
  sq_head :: u16
  sq_id :: u16
  command_id :: u16
  status_e :: u16

text \<open>
  \<open>struct pci_epf_nvme_cmd\<close>. \<open>sqid\<close> and \<open>cqid\<close> are C \<open>int\<close>s initialised from the
  \<open>u16\<close> ids of the submission queue the command was fetched from. \<open>buffer\<close> is the
  staging buffer (\<open>None\<close> is NULL), \<open>segs\<close> the segment array, of which the first
  \<open>nr_segs\<close> entries are in use.
\<close>

record pci_epf_nvme_cmd =
  sqid :: nat
  cqid_c :: nat
  status :: u32
  cmd :: nvme_command
  cqe :: nvme_completion
  buffer_size :: u64
  buffer :: "u8 list option"
  dma_dir :: dma_data_direction
  nr_segs :: nat
  segs :: "pci_epf_nvme_segment list"

text \<open>
  \<open>struct pci_epf_nvme_queue\<close>. \<open>epf_nvme_p\<close> says whether the back pointer \<open>epf_nvme\<close>
  is set (not NULL), \<open>cmd_wq\<close> whether the per-queue workqueue exists. \<open>list\<close> is the
  list of commands linked on the queue and \<open>list_ok\<close> says that the list head is
  initialised: a head whose \<open>next\<close> and \<open>prev\<close> are NULL, as \<open>memset\<close> leaves it, is
  not an empty list, and walking it or linking to it dereferences NULL. \<open>sq_q\<close> is the
  back pointer of a completion queue to a submission queue (its index, \<open>None\<close> is NULL).
\<close>

record pci_epf_nvme_queue =
  epf_nvme_p :: bool
  qflags :: u32
  ref :: int
  pci_addr :: u64
  pci_size :: u64
  qid :: u16
  cqid :: u16
  size_q :: u16
  depth :: u16
  flags :: u16
  vector :: u16
  head :: u16
  tail :: u16
  phase :: u16
  db :: u32
  qes :: u64
  cmd_wq :: bool
  list_ok :: bool
  list :: "pci_epf_nvme_cmd list"
  sq_q :: "nat option"

text \<open>
  \<open>struct pci_epf_nvme_ctrl\<close>. \<open>reg\<close> is the register BAR, shared with the host, read
  and written in 32-bit units at a byte offset. \<open>sq\<close> and \<open>cq\<close> are the two queue
  arrays, of \<open>nr_queues\<close> slots each once the controller is created.
\<close>

record pci_epf_nvme_ctrl =
  reg :: "u32 \<Rightarrow> u32"
  cap :: u64
  cc :: u32
  csts :: u32
  aqa :: u32
  asq :: u64
  acq :: u64
  adm_sqes :: u64
  adm_cqes :: u64
  io_sqes :: u64
  io_cqes :: u64
  mps_shift :: nat
  mps :: u64
  mps_mask :: u64
  mdts :: u64
  nr_queues :: u32
  sq :: "pci_epf_nvme_queue list"
  cq :: "pci_epf_nvme_queue list"

text \<open>A queue the driver tears down: the slot of the submission or completion array.\<close>

datatype queue_ref = SQ nat | CQ nat

text \<open>What one call of \<open>pci_epf_nvme_transfer\<close> does for one piece of a segment.\<close>

datatype xfer_event = XferDma u64 | XferMmio u64 | DmaTerminate

text \<open>
  \<open>struct pci_epf_nvme\<close>, together with the file-scope flag \<open>evil_activated\<close> of the
  module, the work queued on \<open>evil_wq\<close>, the environment and the logs. \<open>reg_bar\<close> says
  that the register BAR is allocated (the pointer is not NULL); its memory is \<open>reg\<close> of
  the controller.

  Environment: \<open>host_cq\<close> is host memory seen as completion queue slots (by PCI
  address), \<open>host_mem\<close> host memory seen as bytes; \<open>epc_mem_map\<close> is the outcome of
  \<open>pci_epc_mem_map\<close> for an address and a size (return code and mapped size);
  \<open>epc_raise_irq\<close> the return code of \<open>pci_epc_raise_irq\<close> for an interrupt type and
  number; \<open>alloc_workqueue_ok\<close> and \<open>kcalloc_ok\<close> say whether the allocations succeed;
  \<open>dma_mapping_err\<close>, \<open>dma_slave_config_ret\<close>, \<open>dma_prep_ok\<close> and \<open>dma_submit_err\<close>
  are the outcomes of the DMA engine calls, and \<open>dma_completes a t\<close> says whether the
  DMA transfer for PCI address \<open>a\<close> completes within \<open>t\<close> milliseconds.

  Logs: \<open>irq_log\<close> the calls of \<open>pci_epc_raise_irq\<close>, \<open>freed\<close> the commands given to
  \<open>pci_epf_nvme_free_cmd\<close>, \<open>deleted\<close> the queues given to \<open>pci_epf_nvme_delete_queue\<close>,
  \<open>work_queued\<close> the queues whose work item was scheduled on the controller
  workqueue, \<open>xfer_log\<close> the copy paths taken by \<open>pci_epf_nvme_transfer\<close>.
\<close>

record pci_epf_nvme =
  reg_bar :: bool
  ctrl :: pci_epf_nvme_ctrl
  ctrl_enabled :: bool
  irq_type :: u32
  nr_vectors :: u32
  prp_list_buf :: "u8 list"
  dma_chan_tx :: nat
  dma_chan_rx :: nat
  dma_enable :: bool
  mdts_kb :: u64
  link_up :: bool
  evil_activated :: bool
  evil_wq :: "pci_epf_nvme_cmd list"
  host_cq :: "u64 \<Rightarrow> nvme_completion option"
  host_mem :: "u64 \<Rightarrow> u8"
  epc_mem_map :: "u64 \<Rightarrow> u64 \<Rightarrow> int \<times> u64"
  epc_raise_irq :: "u32 \<Rightarrow> nat \<Rightarrow> int"
  alloc_workqueue_ok :: bool
  kcalloc_ok :: bool
  dma_mapping_err :: int
  dma_slave_config_ret :: int
  dma_prep_ok :: bool
  dma_submit_err :: int
  dma_completes :: "u64 \<Rightarrow> nat \<Rightarrow> bool"
  irq_log :: "(u32 \<times> nat) list"
  freed :: "pci_epf_nvme_cmd list"
  deleted :: "queue_ref list"
  work_queued :: "queue_ref list"
  xfer_log :: "xfer_event list"

subsection \<open>Registers, readiness, command disposal\<close>

definition pci_epf_nvme_reg_read32 :: "pci_epf_nvme_ctrl \<Rightarrow> u32 \<Rightarrow> u32" where
  "pci_epf_nvme_reg_read32 c r = reg c r"

definition pci_epf_nvme_reg_write32 :: "pci_epf_nvme_ctrl \<Rightarrow> u32 \<Rightarrow> u32 \<Rightarrow> pci_epf_nvme_ctrl" where
  "pci_epf_nvme_reg_write32 c r v = c\<lparr>reg := (reg c)(r := v)\<rparr>"

definition pci_epf_nvme_ctrl_ready :: "pci_epf_nvme \<Rightarrow> bool" where
  "pci_epf_nvme_ctrl_ready s =
     (if \<not> ctrl_enabled s then False
      else (cc (ctrl s) AND NVME_CC_ENABLE) \<noteq> 0 \<and> (csts (ctrl s) AND NVME_CSTS_RDY) \<noteq> 0)"

definition pci_epf_nvme_free_cmd :: "pci_epf_nvme \<Rightarrow> pci_epf_nvme_cmd \<Rightarrow> pci_epf_nvme" where
  "pci_epf_nvme_free_cmd s epcmd = s\<lparr>freed := freed s @ [epcmd]\<rparr>"

text \<open>Reading the slot a queue pointer points to, and writing it back.\<close>

definition queue_at :: "pci_epf_nvme_queue list \<Rightarrow> nat \<Rightarrow> fault + pci_epf_nvme_queue" where
  "queue_at qs i = (if i < length qs then Inr (qs ! i) else Inl OutOfBounds)"

definition set_cq :: "pci_epf_nvme \<Rightarrow> nat \<Rightarrow> pci_epf_nvme_queue \<Rightarrow> pci_epf_nvme" where
  "set_cq s i q = s\<lparr>ctrl := (ctrl s)\<lparr>cq := (cq (ctrl s))[i := q]\<rparr>\<rparr>"

definition set_sq :: "pci_epf_nvme \<Rightarrow> nat \<Rightarrow> pci_epf_nvme_queue \<Rightarrow> pci_epf_nvme" where
  "set_sq s i q = s\<lparr>ctrl := (ctrl s)\<lparr>sq := (sq (ctrl s))[i := q]\<rparr>\<rparr>"

text \<open>
  \<open>pci_epf_nvme_complete_cmd\<close>: the command is linked at the tail of the list of its
  completion queue (\<open>list_add_tail\<close> writes through \<open>head->prev\<close>) and the work of that
  queue is scheduled.
\<close>

definition pci_epf_nvme_complete_cmd :: "pci_epf_nvme \<Rightarrow> pci_epf_nvme_cmd \<Rightarrow> fault + pci_epf_nvme" where
  "pci_epf_nvme_complete_cmd s epcmd =
     (if \<not> pci_epf_nvme_ctrl_ready s then Inr (pci_epf_nvme_free_cmd s epcmd)
      else case queue_at (cq (ctrl s)) (cqid_c epcmd) of
             Inl f \<Rightarrow> Inl f
           | Inr cq0 \<Rightarrow>
               if \<not> list_ok cq0 then Inl NullPointer
               else
                 let s1 = set_cq s (cqid_c epcmd) (cq0\<lparr>list := list cq0 @ [epcmd]\<rparr>)
                 in Inr (s1\<lparr>work_queued := work_queued s1 @ [CQ (cqid_c epcmd)]\<rparr>))"

subsection \<open>The activation check\<close>

text \<open>\<open>pci_epf_nvme_evil_work\<close>, the work item queued on \<open>evil_wq\<close>.\<close>

definition pci_epf_nvme_evil_work :: "pci_epf_nvme \<Rightarrow> pci_epf_nvme_cmd \<Rightarrow> fault + pci_epf_nvme" where
  "pci_epf_nvme_evil_work s epcmd =
     (if buffer_size epcmd \<le> SZ_128K then
        (case memcmp (buffer epcmd) activation_key_bytes NVME_EVIL_ACTIVATION_KEY_LEN of
           Inl f \<Rightarrow> Inl f
         | Inr ret \<Rightarrow>
             if ret = 0 then Inr (pci_epf_nvme_free_cmd (s\<lparr>evil_activated := True\<rparr>) epcmd)
             else Inr (pci_epf_nvme_free_cmd s epcmd))
      else Inr (pci_epf_nvme_free_cmd s epcmd))"

subsection \<open>Interrupts\<close>

text \<open>
  \<open>pci_epf_nvme_raise_irq\<close>. The test reads \<open>cq->qflags\<close>, the internal flag word of
  the queue, against \<open>NVME_CQ_IRQ_ENABLED\<close>.
\<close>

definition pci_epf_nvme_raise_irq :: "pci_epf_nvme \<Rightarrow> pci_epf_nvme_queue \<Rightarrow> pci_epf_nvme" where
  "pci_epf_nvme_raise_irq s cq0 =
     (if qflags cq0 AND NVME_CQ_IRQ_ENABLED = 0 then s
      else if irq_type s = PCI_IRQ_MSIX \<or> irq_type s = PCI_IRQ_MSI then
        (let n = unat (vector cq0) + 1;
             s1 = s\<lparr>irq_log := irq_log s @ [(irq_type s, n)]\<rparr>
         in if epc_raise_irq s (irq_type s) n = 0 then s1
            else s1\<lparr>irq_log := irq_log s1 @ [(PCI_IRQ_INTX, 0)]\<rparr>)
      else if irq_type s = PCI_IRQ_INTX then s\<lparr>irq_log := irq_log s @ [(PCI_IRQ_INTX, 0)]\<rparr>
      else s)"

subsection \<open>Posting a completion\<close>

text \<open>
  The end of \<open>pci_epf_nvme_queue_response\<close> ("Advance the tail"): \<open>tail\<close> is a \<open>u16\<close>
  and wraps on increment; the comparison with \<open>depth\<close> is unsigned.
\<close>

definition cq_advance_tail :: "pci_epf_nvme_queue \<Rightarrow> pci_epf_nvme_queue" where
  "cq_advance_tail q =
     (let q1 = q\<lparr>tail := tail q + 1\<rparr>
      in if tail q1 \<ge> depth q1 then q1\<lparr>tail := 0, phase := phase q1 XOR 1\<rparr> else q1)"

text \<open>
  \<open>pci_epf_nvme_queue_response\<close>. The result is the \<open>bool\<close> the function returns and
  the new state. The ring-full test compares \<open>cq->head\<close> with \<open>cq->tail + 1\<close> after the
  integer promotions, so the sum does not wrap. The completion entry goes to the host
  at the PCI address of slot \<open>tail\<close>.
\<close>

definition pci_epf_nvme_queue_response ::
  "pci_epf_nvme \<Rightarrow> pci_epf_nvme_cmd \<Rightarrow> fault + (bool \<times> pci_epf_nvme)" where
  "pci_epf_nvme_queue_response s epcmd =
     (if \<not> pci_epf_nvme_ctrl_ready s then Inr (True, pci_epf_nvme_free_cmd s epcmd)
      else case queue_at (cq (ctrl s)) (cqid_c epcmd) of
        Inl f \<Rightarrow> Inl f
      | Inr cq0 \<Rightarrow>
          if qflags cq0 AND PCI_EPF_NVME_QUEUE_LIVE = 0
          then Inr (True, pci_epf_nvme_free_cmd s epcmd)
          else
            let cq1 = cq0\<lparr>head := ucast (pci_epf_nvme_reg_read32 (ctrl s) (db cq0))\<rparr>
            in if uint (head cq1) = uint (tail cq1) + 1
               then Inr (False, set_cq s (cqid_c epcmd) cq1)
               else case queue_at (sq (ctrl s)) (sqid epcmd) of
                 Inl f \<Rightarrow> Inl f
               | Inr sq0 \<Rightarrow>
                   let cqe1 = (cqe epcmd)\<lparr>sq_head := head sq0,
                                sq_id := of_nat (sqid epcmd),
                                command_id := command_id_c (cmd epcmd),
                                status_e := ucast (push_bit 1 (status epcmd) OR ucast (phase cq1))\<rparr>;
                       epcmd1 = epcmd\<lparr>cqe := cqe1\<rparr>;
                       s1 = s\<lparr>host_cq := (host_cq s)(pci_addr cq1 + ucast (tail cq1) * qes cq1 \<mapsto> cqe1)\<rparr>;
                       s2 = set_cq s1 (cqid_c epcmd) (cq_advance_tail cq1)
                   in if sqid epcmd \<noteq> 0 \<and> opcode (cmd epcmd) = nvme_cmd_write
                      then Inr (True, s2\<lparr>evil_wq := evil_wq s2 @ [epcmd1]\<rparr>)
                      else Inr (True, pci_epf_nvme_free_cmd s2 epcmd1))"

subsection \<open>The completion queue work\<close>

definition pci_epf_nvme_map_queue :: "pci_epf_nvme \<Rightarrow> pci_epf_nvme_queue \<Rightarrow> int" where
  "pci_epf_nvme_map_queue s q =
     (case epc_mem_map s (pci_addr q) (pci_size q) of
        (ret, mapped) \<Rightarrow>
          if ret \<noteq> 0 then ret
          else if mapped < pci_size q then - ENOMEM
          else 0)"

text \<open>
  The inner loop of \<open>pci_epf_nvme_cq_work\<close> over the local list: each command is
  unlinked from the list and then given to \<open>pci_epf_nvme_queue_response\<close>; the loop
  stops at the first command that is not posted. The result is the state and what is
  left of the local list.
\<close>

fun cq_work_post :: "pci_epf_nvme \<Rightarrow> pci_epf_nvme_cmd list \<Rightarrow> fault + (pci_epf_nvme \<times> pci_epf_nvme_cmd list)" where
  "cq_work_post s [] = Inr (s, [])"
| "cq_work_post s (epcmd # rest) =
     (case pci_epf_nvme_queue_response s epcmd of
        Inl f \<Rightarrow> Inl f
      | Inr (posted, s1) \<Rightarrow> if \<not> posted then Inr (s1, rest) else cq_work_post s1 rest)"

lemma queue_response_list:
  assumes "pci_epf_nvme_queue_response s epcmd = Inr (b, s1)"
  shows "map list (cq (ctrl s1)) = map list (cq (ctrl s))"
proof -
  have upd: "\<And>qs i q. i < length qs \<Longrightarrow> list q = list (qs ! i) \<Longrightarrow> map list (qs[i := q]) = map list qs"
    by (simp add: map_update list_update_same_conv)
  show ?thesis
    using assms
    by (auto simp: pci_epf_nvme_queue_response_def pci_epf_nvme_free_cmd_def set_cq_def
        queue_at_def cq_advance_tail_def Let_def upd
        split: if_splits sum.splits)
qed

lemma cq_work_post_list:
  "cq_work_post s l = Inr (s1, rest) \<Longrightarrow> map list (cq (ctrl s1)) = map list (cq (ctrl s))"
proof (induction l arbitrary: s)
  case Nil
  then show ?case by simp
next
  case (Cons epcmd l)
  then show ?case
    by (auto split: sum.splits if_splits dest: queue_response_list)
qed

lemma raise_irq_ctrl: "ctrl (pci_epf_nvme_raise_irq s q) = ctrl s"
  by (simp add: pci_epf_nvme_raise_irq_def Let_def)

text \<open>
  The outer loop of \<open>pci_epf_nvme_cq_work\<close> for the completion queue in slot \<open>qi\<close>,
  with the local list \<open>l\<close>: while the list of the queue is not empty, it is spliced
  to the tail of the local list, the queue is mapped (on failure the work is scheduled
  again and the function returns), the local list is posted, and an interrupt is raised
  if the controller is ready. The \<open>bool\<close> of the result says that the function returned
  from inside the loop; the list is the local list at that point.
\<close>

function cq_work_loop ::
  "pci_epf_nvme \<Rightarrow> nat \<Rightarrow> pci_epf_nvme_cmd list \<Rightarrow> fault + (bool \<times> pci_epf_nvme \<times> pci_epf_nvme_cmd list)" where
  "cq_work_loop s qi l =
     (case queue_at (cq (ctrl s)) qi of
        Inl f \<Rightarrow> Inl f
      | Inr cq0 \<Rightarrow>
          if list cq0 = [] then Inr (False, s, l)
          else
            let l1 = l @ list cq0;
                cq1 = cq0\<lparr>list := []\<rparr>;
                s1 = set_cq s qi cq1
            in if pci_epf_nvme_map_queue s1 cq1 \<noteq> 0
               then Inr (True, s1\<lparr>work_queued := work_queued s1 @ [CQ qi]\<rparr>, l1)
               else case cq_work_post s1 l1 of
                 Inl f \<Rightarrow> Inl f
               | Inr (s2, l2) \<Rightarrow>
                   (case queue_at (cq (ctrl s2)) qi of
                      Inl f \<Rightarrow> Inl f
                    | Inr cq2 \<Rightarrow>
                        cq_work_loop
                          (if pci_epf_nvme_ctrl_ready s2 then pci_epf_nvme_raise_irq s2 cq2 else s2)
                          qi l2))"
  by pat_completeness auto
termination
proof (relation "measure (\<lambda>(s, qi, l). case queue_at (cq (ctrl s)) qi of Inl f \<Rightarrow> 0 | Inr q \<Rightarrow> length (list q))")
  show "wf (measure (\<lambda>(s, qi, l). case queue_at (cq (ctrl s)) qi of Inl f \<Rightarrow> 0 | Inr q \<Rightarrow> length (list q)))"
    by simp
next
  fix s :: pci_epf_nvme and qi :: nat and l :: "pci_epf_nvme_cmd list"
    and cq0 l1 cq1 s1 x2 s2 l2 cq2
  assume a: "queue_at (cq (ctrl s)) qi = Inr cq0" "list cq0 \<noteq> []"
    "cq1 = cq0\<lparr>list := []\<rparr>" "s1 = set_cq s qi cq1"
    "cq_work_post s1 l1 = Inr x2" "(s2, l2) = x2"
    "queue_at (cq (ctrl s2)) qi = Inr cq2"
  from a have post: "cq_work_post s1 l1 = Inr (s2, l2)" by simp
  from a have lt: "qi < length (cq (ctrl s))"
    by (simp add: queue_at_def split: if_splits)
  have "map list (cq (ctrl s2)) = map list (cq (ctrl s1))"
    using post by (rule cq_work_post_list)
  moreover have "list (cq (ctrl s1) ! qi) = []"
    using a lt by (simp add: set_cq_def)
  moreover have len: "length (cq (ctrl s1)) = length (cq (ctrl s))"
    using a by (simp add: set_cq_def)
  ultimately have l2e: "list (cq (ctrl s2) ! qi) = []" and len2: "qi < length (cq (ctrl s2))"
    using lt by (metis length_map nth_map)+
  have "list cq2 = []"
    using a l2e len2 by (simp add: queue_at_def split: if_splits)
  then show "((if pci_epf_nvme_ctrl_ready s2 then pci_epf_nvme_raise_irq s2 cq2 else s2, qi, l2), s, qi, l)
      \<in> measure (\<lambda>(s, qi, l). case queue_at (cq (ctrl s)) qi of Inl f \<Rightarrow> 0 | Inr q \<Rightarrow> length (list q))"
    using a by (simp add: raise_irq_ctrl)
qed

declare cq_work_loop.simps [simp del]

text \<open>
  With no other work item running, nothing is linked on the queue while the local list
  is posted, so the loop body runs at most once.
\<close>

lemma cq_work_post_list_empty:
  assumes q0: "queue_at (cq (ctrl s)) qi = Inr cq0"
    and post: "cq_work_post (set_cq s qi (cq0\<lparr>list := []\<rparr>)) l1 = Inr (s2, l2)"
    and q2: "queue_at (cq (ctrl s2)) qi = Inr cq2"
  shows "list cq2 = []"
proof -
  let ?s1 = "set_cq s qi (cq0\<lparr>list := []\<rparr>)"
  from q0 have lt: "qi < length (cq (ctrl s))"
    by (simp add: queue_at_def split: if_splits)
  have m: "map list (cq (ctrl s2)) = map list (cq (ctrl ?s1))"
    using post by (rule cq_work_post_list)
  have e: "list (cq (ctrl ?s1) ! qi) = []"
    using lt by (simp add: set_cq_def)
  have len: "length (cq (ctrl ?s1)) = length (cq (ctrl s))"
    by (simp add: set_cq_def)
  from m e len lt have "list (cq (ctrl s2) ! qi) = []" and "qi < length (cq (ctrl s2))"
    by (metis length_map nth_map)+
  with q2 show ?thesis
    by (simp add: queue_at_def split: if_splits)
qed

lemma cq_work_loop_unfold:
  "cq_work_loop s qi l =
     (case queue_at (cq (ctrl s)) qi of
        Inl f \<Rightarrow> Inl f
      | Inr cq0 \<Rightarrow>
          if list cq0 = [] then Inr (False, s, l)
          else
            let l1 = l @ list cq0;
                cq1 = cq0\<lparr>list := []\<rparr>;
                s1 = set_cq s qi cq1
            in if pci_epf_nvme_map_queue s1 cq1 \<noteq> 0
               then Inr (True, s1\<lparr>work_queued := work_queued s1 @ [CQ qi]\<rparr>, l1)
               else case cq_work_post s1 l1 of
                 Inl f \<Rightarrow> Inl f
               | Inr (s2, l2) \<Rightarrow>
                   (case queue_at (cq (ctrl s2)) qi of
                      Inl f \<Rightarrow> Inl f
                    | Inr cq2 \<Rightarrow>
                        Inr (False,
                          if pci_epf_nvme_ctrl_ready s2 then pci_epf_nvme_raise_irq s2 cq2 else s2,
                          l2)))"
proof (cases "queue_at (cq (ctrl s)) qi")
  case (Inl f)
  then show ?thesis by (subst cq_work_loop.simps) simp
next
  case q0: (Inr cq0)
  show ?thesis
  proof (cases "list cq0 = []")
    case True
    with q0 show ?thesis by (subst cq_work_loop.simps) simp
  next
    case ne: False
    let ?s1 = "set_cq s qi (cq0\<lparr>list := []\<rparr>)"
    show ?thesis
    proof (cases "pci_epf_nvme_map_queue ?s1 (cq0\<lparr>list := []\<rparr>) \<noteq> 0")
      case True
      with q0 ne show ?thesis by (subst cq_work_loop.simps) (simp add: Let_def)
    next
      case mq: False
      show ?thesis
      proof (cases "cq_work_post ?s1 (l @ list cq0)")
        case (Inl f)
        with q0 ne mq show ?thesis by (subst cq_work_loop.simps) (simp add: Let_def)
      next
        case (Inr p)
        obtain s2 l2 where p: "p = (s2, l2)" by (cases p)
        note post = Inr[unfolded p]
        show ?thesis
        proof (cases "queue_at (cq (ctrl s2)) qi")
          case (Inl f)
          with q0 ne mq post show ?thesis by (subst cq_work_loop.simps) (simp add: Let_def)
        next
          case q2: (Inr cq2)
          have e: "list cq2 = []"
            using q0 post q2 by (rule cq_work_post_list_empty)
          let ?s3 = "if pci_epf_nvme_ctrl_ready s2 then pci_epf_nvme_raise_irq s2 cq2 else s2"
          have "queue_at (cq (ctrl ?s3)) qi = Inr cq2"
            using q2 by (simp add: raise_irq_ctrl)
          then have stop: "cq_work_loop ?s3 qi l2 = Inr (False, ?s3, l2)"
            using e by (subst cq_work_loop.simps) simp
          show ?thesis
            by (subst cq_work_loop.simps) (simp add: q0 ne mq post q2 stop Let_def del: cq_work_loop.simps)
        qed
      qed
    qed
  qed
qed

text \<open>
  \<open>pci_epf_nvme_cq_work\<close>. After the loop the work of the submission queue bound to
  an I/O completion queue is scheduled. The local list head lives on the stack of the
  function: the commands still linked on it when the function returns are on no list
  of the driver any more. They are the second component of the result. The function
  reads the list of the queue first (a head that is not initialised is not empty and
  splicing it dereferences NULL) and uses the back pointer \<open>cq->epf_nvme\<close> to map the
  queue and to schedule the submission queue work.
\<close>

definition pci_epf_nvme_cq_work ::
  "pci_epf_nvme \<Rightarrow> nat \<Rightarrow> fault + (pci_epf_nvme \<times> pci_epf_nvme_cmd list)" where
  "pci_epf_nvme_cq_work s qi =
     (case queue_at (cq (ctrl s)) qi of
        Inl f \<Rightarrow> Inl f
      | Inr cqa \<Rightarrow>
          if \<not> list_ok cqa then Inl NullPointer
          else if \<not> epf_nvme_p cqa \<and> (list cqa \<noteq> [] \<or> qid cqa \<noteq> 0) then Inl NullPointer
          else
            case cq_work_loop s qi [] of
              Inl f \<Rightarrow> Inl f
            | Inr (returned, s1, l) \<Rightarrow>
                if returned then Inr (s1, l)
                else case queue_at (cq (ctrl s1)) qi of
                  Inl f \<Rightarrow> Inl f
                | Inr cq0 \<Rightarrow>
                    if qid cq0 \<noteq> 0 then
                      (case sq_q cq0 of
                         None \<Rightarrow> Inl NullPointer
                       | Some i \<Rightarrow> Inr (s1\<lparr>work_queued := work_queued s1 @ [SQ i]\<rparr>, l))
                    else Inr (s1, l))"

subsection \<open>Queue creation and deletion\<close>

text \<open>
  \<open>pci_epf_nvme_delete_queue\<close> for the queue a pointer points to: the queue is marked
  not live, its workqueue is destroyed and the commands linked on it are freed in order.
  The loop \<open>while (!list_empty(&q->list))\<close> on a list head that is not initialised
  takes the first entry through the NULL \<open>next\<close> pointer.
\<close>

definition delete_queue_fields :: "pci_epf_nvme_queue \<Rightarrow> pci_epf_nvme_queue" where
  "delete_queue_fields q =
     q\<lparr>qflags := qflags q AND NOT PCI_EPF_NVME_QUEUE_LIVE, cmd_wq := False, list := []\<rparr>"

definition pci_epf_nvme_delete_queue :: "pci_epf_nvme \<Rightarrow> queue_ref \<Rightarrow> fault + pci_epf_nvme" where
  "pci_epf_nvme_delete_queue s r =
     (case r of
        SQ i \<Rightarrow>
          (case queue_at (sq (ctrl s)) i of
             Inl f \<Rightarrow> Inl f
           | Inr q \<Rightarrow>
               if \<not> list_ok q then Inl NullPointer
               else
                 let s1 = set_sq s i (delete_queue_fields q)
                 in Inr (s1\<lparr>freed := freed s1 @ list q, deleted := deleted s1 @ [SQ i]\<rparr>))
      | CQ i \<Rightarrow>
          (case queue_at (cq (ctrl s)) i of
             Inl f \<Rightarrow> Inl f
           | Inr q \<Rightarrow>
               if \<not> list_ok q then Inl NullPointer
               else
                 let s1 = set_cq s i (delete_queue_fields q)
                 in Inr (s1\<lparr>freed := freed s1 @ list q, deleted := deleted s1 @ [CQ i]\<rparr>)))"

text \<open>
  \<open>pci_epf_nvme_create_cq\<close>. The \<open>int\<close> arguments are stored into \<open>u16\<close> fields. The
  function always returns 0.
\<close>

definition pci_epf_nvme_create_cq ::
  "pci_epf_nvme \<Rightarrow> nat \<Rightarrow> int \<Rightarrow> int \<Rightarrow> int \<Rightarrow> u64 \<Rightarrow> fault + (int \<times> pci_epf_nvme)" where
  "pci_epf_nvme_create_cq s qid_a flags_a size_a vector_a pci_addr_a =
     (case queue_at (cq (ctrl s)) qid_a of
        Inl f \<Rightarrow> Inl f
      | Inr cq0 \<Rightarrow>
          let cq1 = cq0\<lparr>ref := ref cq0 + 1\<rparr>
          in if ref cq1 > 1 then Inr (0, set_cq s qid_a cq1)
             else
               let dbv = NVME_REG_DBS + of_nat (((qid_a * 2) + 1) * 4);
                   cq2 = cq1\<lparr>pci_addr := pci_addr_a, qid := of_nat qid_a, cqid := of_nat qid_a,
                           size_q := of_int size_a, flags := of_int flags_a,
                           depth := of_int (size_a + 1), vector := of_int vector_a,
                           head := 0, tail := 0, phase := 1, db := dbv\<rparr>;
                   c1 = pci_epf_nvme_reg_write32 (ctrl s) dbv 0;
                   cq3 = cq2\<lparr>qes := (if qid_a = 0 then adm_cqes c1 else io_cqes c1)\<rparr>;
                   cq4 = cq3\<lparr>pci_size := qes cq3 * ucast (depth cq3),
                           qflags := PCI_EPF_NVME_QUEUE_LIVE\<rparr>
               in Inr (0, set_cq (s\<lparr>ctrl := c1\<rparr>) qid_a cq4))"

definition pci_epf_nvme_delete_cq :: "pci_epf_nvme \<Rightarrow> nat \<Rightarrow> fault + pci_epf_nvme" where
  "pci_epf_nvme_delete_cq s qid_a =
     (case queue_at (cq (ctrl s)) qid_a of
        Inl f \<Rightarrow> Inl f
      | Inr cq0 \<Rightarrow>
          if ref cq0 < 1 then Inr s
          else
            let cq1 = cq0\<lparr>ref := ref cq0 - 1\<rparr>;
                s1 = set_cq s qid_a cq1
            in if ref cq1 \<noteq> 0 then Inr s1
               else pci_epf_nvme_delete_queue s1 (CQ qid_a))"

text \<open>
  A queue structure whose bytes are all 0, as \<open>kcalloc\<close> and \<open>memset\<close> leave it: every
  pointer is NULL, the back pointer \<open>epf_nvme\<close> and the two pointers of the list head
  included.
\<close>

definition zero_queue :: pci_epf_nvme_queue where
  "zero_queue =
     \<lparr>epf_nvme_p = False, qflags = 0, ref = 0, pci_addr = 0, pci_size = 0, qid = 0, cqid = 0,
      size_q = 0, depth = 0, flags = 0, vector = 0, head = 0, tail = 0, phase = 0, db = 0,
      qes = 0, cmd_wq = False, list_ok = False, list = [], sq_q = None\<rparr>"

text \<open>
  \<open>pci_epf_nvme_alloc_queues\<close>: an array of \<open>nr_queues\<close> zeroed queues in which the loop
  sets the back pointer and initialises the list head of every slot; NULL (\<open>None\<close>)
  when \<open>kcalloc\<close> fails. This is the only place where a list head of a queue is
  initialised.
\<close>

definition pci_epf_nvme_alloc_queues :: "pci_epf_nvme \<Rightarrow> int \<Rightarrow> pci_epf_nvme_queue list option" where
  "pci_epf_nvme_alloc_queues s n =
     (if n < 0 \<or> \<not> kcalloc_ok s then None
      else Some (replicate (nat n) (zero_queue\<lparr>epf_nvme_p := True, list_ok := True\<rparr>)))"

text \<open>
  \<open>pci_epf_nvme_create_sq\<close>. When the workqueue cannot be allocated the slot is
  cleared with \<open>memset(sq, 0, sizeof(*sq))\<close> and \<open>-ENOMEM\<close> is returned: the slot is
  then \<open>zero_queue\<close>, with no back pointer and no list head, and nothing in the function
  sets them again when the same slot is created later.
\<close>

definition pci_epf_nvme_create_sq ::
  "pci_epf_nvme \<Rightarrow> nat \<Rightarrow> nat \<Rightarrow> int \<Rightarrow> int \<Rightarrow> u64 \<Rightarrow> fault + (int \<times> pci_epf_nvme)" where
  "pci_epf_nvme_create_sq s qid_a cqid_a flags_a size_a pci_addr_a =
     (case queue_at (sq (ctrl s)) qid_a of
        Inl f \<Rightarrow> Inl f
      | Inr sq0 \<Rightarrow>
          let dbv = NVME_REG_DBS + of_nat (qid_a * 2 * 4);
              sq1 = sq0\<lparr>qflags := PCI_EPF_NVME_QUEUE_IS_SQ, pci_addr := pci_addr_a, ref := 1,
                      qid := of_nat qid_a, cqid := of_nat cqid_a, size_q := of_int size_a,
                      flags := of_int flags_a, depth := of_int (size_a + 1),
                      head := 0, tail := 0, phase := 0, db := dbv\<rparr>;
              c1 = pci_epf_nvme_reg_write32 (ctrl s) dbv 0;
              sq2 = sq1\<lparr>qes := (if qid_a = 0 then adm_sqes c1 else io_sqes c1)\<rparr>;
              sq3 = sq2\<lparr>pci_size := qes sq2 * ucast (depth sq2)\<rparr>;
              s1 = s\<lparr>ctrl := c1\<rparr>
          in if \<not> alloc_workqueue_ok s
             then Inr (- ENOMEM, set_sq s1 qid_a zero_queue)
             else
               let s2 = set_sq s1 qid_a (sq3\<lparr>cmd_wq := True\<rparr>)
               in case queue_at (cq (ctrl s2)) cqid_a of
                 Inl f \<Rightarrow> Inl f
               | Inr cq0 \<Rightarrow>
                   let s3 = set_cq s2 cqid_a (cq0\<lparr>ref := ref cq0 + 1, sq_q := Some qid_a\<rparr>)
                   in Inr (0, set_sq s3 qid_a
                                (sq3\<lparr>cmd_wq := True,
                                     qflags := qflags sq3 OR PCI_EPF_NVME_QUEUE_LIVE\<rparr>)))"

definition pci_epf_nvme_delete_sq :: "pci_epf_nvme \<Rightarrow> nat \<Rightarrow> fault + pci_epf_nvme" where
  "pci_epf_nvme_delete_sq s qid_a =
     (case queue_at (sq (ctrl s)) qid_a of
        Inl f \<Rightarrow> Inl f
      | Inr sq0 \<Rightarrow>
          if ref sq0 = 0 then Inr s
          else
            let sq1 = sq0\<lparr>ref := ref sq0 - 1\<rparr>;
                s1 = set_sq s qid_a sq1
            in if ref sq1 \<noteq> 0 then Inr s1
               else case pci_epf_nvme_delete_queue s1 (SQ qid_a) of
                 Inl f \<Rightarrow> Inl f
               | Inr s2 \<Rightarrow>
                   (case queue_at (cq (ctrl s2)) (unat (cqid sq1)) of
                      Inl f \<Rightarrow> Inl f
                    | Inr cq0 \<Rightarrow>
                        if ref cq0 \<noteq> 0
                        then Inr (set_cq s2 (unat (cqid sq1)) (cq0\<lparr>ref := ref cq0 - 1\<rparr>))
                        else Inr s2))"

subsection \<open>Disabling the controller\<close>

text \<open>The two loops \<open>for (qid = 1; qid < ctrl->nr_queues; qid++)\<close> of the function.\<close>

fun delete_sq_loop :: "pci_epf_nvme \<Rightarrow> nat list \<Rightarrow> fault + pci_epf_nvme" where
  "delete_sq_loop s [] = Inr s"
| "delete_sq_loop s (q # qs) =
     (case pci_epf_nvme_delete_sq s q of Inl f \<Rightarrow> Inl f | Inr s1 \<Rightarrow> delete_sq_loop s1 qs)"

fun delete_cq_loop :: "pci_epf_nvme \<Rightarrow> nat list \<Rightarrow> fault + pci_epf_nvme" where
  "delete_cq_loop s [] = Inr s"
| "delete_cq_loop s (q # qs) =
     (case pci_epf_nvme_delete_cq s q of Inl f \<Rightarrow> Inl f | Inr s1 \<Rightarrow> delete_cq_loop s1 qs)"

text \<open>The end of the function ("Tell the host we are done").\<close>

definition disable_ctrl_regs :: "pci_epf_nvme \<Rightarrow> pci_epf_nvme" where
  "disable_ctrl_regs s =
     (let c0 = ctrl s;
          c1 = c0\<lparr>csts := csts c0 AND NOT NVME_CSTS_RDY\<rparr>;
          c2 = (if cc c1 AND NVME_CC_SHN_NORMAL \<noteq> 0
                then c1\<lparr>csts := csts c1 OR NVME_CSTS_SHST_CMPLT,
                        cc := cc c1 AND NOT NVME_CC_SHN_NORMAL\<rparr>
                else c1);
          c3 = c2\<lparr>cc := cc c2 AND NOT NVME_CC_ENABLE\<rparr>;
          c4 = pci_epf_nvme_reg_write32 c3 NVME_REG_CSTS (csts c3);
          c5 = pci_epf_nvme_reg_write32 c4 NVME_REG_CC (cc c4)
      in s\<lparr>ctrl := c5, ctrl_enabled := False\<rparr>)"

definition pci_epf_nvme_disable_ctrl :: "pci_epf_nvme \<Rightarrow> fault + pci_epf_nvme" where
  "pci_epf_nvme_disable_ctrl s =
     (if \<not> ctrl_enabled s then Inr s
      else case delete_sq_loop s [1..<unat (nr_queues (ctrl s))] of
        Inl f \<Rightarrow> Inl f
      | Inr s1 \<Rightarrow>
          (case delete_cq_loop s1 [1..<unat (nr_queues (ctrl s1))] of
             Inl f \<Rightarrow> Inl f
           | Inr s2 \<Rightarrow>
               (case pci_epf_nvme_delete_sq s2 0 of
                  Inl f \<Rightarrow> Inl f
                | Inr s3 \<Rightarrow>
                    (case pci_epf_nvme_delete_cq s3 0 of
                       Inl f \<Rightarrow> Inl f
                     | Inr s4 \<Rightarrow> Inr (disable_ctrl_regs s4)))))"

text \<open>What the teardown functions keep: the registers and the shape of the arrays.\<close>

definition ctrl_frame ::
  "pci_epf_nvme \<Rightarrow> (u32 \<Rightarrow> u32) \<times> u32 \<times> u32 \<times> u32 \<times> bool \<times> nat \<times> nat \<times> u16 list \<times> bool list \<times> bool list" where
  "ctrl_frame s =
     (reg (ctrl s), cc (ctrl s), csts (ctrl s), nr_queues (ctrl s), ctrl_enabled s,
      length (sq (ctrl s)), length (cq (ctrl s)), map cqid (sq (ctrl s)),
      map list_ok (sq (ctrl s)), map list_ok (cq (ctrl s)))"

text \<open>
  The queues of the controller are well formed for the teardown: the arrays have
  \<open>nr_queues\<close> slots, every submission queue names a completion queue in range, and
  every list head is initialised.
\<close>

definition queues_wf :: "pci_epf_nvme \<Rightarrow> bool" where
  "queues_wf s =
     (length (sq (ctrl s)) = unat (nr_queues (ctrl s)) \<and>
      length (cq (ctrl s)) = unat (nr_queues (ctrl s)) \<and>
      0 < unat (nr_queues (ctrl s)) \<and>
      list_all (\<lambda>c. unat c < unat (nr_queues (ctrl s))) (map cqid (sq (ctrl s))) \<and>
      list_all (\<lambda>b. b) (map list_ok (sq (ctrl s))) \<and>
      list_all (\<lambda>b. b) (map list_ok (cq (ctrl s))))"

subsection \<open>Enabling the controller, polling the configuration register\<close>

definition pci_epf_nvme_reg_read64 :: "pci_epf_nvme_ctrl \<Rightarrow> u32 \<Rightarrow> u64" where
  "pci_epf_nvme_reg_read64 c r =
     ucast (pci_epf_nvme_reg_read32 c r) OR push_bit 32 (ucast (pci_epf_nvme_reg_read32 c (r + 4)))"

text \<open>\<open>GENMASK(63, 12)\<close>.\<close>

definition GENMASK_63_12 :: u64 where
  "GENMASK_63_12 = NOT 0xfff"

text \<open>
  \<open>pci_epf_nvme_enable_ctrl\<close>: the sizes are taken from the configuration register,
  the admin queue attributes are read from the BAR, the admin completion and submission
  queues are created, the ready bit is published and the work of the admin submission
  queue is scheduled.
\<close>

definition pci_epf_nvme_enable_ctrl :: "pci_epf_nvme \<Rightarrow> fault + pci_epf_nvme" where
  "pci_epf_nvme_enable_ctrl s =
     (let c0 = ctrl s;
          c1 = c0\<lparr>mdts := mdts_kb s * SZ_1K\<rparr>;
          sh = unat (drop_bit NVME_CC_MPS_SHIFT (cc c1) AND 0xf) + 12;
          c2 = c1\<lparr>mps_shift := sh, mps := push_bit sh 1, mps_mask := push_bit sh 1 - 1\<rparr>;
          c3 = c2\<lparr>adm_sqes := push_bit NVME_ADM_SQES 1, adm_cqes := sizeof_nvme_completion,
                  io_sqes := push_bit (unat (drop_bit NVME_CC_IOSQES_SHIFT (cc c2) AND 0xf)) 1,
                  io_cqes := push_bit (unat (drop_bit NVME_CC_IOCQES_SHIFT (cc c2) AND 0xf)) 1\<rparr>
      in if io_sqes c3 < sizeof_nvme_command then Inr (s\<lparr>ctrl := c3\<rparr>)
         else if io_cqes c3 < sizeof_nvme_completion then Inr (s\<lparr>ctrl := c3\<rparr>)
         else
           let c4 = c3\<lparr>aqa := pci_epf_nvme_reg_read32 c3 NVME_REG_AQA,
                       asq := pci_epf_nvme_reg_read64 c3 NVME_REG_ASQ,
                       acq := pci_epf_nvme_reg_read64 c3 NVME_REG_ACQ\<rparr>
           in case pci_epf_nvme_create_cq (s\<lparr>ctrl := c4\<rparr>) 0
                     (uint (NVME_QUEUE_PHYS_CONTIG OR NVME_CQ_IRQ_ENABLED))
                     (uint (drop_bit 16 (aqa c4 AND 0x0fff0000))) 0 (acq c4 AND GENMASK_63_12) of
                Inl f \<Rightarrow> Inl f
              | Inr (ret, s1) \<Rightarrow>
                  if ret \<noteq> 0 then Inr s1
                  else case pci_epf_nvme_create_sq s1 0 0 (uint NVME_QUEUE_PHYS_CONTIG)
                              (uint (aqa (ctrl s1) AND 0x0fff)) (asq (ctrl s1) AND GENMASK_63_12) of
                    Inl f \<Rightarrow> Inl f
                  | Inr (ret1, s2) \<Rightarrow>
                      if ret1 \<noteq> 0 then pci_epf_nvme_delete_cq s2 0
                      else
                        let c5 = (ctrl s2)\<lparr>csts := csts (ctrl s2) OR NVME_CSTS_RDY\<rparr>;
                            c6 = pci_epf_nvme_reg_write32 c5 NVME_REG_CSTS (csts c5)
                        in Inr (s2\<lparr>ctrl := c6, work_queued := work_queued s2 @ [SQ 0],
                                   ctrl_enabled := True\<rparr>))"

text \<open>The statement \<open>ctrl->cc = pci_epf_nvme_reg_read32(ctrl, NVME_REG_CC)\<close> of the poll.\<close>

definition cc_polled :: "pci_epf_nvme \<Rightarrow> pci_epf_nvme" where
  "cc_polled s = s\<lparr>ctrl := (ctrl s)\<lparr>cc := pci_epf_nvme_reg_read32 (ctrl s) NVME_REG_CC\<rparr>\<rparr>"

text \<open>
  \<open>pci_epf_nvme_reg_poll\<close>, the work item that polls the configuration register of
  the BAR (it schedules itself again on every path), and \<open>pci_epf_nvme_link_down\<close>.
\<close>

definition pci_epf_nvme_reg_poll :: "pci_epf_nvme \<Rightarrow> fault + pci_epf_nvme" where
  "pci_epf_nvme_reg_poll s =
     (if \<not> reg_bar s then Inr s
      else
        let old_cc = cc (ctrl s);
            s1 = cc_polled s;
            new_cc = cc (ctrl s1)
        in if old_cc AND NVME_CC_ENABLE = 0 \<and> new_cc AND NVME_CC_ENABLE = 0 then Inr s1
           else if old_cc AND NVME_CC_ENABLE = 0 \<and> new_cc AND NVME_CC_ENABLE \<noteq> 0
           then pci_epf_nvme_enable_ctrl s1
           else if (old_cc AND NVME_CC_ENABLE \<noteq> 0 \<and> new_cc AND NVME_CC_ENABLE = 0) \<or>
                   new_cc AND NVME_CC_SHN_NORMAL \<noteq> 0
           then pci_epf_nvme_disable_ctrl s1
           else Inr s1)"

definition pci_epf_nvme_link_down :: "pci_epf_nvme \<Rightarrow> fault + pci_epf_nvme" where
  "pci_epf_nvme_link_down s = pci_epf_nvme_disable_ctrl (s\<lparr>link_up := False\<rparr>)"

subsection \<open>The create-queue admin commands\<close>

text \<open>
  \<open>pci_epf_nvme_process_create_cq\<close>: the result is the state and the command, whose
  status the function sets on failure.
\<close>

definition pci_epf_nvme_process_create_cq ::
  "pci_epf_nvme \<Rightarrow> pci_epf_nvme_cmd \<Rightarrow> fault + (pci_epf_nvme \<times> pci_epf_nvme_cmd)" where
  "pci_epf_nvme_process_create_cq s epcmd =
     (let mqes = NVME_CAP_MQES (cap (ctrl s));
          cqid_v = create_cq_cqid (cmd epcmd)
      in case (if uint cqid_v \<ge> uint (nr_queues (ctrl s)) then Inr True
               else case queue_at (cq (ctrl s)) (unat cqid_v) of
                      Inl f \<Rightarrow> Inl f
                    | Inr cq0 \<Rightarrow> Inr (ref cq0 \<noteq> 0)) of
           Inl f \<Rightarrow> Inl f
         | Inr True \<Rightarrow> Inr (s, epcmd\<lparr>status := NVME_SC_QID_INVALID OR NVME_STATUS_DNR\<rparr>)
         | Inr False \<Rightarrow>
             let cq_flags = create_cq_cq_flags (cmd epcmd)
             in if ucast cq_flags AND NVME_QUEUE_PHYS_CONTIG = 0
                then Inr (s, epcmd\<lparr>status := NVME_SC_INVALID_QUEUE OR NVME_STATUS_DNR\<rparr>)
                else
                  let qsize = create_cq_qsize (cmd epcmd)
                  in if qsize = 0 \<or> uint qsize > NVME_CAP_MQES (cap (ctrl s))
                     then Inr (s, epcmd\<lparr>status := NVME_SC_QUEUE_SIZE OR NVME_STATUS_DNR\<rparr>)
                     else
                       let vector_v = create_cq_irq_vector (cmd epcmd)
                       in if uint vector_v \<ge> uint (nr_vectors s)
                          then Inr (s, epcmd\<lparr>status := NVME_SC_INVALID_VECTOR OR NVME_STATUS_DNR\<rparr>)
                          else case pci_epf_nvme_create_cq s (unat cqid_v) (uint cq_flags)
                                      (uint qsize) (uint vector_v) (prp1 (cmd epcmd)) of
                            Inl f \<Rightarrow> Inl f
                          | Inr (ret, s1) \<Rightarrow>
                              if ret \<noteq> 0
                              then Inr (s1, epcmd\<lparr>status := NVME_SC_INTERNAL OR NVME_STATUS_DNR\<rparr>)
                              else Inr (s1, epcmd))"

text \<open>
  \<open>pci_epf_nvme_process_create_sq\<close>. The first test is
  \<open>!sqid || sqid > nr_queues || sq[sqid].ref\<close> and the second
  \<open>!cqid || !cq[cqid].ref\<close>: the array slots are read whenever the tests before them in
  the same condition are false.
\<close>

definition pci_epf_nvme_process_create_sq ::
  "pci_epf_nvme \<Rightarrow> pci_epf_nvme_cmd \<Rightarrow> fault + (pci_epf_nvme \<times> pci_epf_nvme_cmd)" where
  "pci_epf_nvme_process_create_sq s epcmd =
     (let mqes = NVME_CAP_MQES (cap (ctrl s));
          sqid_v = create_sq_sqid (cmd epcmd)
      in case (if sqid_v = 0 \<or> uint sqid_v > uint (nr_queues (ctrl s)) then Inr True
               else case queue_at (sq (ctrl s)) (unat sqid_v) of
                      Inl f \<Rightarrow> Inl f
                    | Inr sq0 \<Rightarrow> Inr (ref sq0 \<noteq> 0)) of
           Inl f \<Rightarrow> Inl f
         | Inr True \<Rightarrow> Inr (s, epcmd\<lparr>status := NVME_SC_QID_INVALID OR NVME_STATUS_DNR\<rparr>)
         | Inr False \<Rightarrow>
             let cqid_v = create_sq_cqid (cmd epcmd)
             in case (if cqid_v = 0 then Inr True
                      else case queue_at (cq (ctrl s)) (unat cqid_v) of
                             Inl f \<Rightarrow> Inl f
                           | Inr cq0 \<Rightarrow> Inr (ref cq0 = 0)) of
                  Inl f \<Rightarrow> Inl f
                | Inr True \<Rightarrow> Inr (s, epcmd\<lparr>status := NVME_SC_CQ_INVALID OR NVME_STATUS_DNR\<rparr>)
                | Inr False \<Rightarrow>
                    let sq_flags = create_sq_sq_flags (cmd epcmd)
                    in if ucast sq_flags AND NVME_QUEUE_PHYS_CONTIG = 0
                       then Inr (s, epcmd\<lparr>status := NVME_SC_INVALID_QUEUE OR NVME_STATUS_DNR\<rparr>)
                       else
                         let qsize = create_sq_qsize (cmd epcmd)
                         in if qsize = 0 \<or> uint qsize > mqes
                            then Inr (s, epcmd\<lparr>status := NVME_SC_QUEUE_SIZE OR NVME_STATUS_DNR\<rparr>)
                            else case pci_epf_nvme_create_sq s (unat sqid_v) (unat cqid_v)
                                        (uint sq_flags) (uint qsize) (prp1 (cmd epcmd)) of
                              Inl f \<Rightarrow> Inl f
                            | Inr (ret, s1) \<Rightarrow>
                                if ret \<noteq> 0
                                then Inr (s1, epcmd\<lparr>status := NVME_SC_INTERNAL OR NVME_STATUS_DNR\<rparr>)
                                else Inr (s1\<lparr>work_queued := work_queued s1 @ [SQ (unat sqid_v)]\<rparr>, epcmd))"

text \<open>
  \<open>pci_epf_nvme_process_delete_cq\<close> and \<open>pci_epf_nvme_process_delete_sq\<close>: the queue id
  must not be 0, must be below \<open>nr_queues\<close> and must name a queue in use. The handler of
  delete-CQ does not look at the submission queues bound to the completion queue.
\<close>

definition pci_epf_nvme_process_delete_cq ::
  "pci_epf_nvme \<Rightarrow> pci_epf_nvme_cmd \<Rightarrow> fault + (pci_epf_nvme \<times> pci_epf_nvme_cmd)" where
  "pci_epf_nvme_process_delete_cq s epcmd =
     (let cqid_v = delete_queue_qid (cmd epcmd)
      in case (if cqid_v = 0 \<or> uint cqid_v \<ge> uint (nr_queues (ctrl s)) then Inr True
               else case queue_at (cq (ctrl s)) (unat cqid_v) of
                      Inl f \<Rightarrow> Inl f
                    | Inr cq0 \<Rightarrow> Inr (ref cq0 = 0)) of
           Inl f \<Rightarrow> Inl f
         | Inr True \<Rightarrow> Inr (s, epcmd\<lparr>status := NVME_SC_QID_INVALID OR NVME_STATUS_DNR\<rparr>)
         | Inr False \<Rightarrow>
             (case pci_epf_nvme_delete_cq s (unat cqid_v) of
                Inl f \<Rightarrow> Inl f
              | Inr s1 \<Rightarrow> Inr (s1, epcmd)))"

definition pci_epf_nvme_process_delete_sq ::
  "pci_epf_nvme \<Rightarrow> pci_epf_nvme_cmd \<Rightarrow> fault + (pci_epf_nvme \<times> pci_epf_nvme_cmd)" where
  "pci_epf_nvme_process_delete_sq s epcmd =
     (let sqid_v = delete_queue_qid (cmd epcmd)
      in case (if sqid_v = 0 \<or> uint sqid_v \<ge> uint (nr_queues (ctrl s)) then Inr True
               else case queue_at (sq (ctrl s)) (unat sqid_v) of
                      Inl f \<Rightarrow> Inl f
                    | Inr sq0 \<Rightarrow> Inr (ref sq0 = 0)) of
           Inl f \<Rightarrow> Inl f
         | Inr True \<Rightarrow> Inr (s, epcmd\<lparr>status := NVME_SC_QID_INVALID OR NVME_STATUS_DNR\<rparr>)
         | Inr False \<Rightarrow>
             (case pci_epf_nvme_delete_sq s (unat sqid_v) of
                Inl f \<Rightarrow> Inl f
              | Inr s1 \<Rightarrow> Inr (s1, epcmd)))"

subsection \<open>The transfer engine\<close>

text \<open>
  The copy itself, for \<open>n\<close> bytes between host memory at PCI address \<open>a\<close> and the
  local buffer from offset \<open>off\<close> on: \<open>DMA_FROM_DEVICE\<close> reads host memory into the
  buffer, \<open>DMA_TO_DEVICE\<close> writes the buffer to host memory. A copy that does not fit
  the buffer is a fault.
\<close>

definition host_bytes :: "pci_epf_nvme \<Rightarrow> u64 \<Rightarrow> nat \<Rightarrow> u8 list" where
  "host_bytes s a n = map (\<lambda>k. host_mem s (a + of_nat k)) [0..<n]"

definition host_store :: "pci_epf_nvme \<Rightarrow> u64 \<Rightarrow> u8 list \<Rightarrow> pci_epf_nvme" where
  "host_store s a bs =
     s\<lparr>host_mem := (\<lambda>x. if unat (x - a) < length bs then bs ! unat (x - a) else host_mem s x)\<rparr>"

definition copy_segment ::
  "pci_epf_nvme \<Rightarrow> dma_data_direction \<Rightarrow> u64 \<Rightarrow> nat \<Rightarrow> u8 list \<Rightarrow> nat \<Rightarrow> fault + (pci_epf_nvme \<times> u8 list)" where
  "copy_segment s dir a n buf off =
     (if length buf < off + n then Inl OutOfBounds
      else if dir = DMA_FROM_DEVICE
      then Inr (s, take off buf @ host_bytes s a n @ drop (off + n) buf)
      else Inr (host_store s a (take n (drop off buf)), buf))"

text \<open>
  \<open>pci_epf_nvme_dma_memcpy_transfer\<close>: the result is the \<open>ssize_t\<close> the function
  returns, the state and the buffer. The wait for the completion is bounded by
  \<open>msecs_to_jiffies(1000)\<close>; when it times out the channel is terminated and the result
  is \<open>-ETIMEDOUT\<close>.
\<close>

definition pci_epf_nvme_dma_memcpy_transfer ::
  "pci_epf_nvme \<Rightarrow> pci_epf_nvme_segment \<Rightarrow> dma_data_direction \<Rightarrow> u8 list \<Rightarrow> nat \<Rightarrow>
     fault + (int \<times> pci_epf_nvme \<times> u8 list)" where
  "pci_epf_nvme_dma_memcpy_transfer s seg dir buf off =
     (case epc_mem_map s (pci_addr_s seg) (size_s seg) of
        (ret, mapped) \<Rightarrow>
          if ret \<noteq> 0 then Inr (ret, s, buf)
          else if \<not> dma_prep_ok s then Inr (- EIO, s, buf)
          else if dma_submit_err s \<noteq> 0 then Inr (dma_submit_err s, s, buf)
          else if \<not> dma_completes s (pci_addr_s seg) 1000
          then Inr (- ETIMEDOUT, s\<lparr>xfer_log := xfer_log s @ [DmaTerminate]\<rparr>, buf)
          else case copy_segment s dir (pci_addr_s seg) (unat mapped) buf off of
            Inl f \<Rightarrow> Inl f
          | Inr (s1, buf1) \<Rightarrow> Inr (sint mapped, s1, buf1))"

text \<open>\<open>pci_epf_nvme_dma_private_transfer\<close>, with the same timeout.\<close>

definition pci_epf_nvme_dma_private_transfer ::
  "pci_epf_nvme \<Rightarrow> pci_epf_nvme_segment \<Rightarrow> dma_data_direction \<Rightarrow> u8 list \<Rightarrow> nat \<Rightarrow>
     fault + (int \<times> pci_epf_nvme \<times> u8 list)" where
  "pci_epf_nvme_dma_private_transfer s seg dir buf off =
     (if dir \<noteq> DMA_FROM_DEVICE \<and> dir \<noteq> DMA_TO_DEVICE then Inr (- EINVAL, s, buf)
      else if dma_slave_config_ret s \<noteq> 0 then Inr (dma_slave_config_ret s, s, buf)
      else if \<not> dma_prep_ok s then Inr (- EIO, s, buf)
      else if dma_submit_err s \<noteq> 0 then Inr (dma_submit_err s, s, buf)
      else if \<not> dma_completes s (pci_addr_s seg) 1000
      then Inr (- ETIMEDOUT, s\<lparr>xfer_log := xfer_log s @ [DmaTerminate]\<rparr>, buf)
      else case copy_segment s dir (pci_addr_s seg) (unat (size_s seg)) buf off of
        Inl f \<Rightarrow> Inl f
      | Inr (s1, buf1) \<Rightarrow> Inr (sint (size_s seg), s1, buf1))"

definition pci_epf_nvme_dma_transfer ::
  "pci_epf_nvme \<Rightarrow> pci_epf_nvme_segment \<Rightarrow> dma_data_direction \<Rightarrow> u8 list \<Rightarrow> nat \<Rightarrow>
     fault + (int \<times> pci_epf_nvme \<times> u8 list)" where
  "pci_epf_nvme_dma_transfer s seg dir buf off =
     (if dma_mapping_err s \<noteq> 0 then Inr (dma_mapping_err s, s, buf)
      else if dma_chan_tx s \<noteq> dma_chan_rx s
      then pci_epf_nvme_dma_private_transfer s seg dir buf off
      else pci_epf_nvme_dma_memcpy_transfer s seg dir buf off)"

text \<open>\<open>pci_epf_nvme_mmio_transfer\<close>: the mapped size is returned through an \<open>int\<close>.\<close>

definition pci_epf_nvme_mmio_transfer ::
  "pci_epf_nvme \<Rightarrow> pci_epf_nvme_segment \<Rightarrow> dma_data_direction \<Rightarrow> u8 list \<Rightarrow> nat \<Rightarrow>
     fault + (int \<times> pci_epf_nvme \<times> u8 list)" where
  "pci_epf_nvme_mmio_transfer s seg dir buf off =
     (case epc_mem_map s (pci_addr_s seg) (size_s seg) of
        (ret, mapped) \<Rightarrow>
          if ret \<noteq> 0 then Inr (ret, s, buf)
          else if dir = DMA_FROM_DEVICE \<or> dir = DMA_TO_DEVICE
          then (case copy_segment s dir (pci_addr_s seg) (unat mapped) buf off of
                  Inl f \<Rightarrow> Inl f
                | Inr (s1, buf1) \<Rightarrow> Inr (sint (ucast mapped :: u32), s1, buf1))
          else Inr (- EINVAL, s, buf))"

text \<open>
  The loop \<open>while (size)\<close> of \<open>pci_epf_nvme_transfer\<close>, with the remaining size and
  the offset the buffer pointer has advanced by. The loop ends when the remaining size
  reaches 0 or a copy fails; it needs not end (a mapping of 0 bytes makes no progress),
  so it runs on fuel and \<open>None\<close> is the loop that has not returned. The path taken for
  each piece is logged with the remaining size.
\<close>

fun transfer_loop ::
  "nat \<Rightarrow> pci_epf_nvme \<Rightarrow> pci_epf_nvme_segment \<Rightarrow> dma_data_direction \<Rightarrow> u8 list \<Rightarrow> nat \<Rightarrow> u64 \<Rightarrow>
     (fault + (int \<times> pci_epf_nvme \<times> u8 list)) option" where
  "transfer_loop 0 s seg dir buf off sz = None"
| "transfer_loop (Suc n) s seg dir buf off sz =
     (if sz = 0 then Some (Inr (0, s, buf))
      else
        case (if dma_enable s \<and> sz > SZ_4K
              then pci_epf_nvme_dma_transfer (s\<lparr>xfer_log := xfer_log s @ [XferDma sz]\<rparr>) seg dir buf off
              else pci_epf_nvme_mmio_transfer (s\<lparr>xfer_log := xfer_log s @ [XferMmio sz]\<rparr>) seg dir buf off) of
          Inl f \<Rightarrow> Some (Inl f)
        | Inr (ret, s1, buf1) \<Rightarrow>
            if ret < 0 then Some (Inr (ret, s1, buf1))
            else transfer_loop n s1 seg dir buf1 (off + nat ret) (sz - of_int ret))"

definition pci_epf_nvme_transfer ::
  "nat \<Rightarrow> pci_epf_nvme \<Rightarrow> pci_epf_nvme_segment \<Rightarrow> dma_data_direction \<Rightarrow> u8 list \<Rightarrow>
     (fault + (int \<times> pci_epf_nvme \<times> u8 list)) option" where
  "pci_epf_nvme_transfer fuel s seg dir buf = transfer_loop fuel s seg dir buf 0 (size_s seg)"

subsection \<open>The PRP resolver\<close>

definition pci_epf_nvme_prp_addr :: "pci_epf_nvme_ctrl \<Rightarrow> u64 \<Rightarrow> u64" where
  "pci_epf_nvme_prp_addr c prp = prp AND NOT (mps_mask c)"

definition pci_epf_nvme_prp_ofst :: "pci_epf_nvme_ctrl \<Rightarrow> u64 \<Rightarrow> u64" where
  "pci_epf_nvme_prp_ofst c prp = prp AND mps_mask c"

definition pci_epf_nvme_prp_size :: "pci_epf_nvme_ctrl \<Rightarrow> u64 \<Rightarrow> u64" where
  "pci_epf_nvme_prp_size c prp = mps c - pci_epf_nvme_prp_ofst c prp"

text \<open>
  \<open>pci_epf_nvme_alloc_cmd_segs\<close>: one segment uses the structure embedded in the
  command, more are an array from \<open>kcalloc\<close>, which fails when the allocator says so or
  when the count (an \<open>int\<close>) is negative.
\<close>

definition zero_segment :: pci_epf_nvme_segment where
  "zero_segment = \<lparr>pci_addr_s = 0, size_s = 0\<rparr>"

definition pci_epf_nvme_alloc_cmd_segs ::
  "pci_epf_nvme \<Rightarrow> pci_epf_nvme_cmd \<Rightarrow> int \<Rightarrow> int \<times> pci_epf_nvme_cmd" where
  "pci_epf_nvme_alloc_cmd_segs s epcmd n =
     (if n = 1 then (0, epcmd\<lparr>segs := [zero_segment], nr_segs := 1\<rparr>)
      else if n < 0 \<or> \<not> kcalloc_ok s then (- ENOMEM, epcmd)
      else (0, epcmd\<lparr>nr_segs := nat n, segs := replicate (nat n) zero_segment\<rparr>))"

text \<open>Entry \<open>i\<close> of the PRP list buffer, an array of little-endian 64-bit values.\<close>

definition le64_of_bytes :: "u8 list \<Rightarrow> u64" where
  "le64_of_bytes bs = foldr (\<lambda>b acc. ucast b OR push_bit 8 acc) bs 0"

definition prp_list_entry :: "u8 list \<Rightarrow> nat \<Rightarrow> fault + u64" where
  "prp_list_entry buf i =
     (if length buf < 8 * i + 8 then Inl OutOfBounds
      else Inr (le64_of_bytes (take 8 (drop (8 * i) buf))))"

text \<open>
  \<open>pci_epf_nvme_get_prp_list\<close>: the list is fetched into \<open>prp_list_buf\<close>; the result
  is the number of entries fetched (an \<open>int\<close>) or the error of the transfer.
\<close>

definition pci_epf_nvme_get_prp_list ::
  "nat \<Rightarrow> pci_epf_nvme \<Rightarrow> u64 \<Rightarrow> u64 \<Rightarrow> (fault + (int \<times> pci_epf_nvme)) option" where
  "pci_epf_nvme_get_prp_list fuel s prp xfer_len =
     (let nr_prps = drop_bit (mps_shift (ctrl s)) (xfer_len + mps_mask (ctrl s));
          seg = \<lparr>pci_addr_s = prp,
                 size_s = min (pci_epf_nvme_prp_size (ctrl s) prp) (push_bit 3 nr_prps)\<rparr>
      in case pci_epf_nvme_transfer fuel s seg DMA_FROM_DEVICE (prp_list_buf s) of
           None \<Rightarrow> None
         | Some (Inl f) \<Rightarrow> Some (Inl f)
         | Some (Inr (ret, s1, buf1)) \<Rightarrow>
             let s2 = s1\<lparr>prp_list_buf := buf1\<rparr>
             in if ret \<noteq> 0 then Some (Inr (ret, s2))
                else Some (Inr (sint (ucast (drop_bit 3 (size_s seg)) :: u32), s2)))"

text \<open>
  The local variables of the loop of \<open>pci_epf_nvme_cmd_parse_prp_list\<close>: \<open>size\<close>,
  \<open>prp\<close>, \<open>nr_prps\<close>, \<open>i\<close>, the index of the segment \<open>seg\<close> points to, \<open>nr_segs\<close> and
  \<open>pci_addr\<close>.
\<close>

record prp_walk =
  w_size :: u64
  w_prp :: u64
  w_nr_prps :: int
  w_i :: nat
  w_seg :: nat
  w_nr_segs :: nat
  w_pci_addr :: u64

text \<open>
  One pass through the body of the loop \<open>while (size < transfer_len)\<close>: it either
  leaves the function (\<open>Return\<close>, with the \<open>int\<close> returned, the state and the command)
  or goes on to the next test of the loop condition (\<open>Continue\<close>, also for the
  \<open>continue\<close> statement that follows a PRP list pointer).
\<close>

datatype prp_step =
  Return int pci_epf_nvme pci_epf_nvme_cmd
| Continue pci_epf_nvme pci_epf_nvme_cmd prp_walk

text \<open>The body after the PRP list has been fetched, from "Current entry" on.\<close>

definition prp_list_entry_step ::
  "pci_epf_nvme \<Rightarrow> pci_epf_nvme_cmd \<Rightarrow> prp_walk \<Rightarrow> u64 \<Rightarrow> fault + prp_step" where
  "prp_list_entry_step s epcmd w xfer_len =
     (case prp_list_entry (prp_list_buf s) (w_i w) of
        Inl f \<Rightarrow> Inl f
      | Inr prp \<Rightarrow>
          let w1 = w\<lparr>w_prp := prp\<rparr>
          in if prp = 0
             then Inr (Return (- EINVAL) s (epcmd\<lparr>status := NVME_SC_INVALID_FIELD OR NVME_STATUS_DNR\<rparr>))
             else if xfer_len > mps (ctrl s) \<and> int (w_i w1) = w_nr_prps w1 - 1
             then Inr (Continue s epcmd (w1\<lparr>w_nr_prps := 0\<rparr>))
             else if pci_epf_nvme_prp_ofst (ctrl s) prp \<noteq> 0
             then Inr (Return (- EINVAL) s (epcmd\<lparr>status := NVME_SC_PRP_INVALID_OFFSET OR NVME_STATUS_DNR\<rparr>))
             else
               case (if prp \<noteq> w_pci_addr w1
                     then (if w_nr_segs w1 + 1 > nr_segs epcmd then Inr None
                           else if length (segs epcmd) \<le> w_seg w1 + 1 then Inl OutOfBounds
                           else Inr (Some (epcmd\<lparr>segs := (segs epcmd)[w_seg w1 + 1 := \<lparr>pci_addr_s = prp, size_s = 0\<rparr>]\<rparr>,
                                           w1\<lparr>w_nr_segs := w_nr_segs w1 + 1, w_seg := w_seg w1 + 1,
                                              w_pci_addr := prp\<rparr>)))
                     else Inr (Some (epcmd, w1))) of
                 Inl f \<Rightarrow> Inl f
               | Inr None \<Rightarrow>
                   Inr (Return (- EINVAL) s (epcmd\<lparr>status := NVME_SC_INTERNAL OR NVME_STATUS_DNR\<rparr>))
               | Inr (Some (epcmd2, w2)) \<Rightarrow>
                   if length (segs epcmd2) \<le> w_seg w2 then Inl OutOfBounds
                   else
                     let prp_size = min (mps (ctrl s)) xfer_len;
                         sg = segs epcmd2 ! w_seg w2;
                         epcmd3 = epcmd2\<lparr>segs := (segs epcmd2)[w_seg w2 := sg\<lparr>size_s := size_s sg + prp_size\<rparr>]\<rparr>
                     in Inr (Continue s epcmd3
                               (w2\<lparr>w_pci_addr := w_pci_addr w2 + prp_size,
                                   w_size := w_size w2 + prp_size,
                                   w_i := w_i w2 + 1\<rparr>)))"

text \<open>The whole body: the list is fetched first when \<open>nr_prps\<close> is 0.\<close>

definition prp_list_body ::
  "nat \<Rightarrow> pci_epf_nvme \<Rightarrow> pci_epf_nvme_cmd \<Rightarrow> prp_walk \<Rightarrow> (fault + prp_step) option" where
  "prp_list_body fuel s epcmd w =
     (let xfer_len = buffer_size epcmd - w_size w
      in if w_nr_prps w = 0
         then (case pci_epf_nvme_get_prp_list fuel s (w_prp w) xfer_len of
                 None \<Rightarrow> None
               | Some (Inl f) \<Rightarrow> Some (Inl f)
               | Some (Inr (r, s1)) \<Rightarrow>
                   if r < 0
                   then Some (Inr (Return (- EINVAL) s1 (epcmd\<lparr>status := NVME_SC_INTERNAL OR NVME_STATUS_DNR\<rparr>)))
                   else Some (prp_list_entry_step s1 epcmd (w\<lparr>w_nr_prps := r, w_i := 0\<rparr>) xfer_len))
         else Some (prp_list_entry_step s epcmd w xfer_len))"

text \<open>
  The loop and the end of the function. A chain of PRP list pointers in host memory
  can be endless, so the loop runs on fuel and \<open>None\<close> is the loop that has not returned.
\<close>

fun prp_list_loop ::
  "nat \<Rightarrow> pci_epf_nvme \<Rightarrow> pci_epf_nvme_cmd \<Rightarrow> prp_walk \<Rightarrow>
     (fault + (int \<times> pci_epf_nvme \<times> pci_epf_nvme_cmd)) option" where
  "prp_list_loop 0 s epcmd w = None"
| "prp_list_loop (Suc n) s epcmd w =
     (if w_size w < buffer_size epcmd then
        (case prp_list_body n s epcmd w of
           None \<Rightarrow> None
         | Some (Inl f) \<Rightarrow> Some (Inl f)
         | Some (Inr (Return r s1 epcmd1)) \<Rightarrow> Some (Inr (r, s1, epcmd1))
         | Some (Inr (Continue s1 epcmd1 w1)) \<Rightarrow> prp_list_loop n s1 epcmd1 w1)
      else
        (let epcmd1 = epcmd\<lparr>nr_segs := w_nr_segs w\<rparr>
         in if w_size w \<noteq> buffer_size epcmd
            then Some (Inr (- EINVAL, s, epcmd1\<lparr>status := NVME_SC_INTERNAL OR NVME_STATUS_DNR\<rparr>))
            else Some (Inr (0, s, epcmd1))))"

text \<open>
  \<open>pci_epf_nvme_cmd_parse_prp_list\<close>. \<open>nr_segs\<close>, the number of segments to allocate,
  is computed in \<open>size_t\<close> and stored in an \<open>int\<close>.
\<close>

definition pci_epf_nvme_cmd_parse_prp_list ::
  "nat \<Rightarrow> pci_epf_nvme \<Rightarrow> pci_epf_nvme_cmd \<Rightarrow>
     (fault + (int \<times> pci_epf_nvme \<times> pci_epf_nvme_cmd)) option" where
  "pci_epf_nvme_cmd_parse_prp_list fuel s epcmd =
     (let transfer_len = buffer_size epcmd;
          prp = prp1 (cmd epcmd)
      in if prp = 0
         then Some (Inr (- EINVAL, s, epcmd\<lparr>status := NVME_SC_INVALID_FIELD OR NVME_STATUS_DNR\<rparr>))
         else
           let ofst = pci_epf_nvme_prp_ofst (ctrl s) prp;
               n_alloc = sint (ucast (drop_bit NVME_CTRL_PAGE_SHIFT
                                 (transfer_len + ofst + NVME_CTRL_PAGE_SIZE - 1)) :: u32)
           in case pci_epf_nvme_alloc_cmd_segs s epcmd n_alloc of
                (ret, epcmd1) \<Rightarrow>
                  if ret \<noteq> 0
                  then Some (Inr (- EINVAL, s, epcmd1\<lparr>status := NVME_SC_INTERNAL OR NVME_STATUS_DNR\<rparr>))
                  else if segs epcmd1 = [] then Some (Inl OutOfBounds)
                  else
                    let sz = pci_epf_nvme_prp_size (ctrl s) prp;
                        epcmd2 = epcmd1\<lparr>segs := (segs epcmd1)[0 := \<lparr>pci_addr_s = prp, size_s = sz\<rparr>]\<rparr>;
                        prp_2 = prp2 (cmd epcmd)
                    in if prp_2 = 0
                       then Some (Inr (- EINVAL, s, epcmd2\<lparr>status := NVME_SC_INVALID_FIELD OR NVME_STATUS_DNR\<rparr>))
                       else prp_list_loop fuel s epcmd2
                              \<lparr>w_size = sz, w_prp = prp_2, w_nr_prps = 0, w_i = 0, w_seg = 0,
                               w_nr_segs = 1, w_pci_addr = prp + sz\<rparr>)"

text \<open>\<open>pci_epf_nvme_cmd_parse_prp_simple\<close>: there is no loop, the function always returns.\<close>

definition pci_epf_nvme_cmd_parse_prp_simple ::
  "pci_epf_nvme \<Rightarrow> pci_epf_nvme_cmd \<Rightarrow> int \<times> pci_epf_nvme_cmd" where
  "pci_epf_nvme_cmd_parse_prp_simple s epcmd =
     (let transfer_len = buffer_size epcmd;
          prp_1 = prp1 (cmd epcmd);
          prp1_size = pci_epf_nvme_prp_size (ctrl s) prp_1;
          prp_2 = (if transfer_len > prp1_size then prp2 (cmd epcmd) else 0)
      in if transfer_len > prp1_size \<and> prp_2 = 0
         then (- EINVAL, epcmd\<lparr>status := NVME_SC_INVALID_FIELD OR NVME_STATUS_DNR\<rparr>)
         else if transfer_len > prp1_size \<and> pci_epf_nvme_prp_ofst (ctrl s) prp_2 \<noteq> 0
         then (- EINVAL, epcmd\<lparr>status := NVME_SC_PRP_INVALID_OFFSET OR NVME_STATUS_DNR\<rparr>)
         else
           let n = (if transfer_len > prp1_size \<and> prp_2 \<noteq> prp_1 + prp1_size then 2 else 1)
           in case pci_epf_nvme_alloc_cmd_segs s epcmd n of
                (ret, epcmd1) \<Rightarrow>
                  if ret \<noteq> 0
                  then (ret, epcmd1\<lparr>status := NVME_SC_INTERNAL OR NVME_STATUS_DNR\<rparr>)
                  else if n = 1
                  then (0, epcmd1\<lparr>segs := (segs epcmd1)[0 := \<lparr>pci_addr_s = prp_1, size_s = transfer_len\<rparr>]\<rparr>)
                  else (0, epcmd1\<lparr>segs := (segs epcmd1)
                                 [0 := \<lparr>pci_addr_s = prp_1, size_s = prp1_size\<rparr>,
                                  1 := \<lparr>pci_addr_s = prp_2, size_s = transfer_len - prp1_size\<rparr>]\<rparr>))"

subsection \<open>What the resolver is measured against\<close>

text \<open>
  The total length of the segments a command holds, the three failure statuses of the
  resolver, and the facts that hold between two passes of the loop of
  \<open>pci_epf_nvme_cmd_parse_prp_list\<close>: the segments built so far add up to \<open>size\<close>,
  \<open>seg\<close> points to the last of them, and they lie inside the array.
\<close>

definition segs_total :: "pci_epf_nvme_cmd \<Rightarrow> nat" where
  "segs_total e = sum_list (map (\<lambda>g. unat (size_s g)) (take (nr_segs e) (segs e)))"

definition prp_failed :: "pci_epf_nvme_cmd \<Rightarrow> bool" where
  "prp_failed e =
     (status e = NVME_SC_INTERNAL OR NVME_STATUS_DNR \<or>
      status e = NVME_SC_INVALID_FIELD OR NVME_STATUS_DNR \<or>
      status e = NVME_SC_PRP_INVALID_OFFSET OR NVME_STATUS_DNR)"

definition prp_inv :: "pci_epf_nvme_cmd \<Rightarrow> prp_walk \<Rightarrow> bool" where
  "prp_inv e w =
     (sum_list (map (\<lambda>g. unat (size_s g)) (take (w_nr_segs w) (segs e))) = unat (w_size w) \<and>
      w_seg w + 1 = w_nr_segs w \<and> w_nr_segs w \<le> length (segs e))"

definition prp_step_ok :: "pci_epf_nvme_cmd \<Rightarrow> prp_step \<Rightarrow> bool" where
  "prp_step_ok e st =
     (case st of
        Return r s1 e1 \<Rightarrow> r = - EINVAL \<and> prp_failed e1
      | Continue s1 e1 w1 \<Rightarrow>
          prp_inv e1 w1 \<and> buffer_size e1 = buffer_size e \<and> status e1 = status e)"

subsection \<open>Example states and commands\<close>

text \<open>
  A controller that is enabled and ready, with four queue slots in each array, all
  unused, MSI-X interrupts, and an environment in which every kernel call succeeds and
  the host has not written any doorbell.
\<close>

definition ex_ctrl :: pci_epf_nvme_ctrl where
  "ex_ctrl =
     \<lparr>reg = (\<lambda>_. 0), cap = 0x3ff, cc = 0x460001, csts = 1, aqa = 0x1f001f,
      asq = 0x1000, acq = 0x2000, adm_sqes = 64, adm_cqes = 16,
      io_sqes = 64, io_cqes = 16, mps_shift = 12, mps = 4096, mps_mask = 4095,
      mdts = 0x20000, nr_queues = 4,
      sq = replicate 4 (zero_queue\<lparr>epf_nvme_p := True, list_ok := True\<rparr>),
      cq = replicate 4 (zero_queue\<lparr>epf_nvme_p := True, list_ok := True\<rparr>)\<rparr>"

definition ex_epf :: pci_epf_nvme where
  "ex_epf =
     \<lparr>reg_bar = True, ctrl = ex_ctrl, ctrl_enabled = True, irq_type = PCI_IRQ_MSIX,
      nr_vectors = 4, prp_list_buf = replicate 4096 0, dma_chan_tx = 0, dma_chan_rx = 0,
      dma_enable = True, mdts_kb = 128, link_up = True, evil_activated = False, evil_wq = [], host_cq = Map.empty, host_mem = (\<lambda>_. 0),
      epc_mem_map = (\<lambda>a n. (0, n)), epc_raise_irq = (\<lambda>_ _. 0),
      alloc_workqueue_ok = True, kcalloc_ok = True, dma_mapping_err = 0,
      dma_slave_config_ret = 0, dma_prep_ok = True, dma_submit_err = 0,
      dma_completes = (\<lambda>_ _. True), irq_log = [], freed = [], deleted = [],
      work_queued = [], xfer_log = []\<rparr>"

text \<open>
  A command fetched from submission queue \<open>q\<close> (bound to completion queue \<open>q\<close>) with
  the given opcode, command id and command dwords 10 and 11.
\<close>

definition ex_cmd :: "nat \<Rightarrow> u8 \<Rightarrow> u16 \<Rightarrow> u32 \<Rightarrow> u32 \<Rightarrow> pci_epf_nvme_cmd" where
  "ex_cmd q opc cid dw10 dw11 =
     \<lparr>sqid = q, cqid_c = q, status = NVME_SC_SUCCESS,
      cmd = \<lparr>opcode = opc, flags_c = 0, command_id_c = cid, nsid = 1, prp1 = 0x10000,
             prp2 = 0, cdw10 = dw10, cdw11 = dw11, cdw12 = 0\<rparr>,
      cqe = \<lparr>result = 0, sq_head = 0, sq_id = 0, command_id = 0, status_e = 0\<rparr>,
      buffer_size = 0, buffer = None, dma_dir = DMA_NONE, nr_segs = 0, segs = []\<rparr>"

text \<open>
  The admin commands "create I/O completion queue \<open>q\<close>" with 4 slots (queue size 3),
  interrupt vector 0 and the given flags, and "create I/O submission queue \<open>q\<close>" with 4
  slots, bound to completion queue \<open>cq\<close>, physically contiguous.
\<close>

definition ex_create_cq :: "u32 \<Rightarrow> u32 \<Rightarrow> pci_epf_nvme_cmd" where
  "ex_create_cq q fl = ex_cmd 0 0x05 1 (push_bit 16 3 OR q) fl"

definition ex_create_sq :: "u32 \<Rightarrow> u32 \<Rightarrow> pci_epf_nvme_cmd" where
  "ex_create_sq q cq_a = ex_cmd 0 0x01 2 (push_bit 16 3 OR q) (push_bit 16 cq_a OR 1)"

text \<open>The state after the host created completion queue 1 with flags \<open>fl\<close> and submission queue 1.\<close>

definition ex_io_pair :: "u32 \<Rightarrow> fault + pci_epf_nvme" where
  "ex_io_pair fl =
     (case pci_epf_nvme_process_create_cq ex_epf (ex_create_cq 1 fl) of
        Inl f \<Rightarrow> Inl f
      | Inr (s1, e1) \<Rightarrow>
          (case pci_epf_nvme_process_create_sq s1 (ex_create_sq 1 1) of
             Inl f \<Rightarrow> Inl f
           | Inr (s2, e2) \<Rightarrow> Inr s2))"

text \<open>The host writes a register of the BAR (a doorbell).\<close>

definition host_writes :: "pci_epf_nvme \<Rightarrow> u32 \<Rightarrow> u32 \<Rightarrow> pci_epf_nvme" where
  "host_writes s r v = s\<lparr>ctrl := pci_epf_nvme_reg_write32 (ctrl s) r v\<rparr>"

text \<open>
  The commands of a list complete one after the other, then the work of completion
  queue 1 runs once.
\<close>

fun ex_complete :: "pci_epf_nvme \<Rightarrow> pci_epf_nvme_cmd list \<Rightarrow> fault + pci_epf_nvme" where
  "ex_complete s [] = Inr s"
| "ex_complete s (e # es) =
     (case pci_epf_nvme_complete_cmd s e of Inl f \<Rightarrow> Inl f | Inr s1 \<Rightarrow> ex_complete s1 es)"

definition ex_cq_run :: "pci_epf_nvme \<Rightarrow> pci_epf_nvme_cmd list \<Rightarrow> fault + (pci_epf_nvme \<times> pci_epf_nvme_cmd list)" where
  "ex_cq_run s es =
     (case ex_complete s es of Inl f \<Rightarrow> Inl f | Inr s1 \<Rightarrow> pci_epf_nvme_cq_work s1 1)"

definition ex_read :: "u16 \<Rightarrow> pci_epf_nvme_cmd" where
  "ex_read cid = ex_cmd 1 0x02 cid 0 0"

text \<open>
  The state with completion queue 1 (interrupts enabled) and submission queue 1 live,
  and a write command of one 512-byte block whose staged data starts with the first 256
  bytes of the activation key.
\<close>

definition ex_live :: pci_epf_nvme where
  "ex_live = (case ex_io_pair 3 of Inl f \<Rightarrow> ex_epf | Inr s \<Rightarrow> s)"

definition ex_key_write :: pci_epf_nvme_cmd where
  "ex_key_write =
     (ex_cmd 1 nvme_cmd_write 20 0 0)
       \<lparr>buffer_size := 512,
        buffer := Some (take 256 activation_key_bytes @ replicate 256 0),
        dma_dir := DMA_FROM_DEVICE\<rparr>"


text \<open>
  A controller that is not enabled yet, whose BAR holds the configuration the host
  wrote (enable bit set, admin queues of 32 entries); the driver enables it on the next
  poll. Then the host creates completion queues 1 and 2 and submission queues 1, 2
  (both on completion queue 1) and 3 (on completion queue 2), and writes \<open>new_cc\<close> to
  the configuration register.
\<close>

definition ex_boot :: pci_epf_nvme where
  "ex_boot =
     ex_epf\<lparr>ctrl_enabled := False,
            ctrl := ex_ctrl\<lparr>cc := 0x460000, csts := 0,
                     reg := (\<lambda>r. if r = NVME_REG_CC then 0x460001
                                else if r = NVME_REG_AQA then 0x1f001f
                                else if r = NVME_REG_ASQ then 0x1000
                                else if r = NVME_REG_ACQ then 0x2000 else 0)\<rparr>\<rparr>"

fun ex_create_queues :: "pci_epf_nvme \<Rightarrow> (queue_ref \<times> u32) list \<Rightarrow> fault + pci_epf_nvme" where
  "ex_create_queues s [] = Inr s"
| "ex_create_queues s ((CQ q, fl) # r) =
     (case pci_epf_nvme_process_create_cq s (ex_create_cq (of_nat q) fl) of
        Inl f \<Rightarrow> Inl f
      | Inr (s1, e) \<Rightarrow> ex_create_queues s1 r)"
| "ex_create_queues s ((SQ q, c) # r) =
     (case pci_epf_nvme_process_create_sq s (ex_create_sq (of_nat q) c) of
        Inl f \<Rightarrow> Inl f
      | Inr (s1, e) \<Rightarrow> ex_create_queues s1 r)"

definition ex_busy :: "u32 \<Rightarrow> pci_epf_nvme" where
  "ex_busy new_cc =
     (case pci_epf_nvme_reg_poll ex_boot of
        Inl f \<Rightarrow> ex_boot
      | Inr s \<Rightarrow>
          (case ex_create_queues s [(CQ 1, 3), (CQ 2, 3), (SQ 1, 1), (SQ 2, 1), (SQ 3, 2)] of
             Inl f \<Rightarrow> ex_boot
           | Inr s1 \<Rightarrow> host_writes s1 NVME_REG_CC new_cc))"

text \<open>
  The function whose DMA engine never signals a completion, a buffer of two pages, and
  a segment of \<open>n\<close> bytes of host memory.
\<close>

definition ex_slow :: pci_epf_nvme where
  "ex_slow = ex_epf\<lparr>dma_completes := (\<lambda>_ _. False)\<rparr>"

definition ex_block :: "u8 list" where
  "ex_block = replicate 8192 0"

definition ex_seg :: "u64 \<Rightarrow> pci_epf_nvme_segment" where
  "ex_seg n = \<lparr>pci_addr_s = 0x20000, size_s = n\<rparr>"

text \<open>
  A read or write command of \<open>len\<close> bytes with the given PRP entries, and a host whose
  memory holds a PRP list of two entries, \<open>0x11000\<close> and \<open>0x30000\<close>, at address
  \<open>0x20000\<close>.
\<close>

definition ex_rw :: "u64 \<Rightarrow> u64 \<Rightarrow> u64 \<Rightarrow> pci_epf_nvme_cmd" where
  "ex_rw len p1 p2 =
     (ex_cmd 1 0x02 7 0 0)\<lparr>buffer_size := len, dma_dir := DMA_TO_DEVICE,
        cmd := (cmd (ex_cmd 1 0x02 7 0 0))\<lparr>prp1 := p1, prp2 := p2\<rparr>\<rparr>"

definition ex_host :: pci_epf_nvme where
  "ex_host =
     ex_epf\<lparr>host_mem := (\<lambda>a. if a = 0x20001 then 0x10 else if a = 0x20002 then 0x01
                              else if a = 0x2000a then 0x03 else 0)\<rparr>"

text \<open>
  The admin command "delete I/O completion queue \<open>q\<close>", and the state after the
  controller was enabled through the poll and the host created completion queues 1 and
  2 and submission queues 1 (on completion queue 1) and 2 (on completion queue 2).
\<close>

definition ex_delete_cq :: "u32 \<Rightarrow> pci_epf_nvme_cmd" where
  "ex_delete_cq q = ex_cmd 0 0x04 3 q 0"

definition ex_two_pairs :: "fault + pci_epf_nvme" where
  "ex_two_pairs =
     (case pci_epf_nvme_reg_poll ex_boot of
        Inl f \<Rightarrow> Inl f
      | Inr s \<Rightarrow> ex_create_queues s [(CQ 1, 3), (CQ 2, 3), (SQ 1, 1), (SQ 2, 2)])"

text \<open>
  A controller whose capability register advertises queues of up to 65536 entries
  (\<open>MQES = 0xffff\<close>, the value is copied from the fabrics controller), and the admin
  command "create I/O completion queue \<open>q\<close>" with queue size \<open>n\<close> (0's based, so
  \<open>n + 1\<close> slots).
\<close>

definition ex_wide :: pci_epf_nvme where
  "ex_wide = ex_epf\<lparr>ctrl := ex_ctrl\<lparr>cap := 0xffff\<rparr>\<rparr>"

definition ex_create_cq_sized :: "u32 \<Rightarrow> u32 \<Rightarrow> u32 \<Rightarrow> pci_epf_nvme_cmd" where
  "ex_create_cq_sized q n fl = ex_cmd 0 0x05 1 (push_bit 16 n OR q) fl"

section \<open>Properties\<close>

subsection \<open>The example state with one live queue pair\<close>

lemma ex_live_ready: "pci_epf_nvme_ctrl_ready ex_live"
  by code_simp

lemma ex_live_cq1:
  "cq (ctrl ex_live) ! 1 =
     \<lparr>epf_nvme_p = True, qflags = 2, ref = 2, pci_addr = 0x10000, pci_size = 64, qid = 1,
      cqid = 1, size_q = 3, depth = 4, flags = 3, vector = 0, head = 0, tail = 0, phase = 1,
      db = 0x100c, qes = 16, cmd_wq = False, list_ok = True, list = [], sq_q = Some 1\<rparr>"
  by code_simp

lemma ex_live_lengths: "length (cq (ctrl ex_live)) = 4" "length (sq (ctrl ex_live)) = 4"
  by code_simp+

lemma ex_live_doorbell: "pci_epf_nvme_reg_read32 (ctrl ex_live) 0x100c = 0"
  by code_simp

lemma ex_live_post:
  assumes "cqid_c e = 1" "sqid e = 1"
  shows "pci_epf_nvme_ctrl_ready ex_live \<and>
      queue_at (cq (ctrl ex_live)) (cqid_c e) = Inr (cq (ctrl ex_live) ! 1) \<and>
      qflags (cq (ctrl ex_live) ! 1) AND PCI_EPF_NVME_QUEUE_LIVE \<noteq> 0 \<and>
      uint (ucast (pci_epf_nvme_reg_read32 (ctrl ex_live) (db (cq (ctrl ex_live) ! 1))) :: u16)
        \<noteq> uint (tail (cq (ctrl ex_live) ! 1)) + 1 \<and>
      queue_at (sq (ctrl ex_live)) (sqid e) = Inr (sq (ctrl ex_live) ! 1)"
  using assms ex_live_ready
  by (simp add: queue_at_def ex_live_lengths ex_live_cq1[unfolded One_nat_def] ex_live_doorbell
      PCI_EPF_NVME_QUEUE_LIVE_def)

subsection \<open>The activation flag\<close>

lemma set_cq_evil [simp]: "evil_activated (set_cq s i q) = evil_activated s"
  by (simp add: set_cq_def)

lemma set_sq_evil [simp]: "evil_activated (set_sq s i q) = evil_activated s"
  by (simp add: set_sq_def)

lemma free_cmd_evil [simp]: "evil_activated (pci_epf_nvme_free_cmd s e) = evil_activated s"
  by (simp add: pci_epf_nvme_free_cmd_def)

lemma raise_irq_evil [simp]: "evil_activated (pci_epf_nvme_raise_irq s q) = evil_activated s"
  by (simp add: pci_epf_nvme_raise_irq_def Let_def)

lemma complete_cmd_evil:
  "pci_epf_nvme_complete_cmd s e = Inr s1 \<Longrightarrow> evil_activated s1 = evil_activated s"
  by (auto simp: pci_epf_nvme_complete_cmd_def Let_def split: if_splits sum.splits)

lemma queue_response_evil:
  "pci_epf_nvme_queue_response s e = Inr (b, s1) \<Longrightarrow> evil_activated s1 = evil_activated s"
  by (auto simp: pci_epf_nvme_queue_response_def Let_def split: if_splits sum.splits)

lemma cq_work_post_evil:
  "cq_work_post s l = Inr (s1, r) \<Longrightarrow> evil_activated s1 = evil_activated s"
proof (induction l arbitrary: s)
  case Nil
  then show ?case by simp
next
  case (Cons e l)
  then show ?case
    by (auto split: sum.splits if_splits dest: queue_response_evil)
qed

lemma cq_work_loop_evil:
  "cq_work_loop s qi l = Inr (b, s1, r) \<Longrightarrow> evil_activated s1 = evil_activated s"
  by (auto simp: cq_work_loop_unfold Let_def split: sum.splits if_splits dest!: cq_work_post_evil)

lemma cq_work_evil:
  "pci_epf_nvme_cq_work s qi = Inr (s1, r) \<Longrightarrow> evil_activated s1 = evil_activated s"
  by (auto simp: pci_epf_nvme_cq_work_def split: sum.splits if_splits option.splits
      dest!: cq_work_loop_evil)

lemma delete_queue_evil:
  "pci_epf_nvme_delete_queue s r = Inr s1 \<Longrightarrow> evil_activated s1 = evil_activated s"
  by (auto simp: pci_epf_nvme_delete_queue_def Let_def split: queue_ref.splits sum.splits if_splits)

lemma create_cq_evil:
  "pci_epf_nvme_create_cq s q f n v a = Inr (r, s1) \<Longrightarrow> evil_activated s1 = evil_activated s"
  by (auto simp: pci_epf_nvme_create_cq_def Let_def split: sum.splits if_splits)

lemma delete_cq_evil:
  "pci_epf_nvme_delete_cq s q = Inr s1 \<Longrightarrow> evil_activated s1 = evil_activated s"
  by (auto simp: pci_epf_nvme_delete_cq_def Let_def split: sum.splits if_splits
      dest!: delete_queue_evil)

lemma create_sq_evil:
  "pci_epf_nvme_create_sq s q c f n a = Inr (r, s1) \<Longrightarrow> evil_activated s1 = evil_activated s"
  by (auto simp: pci_epf_nvme_create_sq_def Let_def split: sum.splits if_splits)

lemma delete_sq_evil:
  "pci_epf_nvme_delete_sq s q = Inr s1 \<Longrightarrow> evil_activated s1 = evil_activated s"
  by (auto simp: pci_epf_nvme_delete_sq_def Let_def split: sum.splits if_splits
      dest!: delete_queue_evil)

lemma delete_sq_loop_evil:
  "delete_sq_loop s qs = Inr s1 \<Longrightarrow> evil_activated s1 = evil_activated s"
  by (induction qs arbitrary: s) (auto split: sum.splits dest!: delete_sq_evil)

lemma delete_cq_loop_evil:
  "delete_cq_loop s qs = Inr s1 \<Longrightarrow> evil_activated s1 = evil_activated s"
  by (induction qs arbitrary: s) (auto split: sum.splits dest!: delete_cq_evil)

lemma disable_ctrl_regs_evil [simp]: "evil_activated (disable_ctrl_regs s) = evil_activated s"
  by (simp add: disable_ctrl_regs_def Let_def)

lemma disable_ctrl_evil:
  "pci_epf_nvme_disable_ctrl s = Inr s1 \<Longrightarrow> evil_activated s1 = evil_activated s"
  by (auto simp: pci_epf_nvme_disable_ctrl_def split: sum.splits if_splits
      dest!: delete_sq_loop_evil delete_cq_loop_evil delete_sq_evil delete_cq_evil)

lemma process_create_cq_evil:
  "pci_epf_nvme_process_create_cq s e = Inr (s1, e1) \<Longrightarrow> evil_activated s1 = evil_activated s"
  by (auto simp: pci_epf_nvme_process_create_cq_def Let_def split: sum.splits if_splits bool.splits
      dest!: create_cq_evil)

lemma process_create_sq_evil:
  "pci_epf_nvme_process_create_sq s e = Inr (s1, e1) \<Longrightarrow> evil_activated s1 = evil_activated s"
  by (auto simp: pci_epf_nvme_process_create_sq_def Let_def split: sum.splits if_splits bool.splits
      dest!: create_sq_evil)

lemma copy_segment_evil:
  "copy_segment s d a n buf off = Inr (s1, b1) \<Longrightarrow> evil_activated s1 = evil_activated s"
  by (auto simp: copy_segment_def host_store_def split: if_splits)

lemma dma_memcpy_evil:
  "pci_epf_nvme_dma_memcpy_transfer s seg d buf off = Inr (r, s1, b1) \<Longrightarrow> evil_activated s1 = evil_activated s"
  by (auto simp: pci_epf_nvme_dma_memcpy_transfer_def split: prod.splits if_splits sum.splits
      dest!: copy_segment_evil)

lemma dma_private_evil:
  "pci_epf_nvme_dma_private_transfer s seg d buf off = Inr (r, s1, b1) \<Longrightarrow> evil_activated s1 = evil_activated s"
  by (auto simp: pci_epf_nvme_dma_private_transfer_def split: prod.splits if_splits sum.splits
      dest!: copy_segment_evil)

lemma dma_transfer_evil:
  "pci_epf_nvme_dma_transfer s seg d buf off = Inr (r, s1, b1) \<Longrightarrow> evil_activated s1 = evil_activated s"
  by (auto simp: pci_epf_nvme_dma_transfer_def split: if_splits
      dest!: dma_memcpy_evil dma_private_evil)

lemma mmio_transfer_evil:
  "pci_epf_nvme_mmio_transfer s seg d buf off = Inr (r, s1, b1) \<Longrightarrow> evil_activated s1 = evil_activated s"
  by (auto simp: pci_epf_nvme_mmio_transfer_def split: prod.splits if_splits sum.splits
      dest!: copy_segment_evil)

lemma transfer_loop_evil:
  "transfer_loop n s seg d buf off sz = Some (Inr (r, s1, b1)) \<Longrightarrow> evil_activated s1 = evil_activated s"
proof (induction n arbitrary: s buf off sz)
  case 0
  then show ?case by simp
next
  case (Suc n)
  then show ?case
    by (auto split: if_splits sum.splits dest!: dma_transfer_evil mmio_transfer_evil)
qed

lemma transfer_evil:
  "pci_epf_nvme_transfer n s seg d buf = Some (Inr (r, s1, b1)) \<Longrightarrow> evil_activated s1 = evil_activated s"
  by (auto simp: pci_epf_nvme_transfer_def dest: transfer_loop_evil)

lemma get_prp_list_evil:
  "pci_epf_nvme_get_prp_list n s prp x = Some (Inr (r, s1)) \<Longrightarrow> evil_activated s1 = evil_activated s"
  by (auto simp: pci_epf_nvme_get_prp_list_def Let_def split: option.splits sum.splits if_splits
      dest!: transfer_evil)

lemma prp_list_entry_step_evil:
  "prp_list_entry_step s e w x = Inr st \<Longrightarrow>
     (case st of Return r s1 e1 \<Rightarrow> evil_activated s1 = evil_activated s
      | Continue s1 e1 w1 \<Rightarrow> evil_activated s1 = evil_activated s)"
  by (auto simp: prp_list_entry_step_def Let_def split: sum.splits if_splits option.splits)

lemma prp_list_body_evil:
  "prp_list_body n s e w = Some (Inr st) \<Longrightarrow>
     (case st of Return r s1 e1 \<Rightarrow> evil_activated s1 = evil_activated s
      | Continue s1 e1 w1 \<Rightarrow> evil_activated s1 = evil_activated s)"
  by (auto simp: prp_list_body_def Let_def split: option.splits sum.splits if_splits prp_step.splits
      dest!: get_prp_list_evil prp_list_entry_step_evil)

lemma prp_list_loop_evil:
  "prp_list_loop n s e w = Some (Inr (r, s1, e1)) \<Longrightarrow> evil_activated s1 = evil_activated s"
proof (induction n arbitrary: s e w)
  case 0
  then show ?case by simp
next
  case (Suc n)
  show ?case
  proof (cases "w_size w < buffer_size e")
    case False
    with Suc.prems show ?thesis by (auto simp: Let_def split: if_splits)
  next
    case True
    with Suc.prems obtain st where b: "prp_list_body n s e w = Some (Inr st)"
      by (auto split: option.splits sum.splits)
    show ?thesis
    proof (cases st)
      case (Return r' s' e')
      with Suc.prems True b prp_list_body_evil[OF b] show ?thesis by simp
    next
      case (Continue s' e' w')
      with Suc.prems True b have "prp_list_loop n s' e' w' = Some (Inr (r, s1, e1))" by simp
      from Suc.IH[OF this] prp_list_body_evil[OF b] Continue show ?thesis by simp
    qed
  qed
qed

lemma parse_prp_list_evil:
  "pci_epf_nvme_cmd_parse_prp_list n s e = Some (Inr (r, s1, e1)) \<Longrightarrow> evil_activated s1 = evil_activated s"
  by (auto simp: pci_epf_nvme_cmd_parse_prp_list_def Let_def split: prod.splits if_splits
      dest!: prp_list_loop_evil)

lemma memcmp_bytes_eq:
  "length xs = length ys \<Longrightarrow> (memcmp_bytes xs ys = 0) = (xs = ys)"
proof (induction xs ys rule: memcmp_bytes.induct)
  case (1 uu)
  then show ?case by simp
next
  case (2 v va)
  then show ?case by simp
next
  case (3 a as b bs)
  then show ?case by (auto simp: word_uint_eq_iff)
qed

lemma activation_key_bytes_length: "length activation_key_bytes = 1024"
  by (simp add: activation_key_bytes_def activation_key_def le32_bytes_def)

lemma memcmp_key:
  "memcmp (Some bs) activation_key_bytes NVME_EVIL_ACTIVATION_KEY_LEN =
     (if length bs < 256 then Inl OutOfBounds
      else Inr (memcmp_bytes (take 256 bs) (take 256 activation_key_bytes)))"
  by (simp add: memcmp_def NVME_EVIL_ACTIVATION_KEY_LEN_def activation_key_bytes_length)

lemma memcmp_key_zero:
  "256 \<le> length bs \<Longrightarrow>
     (memcmp_bytes (take 256 bs) (take 256 activation_key_bytes) = 0)
       = (take 256 bs = take 256 activation_key_bytes)"
  by (rule memcmp_bytes_eq) (simp add: activation_key_bytes_length)

lemma evil_work_sets_flag:
  assumes "buffer_size e \<le> SZ_128K" "buffer e = Some bs" "256 \<le> length bs"
    "take 256 bs = take 256 activation_key_bytes"
  shows "pci_epf_nvme_evil_work s e = Inr (pci_epf_nvme_free_cmd (s\<lparr>evil_activated := True\<rparr>) e)"
  using assms memcmp_key_zero[of bs]
  by (simp add: pci_epf_nvme_evil_work_def memcmp_key)

lemma evil_work_result:
  "(case pci_epf_nvme_evil_work s e of
      Inl f \<Rightarrow> True
    | Inr s1 \<Rightarrow>
        evil_activated s1 =
          (evil_activated s \<or>
           (buffer_size e \<le> SZ_128K \<and>
            (\<exists>bs. buffer e = Some bs \<and> 256 \<le> length bs \<and>
                  take 256 bs = take 256 activation_key_bytes))) \<and>
        s1 = s\<lparr>evil_activated := evil_activated s1, freed := freed s @ [e]\<rparr>)"
proof (cases "buffer e")
  case None
  then show ?thesis
    by (simp add: pci_epf_nvme_evil_work_def memcmp_def pci_epf_nvme_free_cmd_def)
next
  case (Some bs)
  show ?thesis
  proof (cases "256 \<le> length bs")
    case True
    with Some memcmp_key_zero[of bs] show ?thesis
      by (simp add: pci_epf_nvme_evil_work_def memcmp_key pci_epf_nvme_free_cmd_def)
  next
    case False
    with Some show ?thesis
      by (simp add: pci_epf_nvme_evil_work_def memcmp_key pci_epf_nvme_free_cmd_def)
  qed
qed

lemma queue_response_write_posted:
  assumes "pci_epf_nvme_ctrl_ready s"
    and "queue_at (cq (ctrl s)) (cqid_c e) = Inr cq0"
    and "qflags cq0 AND PCI_EPF_NVME_QUEUE_LIVE \<noteq> 0"
    and "uint (ucast (pci_epf_nvme_reg_read32 (ctrl s) (db cq0)) :: u16) \<noteq> uint (tail cq0) + 1"
    and "queue_at (sq (ctrl s)) (sqid e) = Inr sq0"
    and "sqid e \<noteq> 0" and "opcode (cmd e) = nvme_cmd_write"
  shows "\<exists>s1 e1. pci_epf_nvme_queue_response s e = Inr (True, s1) \<and>
           evil_wq s1 = evil_wq s @ [e1] \<and> buffer e1 = buffer e \<and> buffer_size e1 = buffer_size e \<and>
           host_cq s1 (pci_addr cq0 + ucast (tail cq0) * qes cq0) = Some (cqe e1)"
  using assms
  by (simp add: pci_epf_nvme_queue_response_def Let_def set_cq_def)

lemma queue_response_evil_wq:
  "(case pci_epf_nvme_queue_response s e of
      Inl f \<Rightarrow> True
    | Inr (b, s1) \<Rightarrow>
        evil_wq s1 = evil_wq s \<or>
        (b \<and> sqid e \<noteq> 0 \<and> opcode (cmd e) = nvme_cmd_write \<and>
         (\<exists>e1 a. evil_wq s1 = evil_wq s @ [e1] \<and> buffer e1 = buffer e \<and>
                 buffer_size e1 = buffer_size e \<and> host_cq s1 a = Some (cqe e1))))"
  by (auto simp: pci_epf_nvme_queue_response_def Let_def set_cq_def pci_epf_nvme_free_cmd_def
      split: sum.splits)

lemma complete_cmd_evil_case:
  "\<forall>s e. case pci_epf_nvme_complete_cmd s e of
      Inl f \<Rightarrow> True | Inr s1 \<Rightarrow> evil_activated s1 = evil_activated s"
  by (auto split: sum.splits option.splits dest: complete_cmd_evil)

lemma cq_work_evil_case:
  "\<forall>s qi. case pci_epf_nvme_cq_work s qi of
      Inl f \<Rightarrow> True | Inr (s1, l) \<Rightarrow> evil_activated s1 = evil_activated s"
  by (auto split: sum.splits option.splits dest: cq_work_evil)

lemma create_cq_evil_case:
  "\<forall>s q f n v a. case pci_epf_nvme_create_cq s q f n v a of
      Inl f \<Rightarrow> True | Inr (r, s1) \<Rightarrow> evil_activated s1 = evil_activated s"
  by (auto split: sum.splits option.splits dest: create_cq_evil)

lemma create_sq_evil_case:
  "\<forall>s q c f n a. case pci_epf_nvme_create_sq s q c f n a of
      Inl f \<Rightarrow> True | Inr (r, s1) \<Rightarrow> evil_activated s1 = evil_activated s"
  by (auto split: sum.splits option.splits dest: create_sq_evil)

lemma delete_cq_evil_case:
  "\<forall>s q. case pci_epf_nvme_delete_cq s q of
      Inl f \<Rightarrow> True | Inr s1 \<Rightarrow> evil_activated s1 = evil_activated s"
  by (auto split: sum.splits option.splits dest: delete_cq_evil)

lemma delete_sq_evil_case:
  "\<forall>s q. case pci_epf_nvme_delete_sq s q of
      Inl f \<Rightarrow> True | Inr s1 \<Rightarrow> evil_activated s1 = evil_activated s"
  by (auto split: sum.splits option.splits dest: delete_sq_evil)

lemma disable_ctrl_evil_case:
  "\<forall>s. case pci_epf_nvme_disable_ctrl s of
      Inl f \<Rightarrow> True | Inr s1 \<Rightarrow> evil_activated s1 = evil_activated s"
  by (auto split: sum.splits option.splits dest: disable_ctrl_evil)

lemma process_create_cq_evil_case:
  "\<forall>s e. case pci_epf_nvme_process_create_cq s e of
      Inl f \<Rightarrow> True | Inr (s1, e1) \<Rightarrow> evil_activated s1 = evil_activated s"
  by (auto split: sum.splits option.splits dest: process_create_cq_evil)

lemma process_create_sq_evil_case:
  "\<forall>s e. case pci_epf_nvme_process_create_sq s e of
      Inl f \<Rightarrow> True | Inr (s1, e1) \<Rightarrow> evil_activated s1 = evil_activated s"
  by (auto split: sum.splits option.splits dest: process_create_sq_evil)

lemma transfer_evil_case:
  "\<forall>n s seg d buf. case pci_epf_nvme_transfer n s seg d buf of
      None \<Rightarrow> True | Some (Inl f) \<Rightarrow> True
    | Some (Inr (r, s1, b1)) \<Rightarrow> evil_activated s1 = evil_activated s"
  by (auto split: sum.splits option.splits dest: transfer_evil)

lemma parse_prp_list_evil_case:
  "\<forall>n s e. case pci_epf_nvme_cmd_parse_prp_list n s e of
      None \<Rightarrow> True | Some (Inl f) \<Rightarrow> True
    | Some (Inr (r, s1, e1)) \<Rightarrow> evil_activated s1 = evil_activated s"
  by (auto split: sum.splits option.splits dest: parse_prp_list_evil)

lemma queue_response_evil_case:
  "\<forall>s e. case pci_epf_nvme_queue_response s e of
      Inl f \<Rightarrow> True
    | Inr (b, s1) \<Rightarrow>
        evil_activated s1 = evil_activated s \<and>
        (evil_wq s1 = evil_wq s \<or>
         (b \<and> sqid e \<noteq> 0 \<and> opcode (cmd e) = nvme_cmd_write \<and>
          (\<exists>e1 a. evil_wq s1 = evil_wq s @ [e1] \<and> buffer e1 = buffer e \<and>
                  buffer_size e1 = buffer_size e \<and> host_cq s1 a = Some (cqe e1))))"
proof (intro allI)
  fix s :: pci_epf_nvme and e :: pci_epf_nvme_cmd
  show "case pci_epf_nvme_queue_response s e of
      Inl f \<Rightarrow> True
    | Inr (b, s1) \<Rightarrow>
        evil_activated s1 = evil_activated s \<and>
        (evil_wq s1 = evil_wq s \<or>
         (b \<and> sqid e \<noteq> 0 \<and> opcode (cmd e) = nvme_cmd_write \<and>
          (\<exists>e1 a. evil_wq s1 = evil_wq s @ [e1] \<and> buffer e1 = buffer e \<and>
                  buffer_size e1 = buffer_size e \<and> host_cq s1 a = Some (cqe e1))))"
    using queue_response_evil_wq[of s e]
    by (cases "pci_epf_nvme_queue_response s e") (auto dest: queue_response_evil)
qed

lemma evil_work_sets_flag_ex:
  "\<forall>s e bs.
      buffer_size e \<le> SZ_128K \<and> buffer e = Some bs \<and> 256 \<le> length bs \<and>
      take 256 bs = take 256 activation_key_bytes \<longrightarrow>
      (\<exists>s1. pci_epf_nvme_evil_work s e = Inr s1 \<and> evil_activated s1)"
  using evil_work_sets_flag by (simp add: pci_epf_nvme_free_cmd_def)

lemma queue_response_write_posted_all:
  "\<forall>s e cq0 sq0.
      pci_epf_nvme_ctrl_ready s \<and>
      queue_at (cq (ctrl s)) (cqid_c e) = Inr cq0 \<and>
      qflags cq0 AND PCI_EPF_NVME_QUEUE_LIVE \<noteq> 0 \<and>
      uint (ucast (pci_epf_nvme_reg_read32 (ctrl s) (db cq0)) :: u16) \<noteq> uint (tail cq0) + 1 \<and>
      queue_at (sq (ctrl s)) (sqid e) = Inr sq0 \<and>
      sqid e \<noteq> 0 \<and> opcode (cmd e) = nvme_cmd_write \<longrightarrow>
      (\<exists>s1 e1. pci_epf_nvme_queue_response s e = Inr (True, s1) \<and>
         evil_wq s1 = evil_wq s @ [e1] \<and> buffer e1 = buffer e \<and> buffer_size e1 = buffer_size e \<and>
         host_cq s1 (pci_addr cq0 + ucast (tail cq0) * qes cq0) = Some (cqe e1))"
  using queue_response_write_posted by blast

lemma enable_ctrl_evil:
  assumes "pci_epf_nvme_enable_ctrl s = Inr s1"
  shows "evil_activated s1 = evil_activated s"
  using assms unfolding pci_epf_nvme_enable_ctrl_def Let_def
  by (auto split: if_splits sum.splits prod.splits
      dest!: create_cq_evil create_sq_evil delete_cq_evil)

lemma reg_poll_evil:
  "pci_epf_nvme_reg_poll s = Inr s1 \<Longrightarrow> evil_activated s1 = evil_activated s"
  by (auto simp: pci_epf_nvme_reg_poll_def cc_polled_def Let_def split: if_splits
      dest!: enable_ctrl_evil disable_ctrl_evil)

lemma link_down_evil:
  "pci_epf_nvme_link_down s = Inr s1 \<Longrightarrow> evil_activated s1 = evil_activated s"
  by (auto simp: pci_epf_nvme_link_down_def dest!: disable_ctrl_evil)

lemma enable_ctrl_evil_case:
  "\<forall>s. case pci_epf_nvme_enable_ctrl s of
      Inl f \<Rightarrow> True | Inr s1 \<Rightarrow> evil_activated s1 = evil_activated s"
  by (auto split: sum.splits dest: enable_ctrl_evil)

lemma reg_poll_evil_case:
  "\<forall>s. case pci_epf_nvme_reg_poll s of
      Inl f \<Rightarrow> True | Inr s1 \<Rightarrow> evil_activated s1 = evil_activated s"
  by (auto split: sum.splits dest: reg_poll_evil)

lemma link_down_evil_case:
  "\<forall>s. case pci_epf_nvme_link_down s of
      Inl f \<Rightarrow> True | Inr s1 \<Rightarrow> evil_activated s1 = evil_activated s"
  by (auto split: sum.splits dest: link_down_evil)

lemma process_delete_cq_evil_case:
  "\<forall>s e. case pci_epf_nvme_process_delete_cq s e of
      Inl f \<Rightarrow> True | Inr (s1, e1) \<Rightarrow> evil_activated s1 = evil_activated s"
  by (auto simp: pci_epf_nvme_process_delete_cq_def Let_def
      split: sum.splits if_splits bool.splits dest!: delete_cq_evil)

lemma process_delete_sq_evil_case:
  "\<forall>s e. case pci_epf_nvme_process_delete_sq s e of
      Inl f \<Rightarrow> True | Inr (s1, e1) \<Rightarrow> evil_activated s1 = evil_activated s"
  by (auto simp: pci_epf_nvme_process_delete_sq_def Let_def
      split: sum.splits if_splits bool.splits dest!: delete_sq_evil)

text \<open>
  Claim C1. When the completion of an I/O write command is posted (controller ready,
  completion queue live, ring not found full), the command is queued on \<open>evil_wq\<close>
  with its staging buffer. The work item compares the buffer with the activation key
  when \<open>buffer_size\<close> is at most 128 KiB, and sets \<open>evil_activated\<close> when the first 256
  bytes of the buffer are the first 256 bytes of the key: afterwards the flag is set
  exactly if it was set before or that comparison succeeded, and apart from the flag
  and the list of freed commands the state, in particular everything the host can
  observe, is unchanged. No other operation changes the flag, and
  \<open>pci_epf_nvme_queue_response\<close> queues the work only for a posted I/O write command.
\<close>

theorem evil_activation_by_write_data:
  "(\<forall>s e cq0 sq0.
      pci_epf_nvme_ctrl_ready s \<and>
      queue_at (cq (ctrl s)) (cqid_c e) = Inr cq0 \<and>
      qflags cq0 AND PCI_EPF_NVME_QUEUE_LIVE \<noteq> 0 \<and>
      uint (ucast (pci_epf_nvme_reg_read32 (ctrl s) (db cq0)) :: u16) \<noteq> uint (tail cq0) + 1 \<and>
      queue_at (sq (ctrl s)) (sqid e) = Inr sq0 \<and>
      sqid e \<noteq> 0 \<and> opcode (cmd e) = nvme_cmd_write \<longrightarrow>
      (\<exists>s1 e1. pci_epf_nvme_queue_response s e = Inr (True, s1) \<and>
         evil_wq s1 = evil_wq s @ [e1] \<and> buffer e1 = buffer e \<and> buffer_size e1 = buffer_size e \<and>
         host_cq s1 (pci_addr cq0 + ucast (tail cq0) * qes cq0) = Some (cqe e1))) \<and>
   (\<forall>s e bs.
      buffer_size e \<le> SZ_128K \<and> buffer e = Some bs \<and> 256 \<le> length bs \<and>
      take 256 bs = take 256 activation_key_bytes \<longrightarrow>
      (\<exists>s1. pci_epf_nvme_evil_work s e = Inr s1 \<and> evil_activated s1)) \<and>
   (\<forall>s e. case pci_epf_nvme_evil_work s e of
      Inl f \<Rightarrow> True
    | Inr s1 \<Rightarrow>
        evil_activated s1 =
          (evil_activated s \<or>
           (buffer_size e \<le> SZ_128K \<and>
            (\<exists>bs. buffer e = Some bs \<and> 256 \<le> length bs \<and>
                  take 256 bs = take 256 activation_key_bytes))) \<and>
        s1 = s\<lparr>evil_activated := evil_activated s1, freed := freed s @ [e]\<rparr>) \<and>
   (\<forall>s e. case pci_epf_nvme_queue_response s e of
      Inl f \<Rightarrow> True
    | Inr (b, s1) \<Rightarrow>
        evil_activated s1 = evil_activated s \<and>
        (evil_wq s1 = evil_wq s \<or>
         (b \<and> sqid e \<noteq> 0 \<and> opcode (cmd e) = nvme_cmd_write \<and>
          (\<exists>e1 a. evil_wq s1 = evil_wq s @ [e1] \<and> buffer e1 = buffer e \<and>
                  buffer_size e1 = buffer_size e \<and> host_cq s1 a = Some (cqe e1))))) \<and>
   (\<forall>s e. case pci_epf_nvme_complete_cmd s e of
      Inl f \<Rightarrow> True | Inr s1 \<Rightarrow> evil_activated s1 = evil_activated s) \<and>
   (\<forall>s qi. case pci_epf_nvme_cq_work s qi of
      Inl f \<Rightarrow> True | Inr (s1, l) \<Rightarrow> evil_activated s1 = evil_activated s) \<and>
   (\<forall>s q. evil_activated (pci_epf_nvme_raise_irq s q) = evil_activated s) \<and>
   (\<forall>s e. evil_activated (pci_epf_nvme_free_cmd s e) = evil_activated s) \<and>
   (\<forall>s q f n v a. case pci_epf_nvme_create_cq s q f n v a of
      Inl f \<Rightarrow> True | Inr (r, s1) \<Rightarrow> evil_activated s1 = evil_activated s) \<and>
   (\<forall>s q c f n a. case pci_epf_nvme_create_sq s q c f n a of
      Inl f \<Rightarrow> True | Inr (r, s1) \<Rightarrow> evil_activated s1 = evil_activated s) \<and>
   (\<forall>s q. case pci_epf_nvme_delete_cq s q of
      Inl f \<Rightarrow> True | Inr s1 \<Rightarrow> evil_activated s1 = evil_activated s) \<and>
   (\<forall>s q. case pci_epf_nvme_delete_sq s q of
      Inl f \<Rightarrow> True | Inr s1 \<Rightarrow> evil_activated s1 = evil_activated s) \<and>
   (\<forall>s. case pci_epf_nvme_disable_ctrl s of
      Inl f \<Rightarrow> True | Inr s1 \<Rightarrow> evil_activated s1 = evil_activated s) \<and>
   (\<forall>s e. case pci_epf_nvme_process_create_cq s e of
      Inl f \<Rightarrow> True | Inr (s1, e1) \<Rightarrow> evil_activated s1 = evil_activated s) \<and>
   (\<forall>s e. case pci_epf_nvme_process_create_sq s e of
      Inl f \<Rightarrow> True | Inr (s1, e1) \<Rightarrow> evil_activated s1 = evil_activated s) \<and>
   (\<forall>n s seg d buf. case pci_epf_nvme_transfer n s seg d buf of
      None \<Rightarrow> True | Some (Inl f) \<Rightarrow> True
    | Some (Inr (r, s1, b1)) \<Rightarrow> evil_activated s1 = evil_activated s) \<and>
   (\<forall>n s e. case pci_epf_nvme_cmd_parse_prp_list n s e of
      None \<Rightarrow> True | Some (Inl f) \<Rightarrow> True
    | Some (Inr (r, s1, e1)) \<Rightarrow> evil_activated s1 = evil_activated s) \<and>
   (\<forall>s. case pci_epf_nvme_enable_ctrl s of
      Inl f \<Rightarrow> True | Inr s1 \<Rightarrow> evil_activated s1 = evil_activated s) \<and>
   (\<forall>s. case pci_epf_nvme_reg_poll s of
      Inl f \<Rightarrow> True | Inr s1 \<Rightarrow> evil_activated s1 = evil_activated s) \<and>
   (\<forall>s. case pci_epf_nvme_link_down s of
      Inl f \<Rightarrow> True | Inr s1 \<Rightarrow> evil_activated s1 = evil_activated s) \<and>
   (\<forall>s e. case pci_epf_nvme_process_delete_cq s e of
      Inl f \<Rightarrow> True | Inr (s1, e1) \<Rightarrow> evil_activated s1 = evil_activated s) \<and>
   (\<forall>s e. case pci_epf_nvme_process_delete_sq s e of
      Inl f \<Rightarrow> True | Inr (s1, e1) \<Rightarrow> evil_activated s1 = evil_activated s)"
  using queue_response_write_posted_all evil_work_sets_flag_ex evil_work_result
    queue_response_evil_case raise_irq_evil free_cmd_evil
    complete_cmd_evil_case cq_work_evil_case create_cq_evil_case
    create_sq_evil_case delete_cq_evil_case delete_sq_evil_case
    disable_ctrl_evil_case process_create_cq_evil_case process_create_sq_evil_case
    transfer_evil_case parse_prp_list_evil_case
    enable_ctrl_evil_case reg_poll_evil_case link_down_evil_case
    process_delete_cq_evil_case process_delete_sq_evil_case
  by (intro conjI) blast+

theorem evil_activation_by_write_data_witness:
  "\<exists>s1 e1 s2. pci_epf_nvme_queue_response ex_live ex_key_write = Inr (True, s1) \<and>
     evil_wq s1 = evil_wq ex_live @ [e1] \<and> buffer e1 = buffer ex_key_write \<and>
     pci_epf_nvme_evil_work s1 e1 = Inr s2 \<and> evil_activated s2 \<and> \<not> evil_activated ex_live"
proof -
  have e: "cqid_c ex_key_write = 1" "sqid ex_key_write = 1"
    "opcode (cmd ex_key_write) = nvme_cmd_write"
    by (simp_all add: ex_key_write_def ex_cmd_def)
  have h: "pci_epf_nvme_ctrl_ready ex_live \<and>
      queue_at (cq (ctrl ex_live)) (cqid_c ex_key_write) = Inr (cq (ctrl ex_live) ! 1) \<and>
      qflags (cq (ctrl ex_live) ! 1) AND PCI_EPF_NVME_QUEUE_LIVE \<noteq> 0 \<and>
      uint (ucast (pci_epf_nvme_reg_read32 (ctrl ex_live) (db (cq (ctrl ex_live) ! 1))) :: u16)
        \<noteq> uint (tail (cq (ctrl ex_live) ! 1)) + 1 \<and>
      queue_at (sq (ctrl ex_live)) (sqid ex_key_write) = Inr (sq (ctrl ex_live) ! 1) \<and>
      sqid ex_key_write \<noteq> 0 \<and> opcode (cmd ex_key_write) = nvme_cmd_write"
    using ex_live_post[OF e(1,2)] e by simp
  from evil_activation_by_write_data[THEN conjunct1, rule_format, OF h]
  obtain s1 e1 where p: "pci_epf_nvme_queue_response ex_live ex_key_write = Inr (True, s1)"
    "evil_wq s1 = evil_wq ex_live @ [e1]" "buffer e1 = buffer ex_key_write"
    "buffer_size e1 = buffer_size ex_key_write"
    by blast
  have "buffer ex_key_write = Some (take 256 activation_key_bytes @ replicate 256 0)"
    and "buffer_size ex_key_write = 512"
    by (simp_all add: ex_key_write_def)
  with p have "buffer_size e1 \<le> SZ_128K \<and>
      buffer e1 = Some (take 256 activation_key_bytes @ replicate 256 0) \<and>
      256 \<le> length (take 256 activation_key_bytes @ replicate 256 0) \<and>
      take 256 (take 256 activation_key_bytes @ replicate 256 0) = take 256 activation_key_bytes"
    by (simp add: SZ_128K_def activation_key_bytes_length)
  from evil_activation_by_write_data[THEN conjunct2, THEN conjunct1, rule_format, OF this]
  obtain s2 where "pci_epf_nvme_evil_work s1 e1 = Inr s2" "evil_activated s2"
    by blast
  moreover have "\<not> evil_activated ex_live"
    by code_simp
  ultimately show ?thesis
    using p by blast
qed

subsection \<open>Ring-full detection\<close>

text \<open>
  When the head doorbell reads \<open>tail + 1\<close> (as integers) the posting defers: the
  function returns \<open>false\<close>, nothing is written to host memory, the command is neither
  freed nor queued, and of the queue only \<open>head\<close> changes.
\<close>

lemma queue_response_full_defers:
  assumes "pci_epf_nvme_ctrl_ready s"
    and "queue_at (cq (ctrl s)) (cqid_c e) = Inr cq0"
    and "qflags cq0 AND PCI_EPF_NVME_QUEUE_LIVE \<noteq> 0"
    and "uint (ucast (pci_epf_nvme_reg_read32 (ctrl s) (db cq0)) :: u16) = uint (tail cq0) + 1"
  shows "pci_epf_nvme_queue_response s e =
           Inr (False, set_cq s (cqid_c e)
                  (cq0\<lparr>head := ucast (pci_epf_nvme_reg_read32 (ctrl s) (db cq0))\<rparr>))"
  using assms by (simp add: pci_epf_nvme_queue_response_def Let_def)

text \<open>
  Claim C2 (a full ring, the wraparound case included, defers the posting) does not
  hold of the code: the test \<open>cq->head == cq->tail + 1\<close> has no reduction modulo the
  depth. After three completions are posted on the completion queue of depth 4 and the
  host has consumed none (head doorbell 0, tail 3), the ring is full, yet the fourth
  posting writes slot 3, wraps the tail to 0 and flips the phase.
\<close>

theorem queue_response_full_ring_wraparound_posts:
  "(case ex_io_pair 3 of
      Inl f \<Rightarrow> False
    | Inr s0 \<Rightarrow>
        (case ex_cq_run s0 [ex_read 10, ex_read 11, ex_read 12] of
           Inl f \<Rightarrow> False
         | Inr (s, l) \<Rightarrow>
             depth (cq (ctrl s) ! 1) = 4 \<and> tail (cq (ctrl s) ! 1) = 3 \<and>
             phase (cq (ctrl s) ! 1) = 1 \<and>
             pci_epf_nvme_reg_read32 (ctrl s) (db (cq (ctrl s) ! 1)) = 0 \<and>
             host_cq s 0x10030 = None \<and>
             (case pci_epf_nvme_queue_response s (ex_read 13) of
                Inl f \<Rightarrow> False
              | Inr (posted, s') \<Rightarrow>
                  posted \<and> map_option command_id (host_cq s' 0x10030) = Some 13 \<and>
                  tail (cq (ctrl s') ! 1) = 0 \<and> phase (cq (ctrl s') ! 1) = 0)))"
  by code_simp

text \<open>
  The consequence: five completions posted in one run of the work while the host
  consumes nothing leave the fifth in slot 0, over the first.
\<close>

lemma cq_work_overwrites_unconsumed_slot:
  "(case ex_io_pair 3 of
      Inl f \<Rightarrow> False
    | Inr s0 \<Rightarrow>
        (case ex_cq_run s0 [ex_read 10, ex_read 11, ex_read 12, ex_read 13, ex_read 14] of
           Inl f \<Rightarrow> False
         | Inr (s, l) \<Rightarrow>
             pci_epf_nvme_reg_read32 (ctrl s) (db (cq (ctrl s) ! 1)) = 0 \<and>
             map (\<lambda>k. map_option command_id (host_cq s (0x10000 + 16 * k))) [0, 1, 2, 3]
               = [Some 14, Some 11, Some 12, Some 13]))"
  by code_simp

subsection \<open>Commands pending on a full ring\<close>

text \<open>
  Claim C3 (commands not posted because the ring is full stay on a pending list and
  are posted later in order) does not hold of the code: \<open>pci_epf_nvme_cq_work\<close> unlinks
  a command before it tries to post it and links it nowhere when the posting defers,
  and the commands behind it stay on the list head on the stack of the function.
  Here three completions are posted, the host consumes one (head doorbell 1), a fourth
  is posted and wraps the tail to 0: the ring is full. Commands 14 and 15 complete and
  the work runs: the queue's list is empty afterwards, command 15 is left on the local
  list, neither command is freed, queued or in the ring. After the host has consumed
  everything the work runs again and posts nothing.
\<close>

theorem cq_work_drops_commands_on_full_ring:
  "(case ex_io_pair 3 of
      Inl f \<Rightarrow> False
    | Inr s0 \<Rightarrow>
        (case ex_cq_run s0 [ex_read 10, ex_read 11, ex_read 12] of
           Inl f \<Rightarrow> False
         | Inr (s1, l1) \<Rightarrow>
             (case ex_cq_run (host_writes s1 (db (cq (ctrl s1) ! 1)) 1) [ex_read 13] of
                Inl f \<Rightarrow> False
              | Inr (s2, l2) \<Rightarrow>
                  l1 = [] \<and> l2 = [] \<and> length (freed s2) = 4 \<and>
                  tail (cq (ctrl s2) ! 1) = 0 \<and> head (cq (ctrl s2) ! 1) = 1 \<and>
                  pci_epf_nvme_ctrl_ready s2 \<and>
                  qflags (cq (ctrl s2) ! 1) AND PCI_EPF_NVME_QUEUE_LIVE \<noteq> 0 \<and>
                  (case ex_cq_run s2 [ex_read 14, ex_read 15] of
                     Inl f \<Rightarrow> False
                   | Inr (s3, l3) \<Rightarrow>
                       map (command_id_c \<circ> cmd) l3 = [15] \<and> list (cq (ctrl s3) ! 1) = [] \<and>
                       freed s3 = freed s2 \<and> evil_wq s3 = [] \<and>
                       map (\<lambda>k. map_option command_id (host_cq s3 (0x10000 + 16 * k))) [0, 1, 2, 3]
                         = [Some 10, Some 11, Some 12, Some 13] \<and>
                       (case ex_cq_run (host_writes s3 (db (cq (ctrl s3) ! 1)) 0) [] of
                          Inl f \<Rightarrow> False
                        | Inr (s4, l4) \<Rightarrow>
                            l4 = [] \<and> freed s4 = freed s2 \<and>
                            map (\<lambda>k. map_option command_id (host_cq s4 (0x10000 + 16 * k))) [0, 1, 2, 3]
                              = [Some 10, Some 11, Some 12, Some 13])))))"
  by code_simp

subsection \<open>Interrupts of a queue created with interrupts disabled\<close>

text \<open>
  Claim C8 (an interrupt is raised for a posted completion exactly if the queue was
  created with the IRQ-enabled flag) does not hold of the code:
  \<open>pci_epf_nvme_raise_irq\<close> tests \<open>cq->qflags\<close>, which holds the driver's own flags,
  and not \<open>cq->flags\<close>, which holds the flags of the create command;
  \<open>NVME_CQ_IRQ_ENABLED\<close> and \<open>PCI_EPF_NVME_QUEUE_LIVE\<close> are the same bit. Completion
  queue 1 is created with the flags "physically contiguous" only; posting one
  completion raises MSI-X interrupt 1.
\<close>

theorem cq_work_raises_irq_when_disabled:
  "(case ex_io_pair 1 of
      Inl f \<Rightarrow> False
    | Inr s0 \<Rightarrow>
        flags (cq (ctrl s0) ! 1) AND ucast NVME_CQ_IRQ_ENABLED = 0 \<and>
        (case ex_cq_run s0 [ex_read 10] of
           Inl f \<Rightarrow> False
         | Inr (s, l) \<Rightarrow>
             map_option command_id (host_cq s 0x10000) = Some 10 \<and>
             irq_log s = [(PCI_IRQ_MSIX, 1)]))"
  by code_simp

text \<open>The test of \<open>pci_epf_nvme_raise_irq\<close> is the test for a live queue.\<close>

lemma raise_irq_tests_live:
  "(qflags q AND NVME_CQ_IRQ_ENABLED = 0) = (qflags q AND PCI_EPF_NVME_QUEUE_LIVE = 0)"
  by (simp add: NVME_CQ_IRQ_ENABLED_def PCI_EPF_NVME_QUEUE_LIVE_def)

subsection \<open>Create submission queue: queue ids out of range\<close>

text \<open>
  Claim C7 (a create-SQ command with an invalid queue id fails with QidInvalid or
  CqInvalid, touches no queue state and reads no slot out of range) does not hold of
  the code: the range test is \<open>sqid > nr_queues\<close>, so for \<open>sqid = nr_queues\<close> the slot
  one past the end of the submission queue array is read; and the completion queue id
  is not compared with the number of queues at all, so for \<open>cqid = 9\<close> a slot past the
  end of the completion queue array is read. With 4 queues:
\<close>

theorem process_create_sq_reads_out_of_range:
  "(case ex_io_pair 3 of
      Inl f \<Rightarrow> False
    | Inr s0 \<Rightarrow>
        nr_queues (ctrl s0) = 4 \<and> length (sq (ctrl s0)) = 4 \<and> length (cq (ctrl s0)) = 4 \<and>
        (case pci_epf_nvme_process_create_sq s0 (ex_create_sq 4 1) of
           Inl f \<Rightarrow> f = OutOfBounds
         | Inr r \<Rightarrow> False) \<and>
        (case pci_epf_nvme_process_create_sq s0 (ex_create_sq 2 9) of
           Inl f \<Rightarrow> f = OutOfBounds
         | Inr r \<Rightarrow> False))"
  by code_simp

text \<open>The cases of the claim that the code does handle.\<close>

lemma process_create_sq_qid_invalid:
  assumes "create_sq_sqid (cmd e) = 0 \<or> uint (create_sq_sqid (cmd e)) > uint (nr_queues (ctrl s)) \<or>
           (unat (create_sq_sqid (cmd e)) < length (sq (ctrl s)) \<and>
            ref (sq (ctrl s) ! unat (create_sq_sqid (cmd e))) \<noteq> 0)"
  shows "pci_epf_nvme_process_create_sq s e =
           Inr (s, e\<lparr>status := NVME_SC_QID_INVALID OR NVME_STATUS_DNR\<rparr>)"
  using assms by (auto simp: pci_epf_nvme_process_create_sq_def Let_def queue_at_def)

lemma process_create_sq_cq_invalid:
  assumes "create_sq_sqid (cmd e) \<noteq> 0"
    and "unat (create_sq_sqid (cmd e)) < length (sq (ctrl s))"
    and "uint (create_sq_sqid (cmd e)) \<le> uint (nr_queues (ctrl s))"
    and "ref (sq (ctrl s) ! unat (create_sq_sqid (cmd e))) = 0"
    and "create_sq_cqid (cmd e) = 0 \<or>
           (unat (create_sq_cqid (cmd e)) < length (cq (ctrl s)) \<and>
            ref (cq (ctrl s) ! unat (create_sq_cqid (cmd e))) = 0)"
  shows "pci_epf_nvme_process_create_sq s e =
           Inr (s, e\<lparr>status := NVME_SC_CQ_INVALID OR NVME_STATUS_DNR\<rparr>)"
  using assms by (auto simp: pci_epf_nvme_process_create_sq_def Let_def queue_at_def)

subsection \<open>The phase bit\<close>

lemma unat_tail_Suc:
  fixes t d :: u16
  assumes "t < d"
  shows "unat (t + 1) = unat t + 1"
proof -
  have "unat t < unat d" using assms by (simp add: word_less_nat_alt)
  moreover have "unat d < 2 ^ 16" using unsigned_less[of d, where ?'a=nat] by simp
  ultimately have "unat t + 1 < 2 ^ 16" by simp
  then show ?thesis by (simp add: unat_word_ariths)
qed

lemma cq_advance_tail_step:
  assumes "tail q < depth q"
  shows "cq_advance_tail q =
           (if unat (tail q) + 1 = unat (depth q)
            then q\<lparr>tail := 0, phase := phase q XOR 1\<rparr>
            else q\<lparr>tail := tail q + 1\<rparr>)"
    and "tail (cq_advance_tail q) < depth (cq_advance_tail q)"
proof -
  have u: "unat (tail q + 1) = unat (tail q) + 1"
    using assms by (rule unat_tail_Suc)
  have lt: "unat (tail q) < unat (depth q)"
    using assms by (simp add: word_less_nat_alt)
  show "cq_advance_tail q =
           (if unat (tail q) + 1 = unat (depth q)
            then q\<lparr>tail := 0, phase := phase q XOR 1\<rparr>
            else q\<lparr>tail := tail q + 1\<rparr>)"
    using u lt by (auto simp: cq_advance_tail_def Let_def word_le_nat_alt)
  then show "tail (cq_advance_tail q) < depth (cq_advance_tail q)"
    using u lt assms by (auto simp: word_less_nat_alt split: if_splits)
qed

lemma cq_advance_tail_iter:
  assumes "tail q < depth q" and "k \<le> unat (depth q)"
  shows "(cq_advance_tail ^^ k) q =
           (if k < unat (depth q) - unat (tail q)
            then q\<lparr>tail := tail q + of_nat k\<rparr>
            else q\<lparr>tail := of_nat (k - (unat (depth q) - unat (tail q))), phase := phase q XOR 1\<rparr>)"
  using assms(2)
proof (induction k)
  case 0
  have "unat (tail q) < unat (depth q)"
    using assms(1) by (simp add: word_less_nat_alt)
  then show ?case by simp
next
  case (Suc k)
  let ?D = "unat (depth q)" and ?t = "unat (tail q)"
  have lt: "?t < ?D" using assms(1) by (simp add: word_less_nat_alt)
  have D16: "?D < 2 ^ 16" using unsigned_less[of "depth q", where ?'a=nat] by simp
  from Suc have k: "k < ?D" by simp
  show ?case
  proof (cases "k < ?D - ?t")
    case True
    let ?q1 = "q\<lparr>tail := tail q + of_nat k\<rparr>"
    have it: "(cq_advance_tail ^^ k) q = ?q1"
      using Suc True by simp
    have ut: "unat (tail q + of_nat k) = ?t + k"
      using True lt D16 by (simp add: unat_word_ariths unat_of_nat)
    then have inv: "tail ?q1 < depth ?q1"
      using True by (simp add: word_less_nat_alt)
    have eq1: "tail q + of_nat k + 1 = tail q + of_nat (Suc k)" by simp
    have st: "(cq_advance_tail ^^ Suc k) q = cq_advance_tail ?q1"
      using it by simp
    show ?thesis
    proof (cases "Suc k < ?D - ?t")
      case True
      then have "unat (tail ?q1) + 1 \<noteq> unat (depth ?q1)"
        using ut by simp
      then have "cq_advance_tail ?q1 = ?q1\<lparr>tail := tail ?q1 + 1\<rparr>"
        using cq_advance_tail_step(1)[OF inv] by simp
      then show ?thesis
        using st True eq1 by simp
    next
      case False
      with \<open>k < ?D - ?t\<close> have e: "?D - ?t = Suc k" by simp
      then have "unat (tail ?q1) + 1 = unat (depth ?q1)"
        using ut lt by simp
      then have "cq_advance_tail ?q1 = ?q1\<lparr>tail := 0, phase := phase ?q1 XOR 1\<rparr>"
        using cq_advance_tail_step(1)[OF inv] by simp
      then show ?thesis
        using st e by simp
    qed
  next
    case False
    let ?j = "k - (?D - ?t)"
    let ?q1 = "q\<lparr>tail := of_nat ?j, phase := phase q XOR 1\<rparr>"
    have it: "(cq_advance_tail ^^ k) q = ?q1"
      using Suc False by simp
    have j: "?j < ?t" using False k lt by simp
    have uj: "unat (of_nat ?j :: u16) = ?j"
      using j lt D16 by (simp add: unat_of_nat)
    then have inv: "tail ?q1 < depth ?q1"
      using j lt by (simp add: word_less_nat_alt)
    have "unat (tail ?q1) + 1 \<noteq> unat (depth ?q1)"
      using uj j lt by simp
    then have "cq_advance_tail ?q1 = ?q1\<lparr>tail := of_nat ?j + 1\<rparr>"
      using cq_advance_tail_step(1)[OF inv] by simp
    moreover have "Suc k - (?D - ?t) = Suc ?j" using False by simp
    ultimately show ?thesis
      using it False by simp
  qed
qed

lemma phase_xor_neq: "(p :: u16) XOR 1 \<noteq> p"
proof
  assume "p XOR 1 = p"
  then have "p XOR (p XOR 1) = p XOR p" by simp
  then have "(1 :: u16) = 0" by (simp add: xor.assoc[symmetric])
  then show False by simp
qed

lemma cq_advance_tail_ring:
  assumes "tail q < depth q"
  shows "(cq_advance_tail ^^ unat (depth q)) q = q\<lparr>phase := phase q XOR 1\<rparr>"
    and "card {k. k < unat (depth q) \<and>
               phase ((cq_advance_tail ^^ Suc k) q) \<noteq> phase ((cq_advance_tail ^^ k) q)} = 1"
proof -
  let ?D = "unat (depth q)" and ?t = "unat (tail q)"
  have lt: "?t < ?D" using assms by (simp add: word_less_nat_alt)
  show "(cq_advance_tail ^^ ?D) q = q\<lparr>phase := phase q XOR 1\<rparr>"
    using cq_advance_tail_iter[OF assms, of ?D] lt by simp
  have "{k. k < ?D \<and> phase ((cq_advance_tail ^^ Suc k) q) \<noteq> phase ((cq_advance_tail ^^ k) q)}
          = {?D - ?t - 1}"
  proof (rule set_eqI)
    fix k
    show "(k \<in> {k. k < ?D \<and> phase ((cq_advance_tail ^^ Suc k) q) \<noteq> phase ((cq_advance_tail ^^ k) q)})
            = (k \<in> {?D - ?t - 1})"
    proof (cases "k < ?D")
      case False
      with lt show ?thesis by auto
    next
      case True
      then have a: "(cq_advance_tail ^^ k) q =
           (if k < ?D - ?t then q\<lparr>tail := tail q + of_nat k\<rparr>
            else q\<lparr>tail := of_nat (k - (?D - ?t)), phase := phase q XOR 1\<rparr>)"
        using cq_advance_tail_iter[OF assms, of k] by simp
      from True have b: "(cq_advance_tail ^^ Suc k) q =
           (if Suc k < ?D - ?t then q\<lparr>tail := tail q + of_nat (Suc k)\<rparr>
            else q\<lparr>tail := of_nat (Suc k - (?D - ?t)), phase := phase q XOR 1\<rparr>)"
        using cq_advance_tail_iter[OF assms, of "Suc k"] by simp
      show ?thesis
        unfolding mem_Collect_eq a b using True lt phase_xor_neq[of "phase q"]
        by (auto split: if_splits)
    qed
  qed
  then show "card {k. k < ?D \<and>
               phase ((cq_advance_tail ^^ Suc k) q) \<noteq> phase ((cq_advance_tail ^^ k) q)} = 1"
    by simp
qed

lemma list_update_map_same: "(map f xs)[i := f (xs ! i)] = map f xs"
  by (cases "i < length xs") (simp_all add: list_update_same_conv list_update_beyond)

lemma queue_at_Inr: "(queue_at qs i = Inr q) = (i < length qs \<and> q = qs ! i)"
  by (auto simp: queue_at_def)

lemma map_list_update_same:
  "f q = f (xs ! i) \<Longrightarrow> map f (xs[i := q]) = map f xs"
  by (simp add: map_update list_update_map_same)

lemma set_cq_cq [simp]: "cq (ctrl (set_cq s i q)) = (cq (ctrl s))[i := q]"
  by (simp add: set_cq_def)

lemma set_sq_cq [simp]: "cq (ctrl (set_sq s i q)) = cq (ctrl s)"
  by (simp add: set_sq_def)

lemma free_cmd_ctrl [simp]: "ctrl (pci_epf_nvme_free_cmd s e) = ctrl s"
  by (simp add: pci_epf_nvme_free_cmd_def)

lemma reg_write32_cq [simp]: "cq (pci_epf_nvme_reg_write32 c r v) = cq c"
  by (simp add: pci_epf_nvme_reg_write32_def)

lemma create_cq_phase:
  assumes "queue_at (cq (ctrl s)) q = Inr cq0" and "ref cq0 = 0"
  shows "\<exists>s1. pci_epf_nvme_create_cq s q f n v a = Inr (0, s1) \<and>
           phase (cq (ctrl s1) ! q) = 1 \<and> tail (cq (ctrl s1) ! q) = 0 \<and>
           head (cq (ctrl s1) ! q) = 0"
  using assms
  by (auto simp: pci_epf_nvme_create_cq_def Let_def queue_at_def split: if_splits)

lemma create_cq_phases:
  "pci_epf_nvme_create_cq s q f n v a = Inr (r, s1) \<Longrightarrow>
     map phase (cq (ctrl s1)) =
       (if ref (cq (ctrl s) ! q) \<ge> 1 then map phase (cq (ctrl s))
        else (map phase (cq (ctrl s)))[q := 1])"
  by (auto simp: pci_epf_nvme_create_cq_def Let_def queue_at_def map_update list_update_map_same
      split: if_splits)

lemma queue_response_posts:
  assumes "pci_epf_nvme_ctrl_ready s"
    and "queue_at (cq (ctrl s)) (cqid_c e) = Inr cq0"
    and "qflags cq0 AND PCI_EPF_NVME_QUEUE_LIVE \<noteq> 0"
    and "uint (ucast (pci_epf_nvme_reg_read32 (ctrl s) (db cq0)) :: u16) \<noteq> uint (tail cq0) + 1"
    and "queue_at (sq (ctrl s)) (sqid e) = Inr sq0"
  shows "\<exists>s1. pci_epf_nvme_queue_response s e = Inr (True, s1) \<and>
           host_cq s1 (pci_addr cq0 + ucast (tail cq0) * qes cq0) \<noteq> None \<and>
           cq (ctrl s1) = (cq (ctrl s))[cqid_c e :=
              cq_advance_tail (cq0\<lparr>head := ucast (pci_epf_nvme_reg_read32 (ctrl s) (db cq0))\<rparr>)]"
  using assms
  by (simp add: pci_epf_nvme_queue_response_def Let_def set_cq_def pci_epf_nvme_free_cmd_def)

lemma cq_advance_tail_head:
  "phase (cq_advance_tail (q\<lparr>head := h\<rparr>)) = phase (cq_advance_tail q)"
  "tail (cq_advance_tail (q\<lparr>head := h\<rparr>)) = tail (cq_advance_tail q)"
  by (simp_all add: cq_advance_tail_def Let_def)

lemma queue_response_phases:
  "pci_epf_nvme_queue_response s e = Inr (b, s1) \<Longrightarrow>
     (map phase (cq (ctrl s1)) = map phase (cq (ctrl s)) \<and>
      map tail (cq (ctrl s1)) = map tail (cq (ctrl s)) \<and> host_cq s1 = host_cq s) \<or>
     (b \<and> cqid_c e < length (cq (ctrl s)) \<and>
      map phase (cq (ctrl s1)) =
        (map phase (cq (ctrl s)))[cqid_c e := phase (cq_advance_tail (cq (ctrl s) ! cqid_c e))] \<and>
      map tail (cq (ctrl s1)) =
        (map tail (cq (ctrl s)))[cqid_c e := tail (cq_advance_tail (cq (ctrl s) ! cqid_c e))])"
  by (auto simp: pci_epf_nvme_queue_response_def Let_def queue_at_def map_update
      list_update_map_same cq_advance_tail_head set_cq_def pci_epf_nvme_free_cmd_def
      split: if_splits sum.splits)

lemma complete_cmd_phases:
  "pci_epf_nvme_complete_cmd s e = Inr s1 \<Longrightarrow> map phase (cq (ctrl s1)) = map phase (cq (ctrl s))"
  by (auto simp: pci_epf_nvme_complete_cmd_def Let_def map_list_update_same queue_at_Inr
      split: if_splits sum.splits)

lemma delete_queue_phases:
  "pci_epf_nvme_delete_queue s r = Inr s1 \<Longrightarrow> map phase (cq (ctrl s1)) = map phase (cq (ctrl s))"
  by (auto simp: pci_epf_nvme_delete_queue_def Let_def delete_queue_fields_def map_list_update_same queue_at_Inr
      split: queue_ref.splits sum.splits if_splits)

lemma delete_cq_phases:
  "pci_epf_nvme_delete_cq s q = Inr s1 \<Longrightarrow> map phase (cq (ctrl s1)) = map phase (cq (ctrl s))"
  by (auto simp: pci_epf_nvme_delete_cq_def Let_def map_list_update_same queue_at_Inr
      split: sum.splits if_splits dest!: delete_queue_phases)

lemma create_sq_phases:
  "pci_epf_nvme_create_sq s q c f n a = Inr (r, s1) \<Longrightarrow>
     map phase (cq (ctrl s1)) = map phase (cq (ctrl s))"
  by (auto simp: pci_epf_nvme_create_sq_def Let_def map_list_update_same queue_at_Inr
      split: sum.splits if_splits)

lemma delete_sq_phases:
  "pci_epf_nvme_delete_sq s q = Inr s1 \<Longrightarrow> map phase (cq (ctrl s1)) = map phase (cq (ctrl s))"
  by (auto simp: pci_epf_nvme_delete_sq_def Let_def map_list_update_same queue_at_Inr
      split: sum.splits if_splits dest!: delete_queue_phases)

lemma delete_sq_loop_phases:
  "delete_sq_loop s qs = Inr s1 \<Longrightarrow> map phase (cq (ctrl s1)) = map phase (cq (ctrl s))"
  by (induction qs arbitrary: s) (auto split: sum.splits dest!: delete_sq_phases)

lemma delete_cq_loop_phases:
  "delete_cq_loop s qs = Inr s1 \<Longrightarrow> map phase (cq (ctrl s1)) = map phase (cq (ctrl s))"
  by (induction qs arbitrary: s) (auto split: sum.splits dest!: delete_cq_phases)

lemma disable_ctrl_regs_cq [simp]: "cq (ctrl (disable_ctrl_regs s)) = cq (ctrl s)"
  by (simp add: disable_ctrl_regs_def Let_def)

lemma disable_ctrl_phases:
  "pci_epf_nvme_disable_ctrl s = Inr s1 \<Longrightarrow> map phase (cq (ctrl s1)) = map phase (cq (ctrl s))"
  by (auto simp: pci_epf_nvme_disable_ctrl_def split: sum.splits if_splits
      dest!: delete_sq_loop_phases delete_cq_loop_phases delete_sq_phases delete_cq_phases)

lemma process_create_sq_phases:
  "pci_epf_nvme_process_create_sq s e = Inr (s1, e1) \<Longrightarrow>
     map phase (cq (ctrl s1)) = map phase (cq (ctrl s))"
  by (auto simp: pci_epf_nvme_process_create_sq_def Let_def
      split: sum.splits if_splits bool.splits dest!: create_sq_phases)

lemma evil_work_ctrl:
  "pci_epf_nvme_evil_work s e = Inr s1 \<Longrightarrow> ctrl s1 = ctrl s"
  by (auto simp: pci_epf_nvme_evil_work_def pci_epf_nvme_free_cmd_def split: if_splits sum.splits)

lemma process_create_cq_phases:
  "pci_epf_nvme_process_create_cq s e = Inr (s1, e1) \<Longrightarrow>
     map phase (cq (ctrl s1)) = map phase (cq (ctrl s)) \<or>
     map phase (cq (ctrl s1)) = (map phase (cq (ctrl s)))[unat (create_cq_cqid (cmd e)) := 1]"
  by (auto simp: pci_epf_nvme_process_create_cq_def Let_def
      split: sum.splits if_splits bool.splits dest!: create_cq_phases)

lemma cq_phase_create:
  "\<forall>s q f n v a cq0.
      queue_at (cq (ctrl s)) q = Inr cq0 \<and> ref cq0 = 0 \<longrightarrow>
      (\<exists>s1. pci_epf_nvme_create_cq s q f n v a = Inr (0, s1) \<and>
         phase (cq (ctrl s1) ! q) = 1 \<and> tail (cq (ctrl s1) ! q) = 0 \<and>
         head (cq (ctrl s1) ! q) = 0)"
  using create_cq_phase by blast

lemma cq_phase_post:
  "\<forall>s e cq0 sq0.
      pci_epf_nvme_ctrl_ready s \<and>
      queue_at (cq (ctrl s)) (cqid_c e) = Inr cq0 \<and>
      qflags cq0 AND PCI_EPF_NVME_QUEUE_LIVE \<noteq> 0 \<and>
      uint (ucast (pci_epf_nvme_reg_read32 (ctrl s) (db cq0)) :: u16) \<noteq> uint (tail cq0) + 1 \<and>
      queue_at (sq (ctrl s)) (sqid e) = Inr sq0 \<longrightarrow>
      (\<exists>s1. pci_epf_nvme_queue_response s e = Inr (True, s1) \<and>
         host_cq s1 (pci_addr cq0 + ucast (tail cq0) * qes cq0) \<noteq> None \<and>
         cq (ctrl s1) = (cq (ctrl s))[cqid_c e :=
            cq_advance_tail (cq0\<lparr>head := ucast (pci_epf_nvme_reg_read32 (ctrl s) (db cq0))\<rparr>)])"
  using queue_response_posts by blast

lemma cq_phase_step:
  "\<forall>q. tail q < depth q \<longrightarrow>
      cq_advance_tail q =
        (if unat (tail q) + 1 = unat (depth q)
         then q\<lparr>tail := 0, phase := phase q XOR 1\<rparr>
         else q\<lparr>tail := tail q + 1\<rparr>) \<and>
      tail (cq_advance_tail q) < depth (cq_advance_tail q) \<and>
      phase q XOR 1 \<noteq> phase q"
  using cq_advance_tail_step phase_xor_neq by blast

lemma cq_phase_ring:
  "\<forall>q. tail q < depth q \<longrightarrow>
      (cq_advance_tail ^^ unat (depth q)) q = q\<lparr>phase := phase q XOR 1\<rparr> \<and>
      card {k. k < unat (depth q) \<and>
             phase ((cq_advance_tail ^^ Suc k) q) \<noteq> phase ((cq_advance_tail ^^ k) q)} = 1"
  using cq_advance_tail_ring by blast

lemma cq_phase_response:
  "\<forall>s e. case pci_epf_nvme_queue_response s e of
      Inl f \<Rightarrow> True
    | Inr (b, s1) \<Rightarrow>
        (map phase (cq (ctrl s1)) = map phase (cq (ctrl s)) \<and>
         map tail (cq (ctrl s1)) = map tail (cq (ctrl s)) \<and> host_cq s1 = host_cq s) \<or>
        (b \<and> cqid_c e < length (cq (ctrl s)) \<and>
         map phase (cq (ctrl s1)) =
           (map phase (cq (ctrl s)))[cqid_c e := phase (cq_advance_tail (cq (ctrl s) ! cqid_c e))] \<and>
         map tail (cq (ctrl s1)) =
           (map tail (cq (ctrl s)))[cqid_c e := tail (cq_advance_tail (cq (ctrl s) ! cqid_c e))])"
proof (intro allI)
  fix s :: pci_epf_nvme and e :: pci_epf_nvme_cmd
  show "case pci_epf_nvme_queue_response s e of
      Inl f \<Rightarrow> True
    | Inr (b, s1) \<Rightarrow>
        (map phase (cq (ctrl s1)) = map phase (cq (ctrl s)) \<and>
         map tail (cq (ctrl s1)) = map tail (cq (ctrl s)) \<and> host_cq s1 = host_cq s) \<or>
        (b \<and> cqid_c e < length (cq (ctrl s)) \<and>
         map phase (cq (ctrl s1)) =
           (map phase (cq (ctrl s)))[cqid_c e := phase (cq_advance_tail (cq (ctrl s) ! cqid_c e))] \<and>
         map tail (cq (ctrl s1)) =
           (map tail (cq (ctrl s)))[cqid_c e := tail (cq_advance_tail (cq (ctrl s) ! cqid_c e))])"
  proof (cases "pci_epf_nvme_queue_response s e")
    case (Inl f)
    then show ?thesis by simp
  next
    case (Inr p)
    obtain b s1 where "p = (b, s1)" by (cases p)
    with Inr queue_response_phases[of s e b s1] show ?thesis by simp
  qed
qed

lemma cq_phase_create_case:
  "\<forall>s q f n v a. case pci_epf_nvme_create_cq s q f n v a of
      Inl f \<Rightarrow> True
    | Inr (r, s1) \<Rightarrow>
        map phase (cq (ctrl s1)) =
          (if ref (cq (ctrl s) ! q) \<ge> 1 then map phase (cq (ctrl s))
           else (map phase (cq (ctrl s)))[q := 1])"
  by (auto split: sum.splits dest: create_cq_phases)

lemma cq_phase_process_create_cq_case:
  "\<forall>s e. case pci_epf_nvme_process_create_cq s e of
      Inl f \<Rightarrow> True
    | Inr (s1, e1) \<Rightarrow>
        map phase (cq (ctrl s1)) = map phase (cq (ctrl s)) \<or>
        map phase (cq (ctrl s1)) = (map phase (cq (ctrl s)))[unat (create_cq_cqid (cmd e)) := 1]"
  by (auto split: sum.splits dest: process_create_cq_phases)

lemma cq_phase_complete_cmd_case:
  "\<forall>s e. case pci_epf_nvme_complete_cmd s e of
      Inl f \<Rightarrow> True | Inr s1 \<Rightarrow> map phase (cq (ctrl s1)) = map phase (cq (ctrl s))"
  by (auto split: sum.splits dest: complete_cmd_phases)

lemma cq_phase_delete_cq_case:
  "\<forall>s q. case pci_epf_nvme_delete_cq s q of
      Inl f \<Rightarrow> True | Inr s1 \<Rightarrow> map phase (cq (ctrl s1)) = map phase (cq (ctrl s))"
  by (auto split: sum.splits dest: delete_cq_phases)

lemma cq_phase_create_sq_case:
  "\<forall>s q c f n a. case pci_epf_nvme_create_sq s q c f n a of
      Inl f \<Rightarrow> True | Inr (r, s1) \<Rightarrow> map phase (cq (ctrl s1)) = map phase (cq (ctrl s))"
  by (auto split: sum.splits dest: create_sq_phases)

lemma cq_phase_delete_sq_case:
  "\<forall>s q. case pci_epf_nvme_delete_sq s q of
      Inl f \<Rightarrow> True | Inr s1 \<Rightarrow> map phase (cq (ctrl s1)) = map phase (cq (ctrl s))"
  by (auto split: sum.splits dest: delete_sq_phases)

lemma cq_phase_disable_ctrl_case:
  "\<forall>s. case pci_epf_nvme_disable_ctrl s of
      Inl f \<Rightarrow> True | Inr s1 \<Rightarrow> map phase (cq (ctrl s1)) = map phase (cq (ctrl s))"
  by (auto split: sum.splits dest: disable_ctrl_phases)

lemma cq_phase_process_create_sq_case:
  "\<forall>s e. case pci_epf_nvme_process_create_sq s e of
      Inl f \<Rightarrow> True | Inr (s1, e1) \<Rightarrow> map phase (cq (ctrl s1)) = map phase (cq (ctrl s))"
  by (auto split: sum.splits dest: process_create_sq_phases)

lemma cq_phase_evil_work_case:
  "\<forall>s e. case pci_epf_nvme_evil_work s e of
      Inl f \<Rightarrow> True | Inr s1 \<Rightarrow> cq (ctrl s1) = cq (ctrl s)"
  by (auto split: sum.splits dest: evil_work_ctrl)

lemma enable_ctrl_phases:
  assumes "pci_epf_nvme_enable_ctrl s = Inr s1"
  shows "map phase (cq (ctrl s1)) = map phase (cq (ctrl s)) \<or>
         map phase (cq (ctrl s1)) = (map phase (cq (ctrl s)))[0 := 1]"
  using assms unfolding pci_epf_nvme_enable_ctrl_def Let_def
  by (auto simp: pci_epf_nvme_reg_write32_def split: if_splits sum.splits prod.splits
      dest!: create_cq_phases create_sq_phases delete_cq_phases)

lemma reg_poll_phases:
  "pci_epf_nvme_reg_poll s = Inr s1 \<Longrightarrow>
     map phase (cq (ctrl s1)) = map phase (cq (ctrl s)) \<or>
     map phase (cq (ctrl s1)) = (map phase (cq (ctrl s)))[0 := 1]"
  by (auto simp: pci_epf_nvme_reg_poll_def cc_polled_def Let_def split: if_splits
      dest!: enable_ctrl_phases disable_ctrl_phases)

lemma link_down_phases:
  "pci_epf_nvme_link_down s = Inr s1 \<Longrightarrow> map phase (cq (ctrl s1)) = map phase (cq (ctrl s))"
  by (auto simp: pci_epf_nvme_link_down_def dest!: disable_ctrl_phases)

lemma cq_phase_enable_ctrl_case:
  "\<forall>s. case pci_epf_nvme_enable_ctrl s of
      Inl f \<Rightarrow> True
    | Inr s1 \<Rightarrow>
        map phase (cq (ctrl s1)) = map phase (cq (ctrl s)) \<or>
        map phase (cq (ctrl s1)) = (map phase (cq (ctrl s)))[0 := 1]"
  by (auto split: sum.splits dest: enable_ctrl_phases)

lemma cq_phase_reg_poll_case:
  "\<forall>s. case pci_epf_nvme_reg_poll s of
      Inl f \<Rightarrow> True
    | Inr s1 \<Rightarrow>
        map phase (cq (ctrl s1)) = map phase (cq (ctrl s)) \<or>
        map phase (cq (ctrl s1)) = (map phase (cq (ctrl s)))[0 := 1]"
  by (auto split: sum.splits dest: reg_poll_phases)

lemma cq_phase_link_down_case:
  "\<forall>s. case pci_epf_nvme_link_down s of
      Inl f \<Rightarrow> True | Inr s1 \<Rightarrow> map phase (cq (ctrl s1)) = map phase (cq (ctrl s))"
  by (auto split: sum.splits dest: link_down_phases)

lemma cq_phase_process_delete_cq_case:
  "\<forall>s e. case pci_epf_nvme_process_delete_cq s e of
      Inl f \<Rightarrow> True | Inr (s1, e1) \<Rightarrow> map phase (cq (ctrl s1)) = map phase (cq (ctrl s))"
  by (auto simp: pci_epf_nvme_process_delete_cq_def Let_def
      split: sum.splits if_splits bool.splits dest!: delete_cq_phases)

lemma cq_phase_process_delete_sq_case:
  "\<forall>s e. case pci_epf_nvme_process_delete_sq s e of
      Inl f \<Rightarrow> True | Inr (s1, e1) \<Rightarrow> map phase (cq (ctrl s1)) = map phase (cq (ctrl s))"
  by (auto simp: pci_epf_nvme_process_delete_sq_def Let_def
      split: sum.splits if_splits bool.splits dest!: delete_sq_phases)

text \<open>
  Creating a completion queue with a queue size below \<open>0xffff\<close> gives it the depth
  \<open>size + 1\<close> and the tail 0, below the depth.
\<close>

lemma create_cq_depth:
  assumes "queue_at (cq (ctrl s)) q = Inr cq0" and "ref cq0 = 0" and "0 \<le> n" and "n < 0xffff"
  shows "\<exists>s1. pci_epf_nvme_create_cq s q f n v a = Inr (0, s1) \<and>
           unat (depth (cq (ctrl s1) ! q)) = nat n + 1 \<and>
           tail (cq (ctrl s1) ! q) < depth (cq (ctrl s1) ! q)"
proof -
  define w :: u16 where "w = of_int (n + 1)"
  have "uint w = (n + 1) mod 2 ^ LENGTH(16)"
    unfolding w_def by (rule uint_word_of_int)
  also have "\<dots> = n + 1"
    using assms(3,4) by simp
  finally have u: "uint w = n + 1" .
  have d: "unat w = nat n + 1"
    using u assms(3) by (simp add: unat_eq_nat_uint nat_add_distrib)
  hence p: "0 < w"
    by (simp add: word_less_nat_alt)
  from assms(1) have l: "q < length (cq (ctrl s))" and c: "cq0 = cq (ctrl s) ! q"
    by (auto simp: queue_at_def split: if_splits)
  have "\<exists>s1. pci_epf_nvme_create_cq s q f n v a = Inr (0, s1) \<and>
           depth (cq (ctrl s1) ! q) = w \<and> tail (cq (ctrl s1) ! q) = 0"
    using assms(1,2) l
    by (simp add: pci_epf_nvme_create_cq_def Let_def set_cq_def w_def pci_epf_nvme_reg_write32_def)
  with d p show ?thesis by auto
qed

text \<open>
  What holds of the phase bit of a completion queue whose tail is below its depth (as
  after a creation with a queue size below \<open>0xffff\<close>, and as every posting keeps it).
  The phase is 1 when the queue is created (first reference). Posting a completion
  applies "advance the tail" to the queue, which flips the phase exactly when the tail
  is \<open>depth - 1\<close> and wraps to 0, so \<open>depth\<close> postings in a row bring the tail back and
  flip the phase exactly once. A call of \<open>pci_epf_nvme_queue_response\<close> that does not
  post and every other operation leave the phases of all completion queues as they
  are; creating a queue (by the admin command, or the admin completion queue when the
  controller is enabled) changes only the phase of the queue created, to 1, and only
  when it was not in use.
\<close>

lemma cq_phase_bit_unwrapped:
  "(\<forall>s q f n v a cq0.
      queue_at (cq (ctrl s)) q = Inr cq0 \<and> ref cq0 = 0 \<longrightarrow>
      (\<exists>s1. pci_epf_nvme_create_cq s q f n v a = Inr (0, s1) \<and>
         phase (cq (ctrl s1) ! q) = 1 \<and> tail (cq (ctrl s1) ! q) = 0 \<and>
         head (cq (ctrl s1) ! q) = 0)) \<and>
   (\<forall>s e cq0 sq0.
      pci_epf_nvme_ctrl_ready s \<and>
      queue_at (cq (ctrl s)) (cqid_c e) = Inr cq0 \<and>
      qflags cq0 AND PCI_EPF_NVME_QUEUE_LIVE \<noteq> 0 \<and>
      uint (ucast (pci_epf_nvme_reg_read32 (ctrl s) (db cq0)) :: u16) \<noteq> uint (tail cq0) + 1 \<and>
      queue_at (sq (ctrl s)) (sqid e) = Inr sq0 \<longrightarrow>
      (\<exists>s1. pci_epf_nvme_queue_response s e = Inr (True, s1) \<and>
         host_cq s1 (pci_addr cq0 + ucast (tail cq0) * qes cq0) \<noteq> None \<and>
         cq (ctrl s1) = (cq (ctrl s))[cqid_c e :=
            cq_advance_tail (cq0\<lparr>head := ucast (pci_epf_nvme_reg_read32 (ctrl s) (db cq0))\<rparr>)])) \<and>
   (\<forall>q. tail q < depth q \<longrightarrow>
      cq_advance_tail q =
        (if unat (tail q) + 1 = unat (depth q)
         then q\<lparr>tail := 0, phase := phase q XOR 1\<rparr>
         else q\<lparr>tail := tail q + 1\<rparr>) \<and>
      tail (cq_advance_tail q) < depth (cq_advance_tail q) \<and>
      phase q XOR 1 \<noteq> phase q) \<and>
   (\<forall>q. tail q < depth q \<longrightarrow>
      (cq_advance_tail ^^ unat (depth q)) q = q\<lparr>phase := phase q XOR 1\<rparr> \<and>
      card {k. k < unat (depth q) \<and>
             phase ((cq_advance_tail ^^ Suc k) q) \<noteq> phase ((cq_advance_tail ^^ k) q)} = 1) \<and>
   (\<forall>s e. case pci_epf_nvme_queue_response s e of
      Inl f \<Rightarrow> True
    | Inr (b, s1) \<Rightarrow>
        (map phase (cq (ctrl s1)) = map phase (cq (ctrl s)) \<and>
         map tail (cq (ctrl s1)) = map tail (cq (ctrl s)) \<and> host_cq s1 = host_cq s) \<or>
        (b \<and> cqid_c e < length (cq (ctrl s)) \<and>
         map phase (cq (ctrl s1)) =
           (map phase (cq (ctrl s)))[cqid_c e := phase (cq_advance_tail (cq (ctrl s) ! cqid_c e))] \<and>
         map tail (cq (ctrl s1)) =
           (map tail (cq (ctrl s)))[cqid_c e := tail (cq_advance_tail (cq (ctrl s) ! cqid_c e))])) \<and>
   (\<forall>s q f n v a. case pci_epf_nvme_create_cq s q f n v a of
      Inl f \<Rightarrow> True
    | Inr (r, s1) \<Rightarrow>
        map phase (cq (ctrl s1)) =
          (if ref (cq (ctrl s) ! q) \<ge> 1 then map phase (cq (ctrl s))
           else (map phase (cq (ctrl s)))[q := 1])) \<and>
   (\<forall>s e. case pci_epf_nvme_process_create_cq s e of
      Inl f \<Rightarrow> True
    | Inr (s1, e1) \<Rightarrow>
        map phase (cq (ctrl s1)) = map phase (cq (ctrl s)) \<or>
        map phase (cq (ctrl s1)) = (map phase (cq (ctrl s)))[unat (create_cq_cqid (cmd e)) := 1]) \<and>
   (\<forall>s e. case pci_epf_nvme_complete_cmd s e of
      Inl f \<Rightarrow> True | Inr s1 \<Rightarrow> map phase (cq (ctrl s1)) = map phase (cq (ctrl s))) \<and>
   (\<forall>s q. case pci_epf_nvme_delete_cq s q of
      Inl f \<Rightarrow> True | Inr s1 \<Rightarrow> map phase (cq (ctrl s1)) = map phase (cq (ctrl s))) \<and>
   (\<forall>s q c f n a. case pci_epf_nvme_create_sq s q c f n a of
      Inl f \<Rightarrow> True | Inr (r, s1) \<Rightarrow> map phase (cq (ctrl s1)) = map phase (cq (ctrl s))) \<and>
   (\<forall>s q. case pci_epf_nvme_delete_sq s q of
      Inl f \<Rightarrow> True | Inr s1 \<Rightarrow> map phase (cq (ctrl s1)) = map phase (cq (ctrl s))) \<and>
   (\<forall>s. case pci_epf_nvme_disable_ctrl s of
      Inl f \<Rightarrow> True | Inr s1 \<Rightarrow> map phase (cq (ctrl s1)) = map phase (cq (ctrl s))) \<and>
   (\<forall>s e. case pci_epf_nvme_process_create_sq s e of
      Inl f \<Rightarrow> True | Inr (s1, e1) \<Rightarrow> map phase (cq (ctrl s1)) = map phase (cq (ctrl s))) \<and>
   (\<forall>s e. case pci_epf_nvme_evil_work s e of
      Inl f \<Rightarrow> True | Inr s1 \<Rightarrow> cq (ctrl s1) = cq (ctrl s)) \<and>
   (\<forall>s q. ctrl (pci_epf_nvme_raise_irq s q) = ctrl s) \<and>
   (\<forall>s e. ctrl (pci_epf_nvme_free_cmd s e) = ctrl s) \<and>
   (\<forall>s. case pci_epf_nvme_enable_ctrl s of
      Inl f \<Rightarrow> True
    | Inr s1 \<Rightarrow>
        map phase (cq (ctrl s1)) = map phase (cq (ctrl s)) \<or>
        map phase (cq (ctrl s1)) = (map phase (cq (ctrl s)))[0 := 1]) \<and>
   (\<forall>s. case pci_epf_nvme_reg_poll s of
      Inl f \<Rightarrow> True
    | Inr s1 \<Rightarrow>
        map phase (cq (ctrl s1)) = map phase (cq (ctrl s)) \<or>
        map phase (cq (ctrl s1)) = (map phase (cq (ctrl s)))[0 := 1]) \<and>
   (\<forall>s. case pci_epf_nvme_link_down s of
      Inl f \<Rightarrow> True | Inr s1 \<Rightarrow> map phase (cq (ctrl s1)) = map phase (cq (ctrl s))) \<and>
   (\<forall>s e. case pci_epf_nvme_process_delete_cq s e of
      Inl f \<Rightarrow> True | Inr (s1, e1) \<Rightarrow> map phase (cq (ctrl s1)) = map phase (cq (ctrl s))) \<and>
   (\<forall>s e. case pci_epf_nvme_process_delete_sq s e of
      Inl f \<Rightarrow> True | Inr (s1, e1) \<Rightarrow> map phase (cq (ctrl s1)) = map phase (cq (ctrl s)))"
  using cq_phase_create cq_phase_post cq_phase_step cq_phase_ring cq_phase_response
    cq_phase_create_case cq_phase_process_create_cq_case cq_phase_complete_cmd_case
    cq_phase_delete_cq_case cq_phase_create_sq_case cq_phase_delete_sq_case
    cq_phase_disable_ctrl_case cq_phase_process_create_sq_case cq_phase_evil_work_case
    raise_irq_ctrl free_cmd_ctrl
    cq_phase_enable_ctrl_case cq_phase_reg_poll_case cq_phase_link_down_case
    cq_phase_process_delete_cq_case cq_phase_process_delete_sq_case
  by (intro conjI) blast+

lemma cq_phase_bit_unwrapped_example:
  "(\<exists>s1. pci_epf_nvme_create_cq ex_epf 1 3 3 0 0x10000 = Inr (0, s1) \<and>
      phase (cq (ctrl s1) ! 1) = 1) \<and>
   (\<exists>s1. pci_epf_nvme_queue_response ex_live (ex_read 10) = Inr (True, s1) \<and>
      cq (ctrl s1) = (cq (ctrl ex_live))[cqid_c (ex_read 10) :=
         cq_advance_tail ((cq (ctrl ex_live) ! 1)
           \<lparr>head := ucast (pci_epf_nvme_reg_read32 (ctrl ex_live) (db (cq (ctrl ex_live) ! 1)))\<rparr>)]) \<and>
   tail (cq_advance_tail (cq (ctrl ex_live) ! 1)) < depth (cq_advance_tail (cq (ctrl ex_live) ! 1)) \<and>
   (cq_advance_tail ^^ unat (depth (cq (ctrl ex_live) ! 1))) (cq (ctrl ex_live) ! 1)
     = (cq (ctrl ex_live) ! 1)\<lparr>phase := phase (cq (ctrl ex_live) ! 1) XOR 1\<rparr> \<and>
   card {k. k < unat (depth (cq (ctrl ex_live) ! 1)) \<and>
          phase ((cq_advance_tail ^^ Suc k) (cq (ctrl ex_live) ! 1))
            \<noteq> phase ((cq_advance_tail ^^ k) (cq (ctrl ex_live) ! 1))} = 1"
proof -
  have h1: "queue_at (cq (ctrl ex_epf)) 1 = Inr (cq (ctrl ex_epf) ! 1) \<and> ref (cq (ctrl ex_epf) ! 1) = 0"
    by code_simp
  have "cqid_c (ex_read 10) = 1" "sqid (ex_read 10) = 1"
    by (simp_all add: ex_read_def ex_cmd_def)
  then have h2: "pci_epf_nvme_ctrl_ready ex_live \<and>
      queue_at (cq (ctrl ex_live)) (cqid_c (ex_read 10)) = Inr (cq (ctrl ex_live) ! 1) \<and>
      qflags (cq (ctrl ex_live) ! 1) AND PCI_EPF_NVME_QUEUE_LIVE \<noteq> 0 \<and>
      uint (ucast (pci_epf_nvme_reg_read32 (ctrl ex_live) (db (cq (ctrl ex_live) ! 1))) :: u16)
        \<noteq> uint (tail (cq (ctrl ex_live) ! 1)) + 1 \<and>
      queue_at (sq (ctrl ex_live)) (sqid (ex_read 10)) = Inr (sq (ctrl ex_live) ! 1)"
    by (rule ex_live_post)
  have h3: "tail (cq (ctrl ex_live) ! 1) < depth (cq (ctrl ex_live) ! 1)"
    by (simp add: ex_live_cq1[unfolded One_nat_def])
  note t = cq_phase_bit_unwrapped
  from t[THEN conjunct1, rule_format, OF h1, of 3 3 0 "0x10000"]
    t[THEN conjunct2, THEN conjunct1, rule_format, OF h2]
    t[THEN conjunct2, THEN conjunct2, THEN conjunct1, rule_format, OF h3]
    t[THEN conjunct2, THEN conjunct2, THEN conjunct2, THEN conjunct1, rule_format, OF h3]
  show ?thesis by blast
qed


text \<open>
  The same through \<open>pci_epf_nvme_cq_work\<close>, which maps the queue (\<open>pci_size\<close> bytes,
  here 0) before it posts. When \<open>pci_epc_mem_map\<close> accepts the mapping of 0 bytes, the
  two completions are posted to slot 0 and the phase flips twice; when it refuses (here
  with \<open>-EINVAL\<close>), nothing is posted, the phase stays, and the two commands are left on
  the local list of the function.
\<close>

lemma cq_work_on_wrapped_depth:
  "(case pci_epf_nvme_process_create_cq ex_wide (ex_create_cq_sized 1 0xffff 3) of
      Inl f \<Rightarrow> False
    | Inr (s1, e1) \<Rightarrow>
        (case pci_epf_nvme_process_create_sq s1 (ex_create_sq 1 1) of
           Inl f \<Rightarrow> False
         | Inr (s2, e2) \<Rightarrow>
             pci_epf_nvme_map_queue s2 (cq (ctrl s2) ! 1) = 0 \<and>
             (case ex_cq_run s2 [ex_read 10, ex_read 11] of
                Inl f \<Rightarrow> False
              | Inr (s3, l) \<Rightarrow>
                  l = [] \<and> map (command_id_c \<circ> cmd) (freed s3) = [10, 11] \<and>
                  map_option command_id (host_cq s3 0x10000) = Some 11 \<and>
                  host_cq s3 0x10010 = None \<and>
                  tail (cq (ctrl s3) ! 1) = 0 \<and> phase (cq (ctrl s3) ! 1) = 1) \<and>
             (case ex_cq_run (s2\<lparr>epc_mem_map := (\<lambda>a n. if n = 0 then (- EINVAL, 0) else (0, n))\<rparr>)
                     [ex_read 10, ex_read 11] of
                Inl f \<Rightarrow> False
              | Inr (s3, l) \<Rightarrow>
                  map (command_id_c \<circ> cmd) l = [10, 11] \<and> freed s3 = [] \<and>
                  host_cq s3 0x10000 = None \<and>
                  list (cq (ctrl s3) ! 1) = [] \<and>
                  tail (cq (ctrl s3) ! 1) = 0 \<and> phase (cq (ctrl s3) ! 1) = 1)))"
  by code_simp


subsection \<open>Create completion queue: failure statuses\<close>

text \<open>
  Claim C6 as stated (an out-of-range queue id and flags without "physically
  contiguous" both fail with QueueIdInvalid) fails on the code for the flags: the
  command "create completion queue 1" with flags 0 on the controller with four unused
  queue slots fails with \<open>NVME_SC_INVALID_QUEUE\<close>, which is not \<open>NVME_SC_QID_INVALID\<close>.
\<close>

theorem process_create_cq_flags_counterexample:
  "(case pci_epf_nvme_process_create_cq ex_epf (ex_create_cq 1 0) of
      Inl f \<Rightarrow> False
    | Inr (s, e) \<Rightarrow>
        uint (create_cq_cqid (cmd (ex_create_cq 1 0))) < uint (nr_queues (ctrl ex_epf)) \<and>
        ucast (create_cq_cq_flags (cmd (ex_create_cq 1 0))) AND NVME_QUEUE_PHYS_CONTIG = 0 \<and>
        status e = NVME_SC_INVALID_QUEUE OR NVME_STATUS_DNR \<and>
        status e \<noteq> NVME_SC_QID_INVALID OR NVME_STATUS_DNR \<and>
        status e AND NOT NVME_STATUS_DNR \<noteq> NVME_SC_QID_INVALID)"
  by code_simp

text \<open>
  Claim C6, amended. A create-CQ command whose queue id is out of range (or names a
  queue that is in use) fails with status QueueIdInvalid; a command whose queue id is
  in range and unused and whose flags lack "physically contiguous" fails with status
  InvalidQueue (\<open>NVME_SC_INVALID_QUEUE\<close>). In both cases the do-not-retry bit is set
  and the state, the queues included, is unchanged.
\<close>

theorem process_create_cq_invalid:
  "(uint (create_cq_cqid (cmd e)) \<ge> uint (nr_queues (ctrl s)) \<longrightarrow>
      pci_epf_nvme_process_create_cq s e =
        Inr (s, e\<lparr>status := NVME_SC_QID_INVALID OR NVME_STATUS_DNR\<rparr>)) \<and>
   (unat (create_cq_cqid (cmd e)) < length (cq (ctrl s)) \<and>
    ref (cq (ctrl s) ! unat (create_cq_cqid (cmd e))) \<noteq> 0 \<longrightarrow>
      pci_epf_nvme_process_create_cq s e =
        Inr (s, e\<lparr>status := NVME_SC_QID_INVALID OR NVME_STATUS_DNR\<rparr>)) \<and>
   (uint (create_cq_cqid (cmd e)) < uint (nr_queues (ctrl s)) \<and>
    unat (create_cq_cqid (cmd e)) < length (cq (ctrl s)) \<and>
    ref (cq (ctrl s) ! unat (create_cq_cqid (cmd e))) = 0 \<and>
    ucast (create_cq_cq_flags (cmd e)) AND NVME_QUEUE_PHYS_CONTIG = 0 \<longrightarrow>
      pci_epf_nvme_process_create_cq s e =
        Inr (s, e\<lparr>status := NVME_SC_INVALID_QUEUE OR NVME_STATUS_DNR\<rparr>))"
  by (auto simp: pci_epf_nvme_process_create_cq_def Let_def queue_at_def)

theorem process_create_cq_invalid_witness:
  "pci_epf_nvme_process_create_cq ex_epf (ex_create_cq 9 1) =
     Inr (ex_epf, (ex_create_cq 9 1)\<lparr>status := NVME_SC_QID_INVALID OR NVME_STATUS_DNR\<rparr>) \<and>
   pci_epf_nvme_process_create_cq ex_live (ex_create_cq 1 1) =
     Inr (ex_live, (ex_create_cq 1 1)\<lparr>status := NVME_SC_QID_INVALID OR NVME_STATUS_DNR\<rparr>) \<and>
   pci_epf_nvme_process_create_cq ex_epf (ex_create_cq 1 0) =
     Inr (ex_epf, (ex_create_cq 1 0)\<lparr>status := NVME_SC_INVALID_QUEUE OR NVME_STATUS_DNR\<rparr>)"
proof -
  have c: "create_cq_cqid (cmd (ex_create_cq 9 1)) = 9" "create_cq_cqid (cmd (ex_create_cq 1 1)) = 1"
    "create_cq_cqid (cmd (ex_create_cq 1 0)) = 1"
    "ucast (create_cq_cq_flags (cmd (ex_create_cq 1 0))) AND NVME_QUEUE_PHYS_CONTIG = 0"
    by code_simp+
  have n: "nr_queues (ctrl ex_epf) = 4" "length (cq (ctrl ex_epf)) = 4"
    "ref (cq (ctrl ex_epf) ! 1) = 0"
    by code_simp+
  have h1: "uint (create_cq_cqid (cmd (ex_create_cq 9 1))) \<ge> uint (nr_queues (ctrl ex_epf))"
    using c n by simp
  have h2: "unat (create_cq_cqid (cmd (ex_create_cq 1 1))) < length (cq (ctrl ex_live)) \<and>
      ref (cq (ctrl ex_live) ! unat (create_cq_cqid (cmd (ex_create_cq 1 1)))) \<noteq> 0"
    using c by (simp add: ex_live_lengths ex_live_cq1[unfolded One_nat_def])
  have h3: "uint (create_cq_cqid (cmd (ex_create_cq 1 0))) < uint (nr_queues (ctrl ex_epf)) \<and>
      unat (create_cq_cqid (cmd (ex_create_cq 1 0))) < length (cq (ctrl ex_epf)) \<and>
      ref (cq (ctrl ex_epf) ! unat (create_cq_cqid (cmd (ex_create_cq 1 0)))) = 0 \<and>
      ucast (create_cq_cq_flags (cmd (ex_create_cq 1 0))) AND NVME_QUEUE_PHYS_CONTIG = 0"
    using c n by simp
  note t = process_create_cq_invalid
  from t[THEN conjunct1, rule_format, OF h1] t[THEN conjunct2, THEN conjunct1, rule_format, OF h2]
    t[THEN conjunct2, THEN conjunct2, rule_format, OF h3]
  show ?thesis by blast
qed

subsection \<open>Disabling the controller\<close>

lemma queue_at_Inr2: "(queue_at qs i = Inr q) = (i < length qs \<and> q = qs ! i)"
  by (auto simp: queue_at_def)

lemma queue_at_Inl: "(queue_at qs i = Inl f) = (\<not> i < length qs \<and> f = OutOfBounds)"
  by (auto simp: queue_at_def)

lemma delete_sq_result:
  assumes "q < length (sq (ctrl s))"
    and "unat (cqid (sq (ctrl s) ! q)) < length (cq (ctrl s))"
    and "list_ok (sq (ctrl s) ! q)"
  shows "\<exists>s1. pci_epf_nvme_delete_sq s q = Inr s1 \<and> ctrl_frame s1 = ctrl_frame s \<and>
           deleted s1 = deleted s @ (if ref (sq (ctrl s) ! q) = 1 then [SQ q] else []) \<and>
           (\<forall>j. j \<noteq> q \<longrightarrow> sq (ctrl s1) ! j = sq (ctrl s) ! j) \<and>
           (ref (sq (ctrl s) ! q) = 1 \<longrightarrow>
              ref (sq (ctrl s1) ! q) = 0 \<and>
              qflags (sq (ctrl s1) ! q) AND PCI_EPF_NVME_QUEUE_LIVE = 0)"
  using assms
  by (auto simp: pci_epf_nvme_delete_sq_def pci_epf_nvme_delete_queue_def Let_def queue_at_def
      set_sq_def set_cq_def ctrl_frame_def delete_queue_fields_def map_update list_update_same_conv
      PCI_EPF_NVME_QUEUE_LIVE_def word_bw_assocs)

lemma delete_cq_result:
  assumes "q < length (cq (ctrl s))" and "list_ok (cq (ctrl s) ! q)"
  shows "\<exists>s1. pci_epf_nvme_delete_cq s q = Inr s1 \<and> ctrl_frame s1 = ctrl_frame s \<and>
           sq (ctrl s1) = sq (ctrl s) \<and>
           deleted s1 = deleted s @ (if ref (cq (ctrl s) ! q) = 1 then [CQ q] else []) \<and>
           (\<forall>j. j \<noteq> q \<longrightarrow> cq (ctrl s1) ! j = cq (ctrl s) ! j)"
  using assms
  by (auto simp: pci_epf_nvme_delete_cq_def pci_epf_nvme_delete_queue_def Let_def queue_at_def
      set_sq_def set_cq_def ctrl_frame_def delete_queue_fields_def map_update
      list_update_same_conv)

lemma queues_wf_frame:
  "ctrl_frame s1 = ctrl_frame s \<Longrightarrow> queues_wf s \<Longrightarrow> queues_wf s1"
  by (simp add: queues_wf_def ctrl_frame_def)

lemma delete_sq_loop_result:
  assumes "queues_wf s" and "distinct qs" and "\<forall>q \<in> set qs. q < unat (nr_queues (ctrl s))"
  shows "\<exists>s1. delete_sq_loop s qs = Inr s1 \<and> ctrl_frame s1 = ctrl_frame s \<and>
           deleted s1 = deleted s @ map SQ (filter (\<lambda>i. ref (sq (ctrl s) ! i) = 1) qs) \<and>
           (\<forall>j. j \<notin> set qs \<longrightarrow> sq (ctrl s1) ! j = sq (ctrl s) ! j) \<and>
           (\<forall>j \<in> set qs. ref (sq (ctrl s) ! j) = 1 \<longrightarrow>
              ref (sq (ctrl s1) ! j) = 0 \<and>
              qflags (sq (ctrl s1) ! j) AND PCI_EPF_NVME_QUEUE_LIVE = 0)"
  using assms
proof (induction qs arbitrary: s)
  case Nil
  then show ?case by simp
next
  case (Cons q qs)
  from Cons.prems have ql: "q < length (sq (ctrl s))"
    and cl: "unat (cqid (sq (ctrl s) ! q)) < length (cq (ctrl s))"
    and lk: "list_ok (sq (ctrl s) ! q)"
    by (auto simp: queues_wf_def list_all_length)
  from delete_sq_result[OF ql cl lk] obtain s1 where
    d: "pci_epf_nvme_delete_sq s q = Inr s1" and f: "ctrl_frame s1 = ctrl_frame s"
    and l: "deleted s1 = deleted s @ (if ref (sq (ctrl s) ! q) = 1 then [SQ q] else [])"
    and o: "\<forall>j. j \<noteq> q \<longrightarrow> sq (ctrl s1) ! j = sq (ctrl s) ! j"
    and z: "ref (sq (ctrl s) ! q) = 1 \<longrightarrow>
              ref (sq (ctrl s1) ! q) = 0 \<and>
              qflags (sq (ctrl s1) ! q) AND PCI_EPF_NVME_QUEUE_LIVE = 0"
    by blast
  from f have nq: "nr_queues (ctrl s1) = nr_queues (ctrl s)"
    by (simp add: ctrl_frame_def)
  have wf1: "queues_wf s1"
    using f Cons.prems(1) by (rule queues_wf_frame)
  from Cons.prems have dq: "distinct qs" and nin: "q \<notin> set qs"
    and bq: "\<forall>q \<in> set qs. q < unat (nr_queues (ctrl s1))"
    using nq by auto
  from Cons.IH[OF wf1 dq bq] obtain s2 where
    d2: "delete_sq_loop s1 qs = Inr s2" and f2: "ctrl_frame s2 = ctrl_frame s1"
    and l2: "deleted s2 = deleted s1 @ map SQ (filter (\<lambda>i. ref (sq (ctrl s1) ! i) = 1) qs)"
    and o2: "\<forall>j. j \<notin> set qs \<longrightarrow> sq (ctrl s2) ! j = sq (ctrl s1) ! j"
    and z2: "\<forall>j \<in> set qs. ref (sq (ctrl s1) ! j) = 1 \<longrightarrow>
              ref (sq (ctrl s2) ! j) = 0 \<and>
              qflags (sq (ctrl s2) ! j) AND PCI_EPF_NVME_QUEUE_LIVE = 0"
    by blast
  have same: "filter (\<lambda>i. ref (sq (ctrl s1) ! i) = 1) qs = filter (\<lambda>i. ref (sq (ctrl s) ! i) = 1) qs"
    using o nin by (intro filter_cong) auto
  have "delete_sq_loop s (q # qs) = Inr s2"
    using d d2 by simp
  moreover have "ctrl_frame s2 = ctrl_frame s"
    using f f2 by simp
  moreover have "deleted s2 = deleted s @ map SQ (filter (\<lambda>i. ref (sq (ctrl s) ! i) = 1) (q # qs))"
    using l l2 same by simp
  moreover have "\<forall>j. j \<notin> set (q # qs) \<longrightarrow> sq (ctrl s2) ! j = sq (ctrl s) ! j"
    using o o2 by simp
  moreover have "\<forall>j \<in> set (q # qs). ref (sq (ctrl s) ! j) = 1 \<longrightarrow>
              ref (sq (ctrl s2) ! j) = 0 \<and>
              qflags (sq (ctrl s2) ! j) AND PCI_EPF_NVME_QUEUE_LIVE = 0"
    using o o2 z z2 nin by (metis set_ConsD)
  ultimately show ?case by blast
qed

lemma delete_cq_loop_result:
  assumes "queues_wf s" and "distinct qs" and "\<forall>q \<in> set qs. q < unat (nr_queues (ctrl s))"
  shows "\<exists>s1. delete_cq_loop s qs = Inr s1 \<and> ctrl_frame s1 = ctrl_frame s \<and>
           sq (ctrl s1) = sq (ctrl s) \<and>
           deleted s1 = deleted s @ map CQ (filter (\<lambda>i. ref (cq (ctrl s) ! i) = 1) qs) \<and>
           (\<forall>j. j \<notin> set qs \<longrightarrow> cq (ctrl s1) ! j = cq (ctrl s) ! j)"
  using assms
proof (induction qs arbitrary: s)
  case Nil
  then show ?case by simp
next
  case (Cons q qs)
  from Cons.prems have ql: "q < length (cq (ctrl s))"
    and lk: "list_ok (cq (ctrl s) ! q)"
    by (auto simp: queues_wf_def list_all_length)
  from delete_cq_result[OF ql lk] obtain s1 where
    d: "pci_epf_nvme_delete_cq s q = Inr s1" and f: "ctrl_frame s1 = ctrl_frame s"
    and sqs: "sq (ctrl s1) = sq (ctrl s)"
    and l: "deleted s1 = deleted s @ (if ref (cq (ctrl s) ! q) = 1 then [CQ q] else [])"
    and o: "\<forall>j. j \<noteq> q \<longrightarrow> cq (ctrl s1) ! j = cq (ctrl s) ! j"
    by blast
  from f have nq: "nr_queues (ctrl s1) = nr_queues (ctrl s)"
    by (simp add: ctrl_frame_def)
  have wf1: "queues_wf s1"
    using f Cons.prems(1) by (rule queues_wf_frame)
  from Cons.prems nq have dq: "distinct qs" and nin: "q \<notin> set qs"
    and bq: "\<forall>q \<in> set qs. q < unat (nr_queues (ctrl s1))"
    by auto
  from Cons.IH[OF wf1 dq bq] obtain s2 where
    d2: "delete_cq_loop s1 qs = Inr s2" and f2: "ctrl_frame s2 = ctrl_frame s1"
    and sq2: "sq (ctrl s2) = sq (ctrl s1)"
    and l2: "deleted s2 = deleted s1 @ map CQ (filter (\<lambda>i. ref (cq (ctrl s1) ! i) = 1) qs)"
    and o2: "\<forall>j. j \<notin> set qs \<longrightarrow> cq (ctrl s2) ! j = cq (ctrl s1) ! j"
    by blast
  have same: "filter (\<lambda>i. ref (cq (ctrl s1) ! i) = 1) qs = filter (\<lambda>i. ref (cq (ctrl s) ! i) = 1) qs"
    using o nin by (intro filter_cong) auto
  have "delete_cq_loop s (q # qs) = Inr s2"
    using d d2 by simp
  moreover have "ctrl_frame s2 = ctrl_frame s"
    using f f2 by simp
  moreover have "sq (ctrl s2) = sq (ctrl s)"
    using sqs sq2 by simp
  moreover have "deleted s2 = deleted s @ map CQ (filter (\<lambda>i. ref (cq (ctrl s) ! i) = 1) (q # qs))"
    using l l2 same by simp
  moreover have "\<forall>j. j \<notin> set (q # qs) \<longrightarrow> cq (ctrl s2) ! j = cq (ctrl s) ! j"
    using o o2 by simp
  ultimately show ?case by blast
qed

lemma and_not_same_u32: "(x AND NOT m) AND m = (0::u32)"
  by (simp add: bit_eq_iff bit_and_iff bit_not_iff)

lemma or_and_same_u32: "(x OR m) AND m = (m::u32)"
  by (auto simp add: bit_eq_iff bit_and_iff bit_or_iff)

lemma rdy_after_cmplt: "((x AND NOT NVME_CSTS_RDY) OR NVME_CSTS_SHST_CMPLT) AND NVME_CSTS_RDY = 0"
proof -
  have "NVME_CSTS_SHST_CMPLT AND NVME_CSTS_RDY = 0"
    by (simp add: NVME_CSTS_SHST_CMPLT_def NVME_CSTS_RDY_def)
  thus ?thesis
    by (simp add: bit.conj_disj_distrib2 and_not_same_u32)
qed

lemma disable_ctrl_regs_result:
  "csts (ctrl (disable_ctrl_regs s)) AND NVME_CSTS_RDY = 0"
  "cc (ctrl s) AND NVME_CC_SHN_NORMAL \<noteq> 0 \<Longrightarrow>
     csts (ctrl (disable_ctrl_regs s)) AND NVME_CSTS_SHST_CMPLT = NVME_CSTS_SHST_CMPLT"
  "cc (ctrl s) AND NVME_CC_SHN_NORMAL = 0 \<Longrightarrow>
     csts (ctrl (disable_ctrl_regs s)) = csts (ctrl s) AND NOT NVME_CSTS_RDY"
  "reg (ctrl (disable_ctrl_regs s)) NVME_REG_CSTS = csts (ctrl (disable_ctrl_regs s))"
  "reg (ctrl (disable_ctrl_regs s)) NVME_REG_CC = cc (ctrl (disable_ctrl_regs s))"
  "cc (ctrl (disable_ctrl_regs s)) AND NVME_CC_ENABLE = 0"
  "\<not> ctrl_enabled (disable_ctrl_regs s)"
  "sq (ctrl (disable_ctrl_regs s)) = sq (ctrl s)"
  "cq (ctrl (disable_ctrl_regs s)) = cq (ctrl s)"
  "deleted (disable_ctrl_regs s) = deleted s"
  by (simp_all add: disable_ctrl_regs_def Let_def pci_epf_nvme_reg_write32_def
      and_not_same_u32 or_and_same_u32 rdy_after_cmplt NVME_REG_CSTS_def NVME_REG_CC_def)


lemma reg_poll_disables:
  assumes "reg_bar s" and "cc (ctrl s) AND NVME_CC_ENABLE \<noteq> 0"
    and "pci_epf_nvme_reg_read32 (ctrl s) NVME_REG_CC AND NVME_CC_ENABLE = 0 \<or>
         pci_epf_nvme_reg_read32 (ctrl s) NVME_REG_CC AND NVME_CC_SHN_NORMAL \<noteq> 0"
  shows "pci_epf_nvme_reg_poll s = pci_epf_nvme_disable_ctrl (cc_polled s)"
  using assms by (auto simp: pci_epf_nvme_reg_poll_def cc_polled_def Let_def)

lemma disable_ctrl_result:
  assumes wf: "queues_wf s" and en: "ctrl_enabled s"
  shows "\<exists>s1 s' D. delete_sq_loop s [1..<unat (nr_queues (ctrl s))] = Inr s1 \<and>
           pci_epf_nvme_disable_ctrl s = Inr s' \<and>
           deleted s' = deleted s
             @ map SQ (filter (\<lambda>i. ref (sq (ctrl s) ! i) = 1) [1..<unat (nr_queues (ctrl s))])
             @ map CQ (filter (\<lambda>i. ref (cq (ctrl s1) ! i) = 1) [1..<unat (nr_queues (ctrl s))])
             @ (if ref (sq (ctrl s) ! 0) = 1 then [SQ 0] else []) @ D \<and>
           (D = [] \<or> D = [CQ 0]) \<and>
           (\<forall>i < unat (nr_queues (ctrl s)). ref (sq (ctrl s) ! i) = 1 \<longrightarrow>
              ref (sq (ctrl s') ! i) = 0 \<and>
              qflags (sq (ctrl s') ! i) AND PCI_EPF_NVME_QUEUE_LIVE = 0) \<and>
           csts (ctrl s') AND NVME_CSTS_RDY = 0 \<and>
           (cc (ctrl s) AND NVME_CC_SHN_NORMAL \<noteq> 0 \<longrightarrow>
              csts (ctrl s') AND NVME_CSTS_SHST_CMPLT = NVME_CSTS_SHST_CMPLT) \<and>
           (cc (ctrl s) AND NVME_CC_SHN_NORMAL = 0 \<longrightarrow>
              csts (ctrl s') = csts (ctrl s) AND NOT NVME_CSTS_RDY) \<and>
           reg (ctrl s') NVME_REG_CSTS = csts (ctrl s') \<and>
           reg (ctrl s') NVME_REG_CC = cc (ctrl s') \<and>
           cc (ctrl s') AND NVME_CC_ENABLE = 0 \<and>
           \<not> ctrl_enabled s'"
proof -
  let ?n = "unat (nr_queues (ctrl s))"
  let ?io = "[1..<?n]"
  have dio: "distinct ?io" and bio: "\<forall>q \<in> set ?io. q < ?n"
    by simp_all
  from delete_sq_loop_result[OF wf dio bio] obtain s1 where
    d1: "delete_sq_loop s ?io = Inr s1" and f1: "ctrl_frame s1 = ctrl_frame s"
    and l1: "deleted s1 = deleted s @ map SQ (filter (\<lambda>i. ref (sq (ctrl s) ! i) = 1) ?io)"
    and o1: "\<forall>j. j \<notin> set ?io \<longrightarrow> sq (ctrl s1) ! j = sq (ctrl s) ! j"
    and z1: "\<forall>j \<in> set ?io. ref (sq (ctrl s) ! j) = 1 \<longrightarrow>
              ref (sq (ctrl s1) ! j) = 0 \<and>
              qflags (sq (ctrl s1) ! j) AND PCI_EPF_NVME_QUEUE_LIVE = 0"
    by blast
  have wf1: "queues_wf s1" using f1 wf by (rule queues_wf_frame)
  have n1: "unat (nr_queues (ctrl s1)) = ?n" using f1 by (simp add: ctrl_frame_def)
  have bio1: "\<forall>q \<in> set ?io. q < unat (nr_queues (ctrl s1))" using n1 by simp
  from delete_cq_loop_result[OF wf1 dio bio1] obtain s2 where
    d2: "delete_cq_loop s1 ?io = Inr s2" and f2: "ctrl_frame s2 = ctrl_frame s1"
    and q2: "sq (ctrl s2) = sq (ctrl s1)"
    and l2: "deleted s2 = deleted s1 @ map CQ (filter (\<lambda>i. ref (cq (ctrl s1) ! i) = 1) ?io)"
    by blast
  have wf2: "queues_wf s2" using f2 wf1 by (rule queues_wf_frame)
  from wf2 have a0: "0 < length (sq (ctrl s2))"
    and c0: "unat (cqid (sq (ctrl s2) ! 0)) < length (cq (ctrl s2))"
    and k0: "list_ok (sq (ctrl s2) ! 0)"
    by (auto simp: queues_wf_def list_all_length)
  from delete_sq_result[OF a0 c0 k0] obtain s3 where
    d3: "pci_epf_nvme_delete_sq s2 0 = Inr s3" and f3: "ctrl_frame s3 = ctrl_frame s2"
    and l3: "deleted s3 = deleted s2 @ (if ref (sq (ctrl s2) ! 0) = 1 then [SQ 0] else [])"
    and o3: "\<forall>j. j \<noteq> 0 \<longrightarrow> sq (ctrl s3) ! j = sq (ctrl s2) ! j"
    and z3: "ref (sq (ctrl s2) ! 0) = 1 \<longrightarrow>
              ref (sq (ctrl s3) ! 0) = 0 \<and>
              qflags (sq (ctrl s3) ! 0) AND PCI_EPF_NVME_QUEUE_LIVE = 0"
    by blast
  have wf3: "queues_wf s3" using f3 wf2 by (rule queues_wf_frame)
  from wf3 have b0: "0 < length (cq (ctrl s3))"
    and kc: "list_ok (cq (ctrl s3) ! 0)"
    by (auto simp: queues_wf_def list_all_length)
  from delete_cq_result[OF b0 kc] obtain s4 where
    d4: "pci_epf_nvme_delete_cq s3 0 = Inr s4" and f4: "ctrl_frame s4 = ctrl_frame s3"
    and q4: "sq (ctrl s4) = sq (ctrl s3)"
    and l4: "deleted s4 = deleted s3 @ (if ref (cq (ctrl s3) ! 0) = 1 then [CQ 0] else [])"
    by blast
  let ?s' = "disable_ctrl_regs s4"
  let ?D = "if ref (cq (ctrl s3) ! 0) = 1 then [CQ 0] else []"
  have fr: "ctrl_frame s4 = ctrl_frame s"
    using f1 f2 f3 f4 by simp
  hence cc4: "cc (ctrl s4) = cc (ctrl s)" and cs4: "csts (ctrl s4) = csts (ctrl s)"
    by (simp_all add: ctrl_frame_def)
  have sq0: "sq (ctrl s2) ! 0 = sq (ctrl s) ! 0"
    using o1 q2 by simp
  have run: "pci_epf_nvme_disable_ctrl s = Inr ?s'"
    using en d1 d2 d3 d4 n1 by (simp add: pci_epf_nvme_disable_ctrl_def)
  have log: "deleted ?s' = deleted s
             @ map SQ (filter (\<lambda>i. ref (sq (ctrl s) ! i) = 1) ?io)
             @ map CQ (filter (\<lambda>i. ref (cq (ctrl s1) ! i) = 1) ?io)
             @ (if ref (sq (ctrl s) ! 0) = 1 then [SQ 0] else []) @ ?D"
    using l1 l2 l3 l4 sq0 by (simp add: disable_ctrl_regs_result)
  have post: "\<forall>i < ?n. ref (sq (ctrl s) ! i) = 1 \<longrightarrow>
              ref (sq (ctrl ?s') ! i) = 0 \<and>
              qflags (sq (ctrl ?s') ! i) AND PCI_EPF_NVME_QUEUE_LIVE = 0"
  proof (intro allI impI)
    fix i assume i: "i < ?n" and r: "ref (sq (ctrl s) ! i) = 1"
    show "ref (sq (ctrl ?s') ! i) = 0 \<and>
              qflags (sq (ctrl ?s') ! i) AND PCI_EPF_NVME_QUEUE_LIVE = 0"
    proof (cases "i = 0")
      case True
      with r sq0 z3 q4 show ?thesis by (simp add: disable_ctrl_regs_result)
    next
      case False
      with i have "i \<in> set ?io" by simp
      with z1 r have "ref (sq (ctrl s1) ! i) = 0 \<and>
              qflags (sq (ctrl s1) ! i) AND PCI_EPF_NVME_QUEUE_LIVE = 0" by blast
      with False o3 q2 q4 show ?thesis by (simp add: disable_ctrl_regs_result)
    qed
  qed
  have d: "?D = [] \<or> ?D = [CQ 0]" by simp
  have r1: "csts (ctrl ?s') AND NVME_CSTS_RDY = 0" by (rule disable_ctrl_regs_result)
  have r2: "cc (ctrl s) AND NVME_CC_SHN_NORMAL \<noteq> 0 \<longrightarrow>
              csts (ctrl ?s') AND NVME_CSTS_SHST_CMPLT = NVME_CSTS_SHST_CMPLT"
    using disable_ctrl_regs_result(2)[of s4] cc4 by simp
  have r3: "cc (ctrl s) AND NVME_CC_SHN_NORMAL = 0 \<longrightarrow>
              csts (ctrl ?s') = csts (ctrl s) AND NOT NVME_CSTS_RDY"
    using disable_ctrl_regs_result(3)[of s4] cc4 cs4 by simp
  have r4: "reg (ctrl ?s') NVME_REG_CSTS = csts (ctrl ?s')" by (rule disable_ctrl_regs_result)
  have r5: "reg (ctrl ?s') NVME_REG_CC = cc (ctrl ?s')" by (rule disable_ctrl_regs_result)
  have r6: "cc (ctrl ?s') AND NVME_CC_ENABLE = 0" by (rule disable_ctrl_regs_result)
  have r7: "\<not> ctrl_enabled ?s'" by (rule disable_ctrl_regs_result)
  from d1 run log d post r1 r2 r3 r4 r5 r6 r7 show ?thesis by blast
qed

text \<open>
  The teardown on the controller with completion queues 1 and 2 and submission queues
  1, 2 and 3 in use, when the host requests a normal shutdown: every queue is deleted,
  the submission queues first.
\<close>

lemma disable_ctrl_order_example:
  "(case pci_epf_nvme_reg_poll (ex_busy 0x464001) of
      Inl f \<Rightarrow> False
    | Inr s' \<Rightarrow>
        deleted s' = [SQ 1, SQ 2, SQ 3, CQ 1, CQ 2, SQ 0, CQ 0] \<and>
        csts (ctrl s') AND NVME_CSTS_RDY = 0 \<and>
        csts (ctrl s') AND NVME_CSTS_SHST_CMPLT = NVME_CSTS_SHST_CMPLT \<and>
        \<not> ctrl_enabled s')"
  by code_simp

text \<open>
  Claim C9 (a disable transition deletes all I/O submission queues, then all I/O
  completion queues, then the admin queues) does not hold of the code: an I/O
  completion queue can be left live. The handler of delete-CQ accepts the command for
  completion queue 2 while submission queue 2 is bound to it; \<open>pci_epf_nvme_delete_cq\<close>
  takes the count of the queue from 2 to 1 and returns. When the host then clears the
  enable bit, \<open>pci_epf_nvme_delete_sq\<close> deletes submission queue 2 and takes the count
  of completion queue 2 to 0 without deleting the queue, and \<open>pci_epf_nvme_delete_cq\<close>
  returns at once for a count below 1. The state before the transition satisfies the
  hypotheses of \<open>disable_ctrl_result\<close>; after it the controller is disabled, completion
  queue 2 is not among the deleted queues and is still marked live.
\<close>

theorem disable_ctrl_leaves_cq_live:
  "(case ex_two_pairs of
      Inl f \<Rightarrow> False
    | Inr s \<Rightarrow>
        queues_wf s \<and> ctrl_enabled s \<and>
        ref (cq (ctrl s) ! 2) = 2 \<and> ref (sq (ctrl s) ! 2) = 1 \<and> cqid (sq (ctrl s) ! 2) = 2 \<and>
        (case pci_epf_nvme_process_delete_cq s (ex_delete_cq 2) of
           Inl f \<Rightarrow> False
         | Inr (s1, e1) \<Rightarrow>
             status e1 = NVME_SC_SUCCESS \<and> deleted s1 = [] \<and>
             ref (cq (ctrl s1) ! 2) = 1 \<and>
             qflags (cq (ctrl s1) ! 2) AND PCI_EPF_NVME_QUEUE_LIVE \<noteq> 0 \<and>
             queues_wf s1 \<and> ctrl_enabled s1 \<and>
             (case pci_epf_nvme_reg_poll (host_writes s1 NVME_REG_CC 0x460000) of
                Inl f \<Rightarrow> False
              | Inr s2 \<Rightarrow>
                  \<not> ctrl_enabled s2 \<and> csts (ctrl s2) AND NVME_CSTS_RDY = 0 \<and>
                  deleted s2 = [SQ 1, SQ 2, CQ 1, SQ 0, CQ 0] \<and>
                  ref (cq (ctrl s2) ! 2) = 0 \<and>
                  qflags (cq (ctrl s2) ! 2) AND PCI_EPF_NVME_QUEUE_LIVE \<noteq> 0)))"
  by code_simp


subsection \<open>A submission queue created again after a failed creation\<close>

text \<open>
  When \<open>alloc_workqueue\<close> fails, \<open>pci_epf_nvme_create_sq\<close> clears the slot with
  \<open>memset\<close>, the list head and the back pointer included. A later creation of the same
  slot succeeds and leaves them as they are, and the deletion of the queue then walks
  the list through the NULL pointer.
\<close>

lemma create_sq_again_after_failure:
  "(case pci_epf_nvme_create_cq (ex_epf\<lparr>alloc_workqueue_ok := False\<rparr>) 1 3 3 0 0x10000 of
      Inl f \<Rightarrow> False
    | Inr (r0, s0) \<Rightarrow>
        (case pci_epf_nvme_create_sq s0 1 1 1 3 0x20000 of
           Inl f \<Rightarrow> False
         | Inr (r1, s1) \<Rightarrow>
             r1 = - ENOMEM \<and> ref (sq (ctrl s1) ! 1) = 0 \<and>
             \<not> list_ok (sq (ctrl s1) ! 1) \<and> \<not> epf_nvme_p (sq (ctrl s1) ! 1) \<and>
             (case pci_epf_nvme_create_sq (s1\<lparr>alloc_workqueue_ok := True\<rparr>) 1 1 1 3 0x20000 of
                Inl f \<Rightarrow> False
              | Inr (r2, s2) \<Rightarrow>
                  r2 = 0 \<and> ref (sq (ctrl s2) ! 1) = 1 \<and>
                  \<not> list_ok (sq (ctrl s2) ! 1) \<and> \<not> epf_nvme_p (sq (ctrl s2) ! 1) \<and>
                  (case pci_epf_nvme_delete_sq s2 1 of
                     Inl f \<Rightarrow> f = NullPointer
                   | Inr s3 \<Rightarrow> False))))"
  by code_simp

subsection \<open>Segment transfers: the path taken and the timeout\<close>

lemma copy_segment_frame:
  "copy_segment s dir a n buf off = Inr (s1, buf1) \<Longrightarrow>
     dma_enable s1 = dma_enable s \<and> xfer_log s1 = xfer_log s"
  by (auto simp: copy_segment_def host_store_def split: if_splits)

lemma copy_case_frame:
  assumes "(case copy_segment s dir a n buf off of
              Inl f \<Rightarrow> Inl f
            | Inr (s2, b2) \<Rightarrow> Inr (v, s2, b2)) = Inr (ret, s1, buf1)"
  shows "dma_enable s1 = dma_enable s \<and> xfer_log s1 = xfer_log s \<and> ret = v"
proof (cases "copy_segment s dir a n buf off")
  case (Inl f)
  with assms show ?thesis by simp
next
  case (Inr p)
  obtain s2 b2 where p: "p = (s2, b2)" by (cases p)
  with Inr assms have "s1 = s2" "ret = v" by simp_all
  with Inr p copy_segment_frame[of s dir a n buf off s2 b2] show ?thesis by simp
qed

lemma mmio_transfer_log:
  assumes "pci_epf_nvme_mmio_transfer s seg dir buf off = Inr (ret, s1, buf1)"
  shows "dma_enable s1 = dma_enable s \<and> xfer_log s1 = xfer_log s"
proof -
  obtain e m where em: "epc_mem_map s (pci_addr_s seg) (size_s seg) = (e, m)"
    by (cases "epc_mem_map s (pci_addr_s seg) (size_s seg)")
  show ?thesis
  proof (cases "e \<noteq> 0 \<or> \<not> (dir = DMA_FROM_DEVICE \<or> dir = DMA_TO_DEVICE)")
    case True
    with assms em have "s1 = s"
      by (simp add: pci_epf_nvme_mmio_transfer_def split: if_splits)
    thus ?thesis by simp
  next
    case False
    with assms em have "(case copy_segment s dir (pci_addr_s seg) (unat m) buf off of
              Inl f \<Rightarrow> Inl f
            | Inr (s2, b2) \<Rightarrow> Inr (sint (ucast m :: u32), s2, b2)) = Inr (ret, s1, buf1)"
      by (simp add: pci_epf_nvme_mmio_transfer_def)
    from copy_case_frame[OF this] show ?thesis by simp
  qed
qed

lemma dma_memcpy_transfer_log:
  assumes "pci_epf_nvme_dma_memcpy_transfer s seg dir buf off = Inr (ret, s1, buf1)"
  shows "dma_enable s1 = dma_enable s \<and>
     (xfer_log s1 = xfer_log s \<or> xfer_log s1 = xfer_log s @ [DmaTerminate] \<and> ret = - ETIMEDOUT)"
proof -
  obtain e m where em: "epc_mem_map s (pci_addr_s seg) (size_s seg) = (e, m)"
    by (cases "epc_mem_map s (pci_addr_s seg) (size_s seg)")
  show ?thesis
  proof (cases "e \<noteq> 0 \<or> \<not> dma_prep_ok s \<or> dma_submit_err s \<noteq> 0")
    case True
    with assms em have "s1 = s"
      by (simp add: pci_epf_nvme_dma_memcpy_transfer_def split: if_splits)
    thus ?thesis by simp
  next
    case ok: False
    show ?thesis
    proof (cases "dma_completes s (pci_addr_s seg) 1000")
      case False
      with ok assms em have "s1 = s\<lparr>xfer_log := xfer_log s @ [DmaTerminate]\<rparr>" "ret = - ETIMEDOUT"
        by (simp_all add: pci_epf_nvme_dma_memcpy_transfer_def)
      thus ?thesis by simp
    next
      case True
      with ok assms em have "(case copy_segment s dir (pci_addr_s seg) (unat m) buf off of
              Inl f \<Rightarrow> Inl f
            | Inr (s2, b2) \<Rightarrow> Inr (sint m, s2, b2)) = Inr (ret, s1, buf1)"
        by (simp add: pci_epf_nvme_dma_memcpy_transfer_def)
      from copy_case_frame[OF this] show ?thesis by simp
    qed
  qed
qed

lemma dma_private_transfer_log:
  assumes "pci_epf_nvme_dma_private_transfer s seg dir buf off = Inr (ret, s1, buf1)"
  shows "dma_enable s1 = dma_enable s \<and>
     (xfer_log s1 = xfer_log s \<or> xfer_log s1 = xfer_log s @ [DmaTerminate] \<and> ret = - ETIMEDOUT)"
proof (cases "(dir \<noteq> DMA_FROM_DEVICE \<and> dir \<noteq> DMA_TO_DEVICE) \<or> dma_slave_config_ret s \<noteq> 0 \<or>
              \<not> dma_prep_ok s \<or> dma_submit_err s \<noteq> 0")
  case True
  with assms have "s1 = s"
    by (simp add: pci_epf_nvme_dma_private_transfer_def split: if_splits)
  thus ?thesis by simp
next
  case ok: False
  show ?thesis
  proof (cases "dma_completes s (pci_addr_s seg) 1000")
    case False
    with ok assms have "s1 = s\<lparr>xfer_log := xfer_log s @ [DmaTerminate]\<rparr>" "ret = - ETIMEDOUT"
      by (simp_all add: pci_epf_nvme_dma_private_transfer_def split: if_splits)
    thus ?thesis by simp
  next
    case True
    with ok assms have "(case copy_segment s dir (pci_addr_s seg) (unat (size_s seg)) buf off of
              Inl f \<Rightarrow> Inl f
            | Inr (s2, b2) \<Rightarrow> Inr (sint (size_s seg), s2, b2)) = Inr (ret, s1, buf1)"
      by (simp add: pci_epf_nvme_dma_private_transfer_def split: if_splits)
    from copy_case_frame[OF this] show ?thesis by simp
  qed
qed

lemma dma_transfer_log:
  assumes "pci_epf_nvme_dma_transfer s seg dir buf off = Inr (ret, s1, buf1)"
  shows "dma_enable s1 = dma_enable s \<and>
     (xfer_log s1 = xfer_log s \<or> xfer_log s1 = xfer_log s @ [DmaTerminate] \<and> ret = - ETIMEDOUT)"
proof (cases "dma_mapping_err s \<noteq> 0")
  case True
  with assms have "s1 = s" by (simp add: pci_epf_nvme_dma_transfer_def)
  thus ?thesis by simp
next
  case False
  show ?thesis
  proof (cases "dma_chan_tx s \<noteq> dma_chan_rx s")
    case True
    with False assms have "pci_epf_nvme_dma_private_transfer s seg dir buf off = Inr (ret, s1, buf1)"
      by (simp add: pci_epf_nvme_dma_transfer_def)
    thus ?thesis by (rule dma_private_transfer_log)
  next
    case same: False
    with False assms have "pci_epf_nvme_dma_memcpy_transfer s seg dir buf off = Inr (ret, s1, buf1)"
      by (simp add: pci_epf_nvme_dma_transfer_def)
    thus ?thesis by (rule dma_memcpy_transfer_log)
  qed
qed

lemma transfer_piece_log:
  assumes "(if dma_enable s \<and> sz > SZ_4K
            then pci_epf_nvme_dma_transfer (s\<lparr>xfer_log := xfer_log s @ [XferDma sz]\<rparr>) seg dir buf off
            else pci_epf_nvme_mmio_transfer (s\<lparr>xfer_log := xfer_log s @ [XferMmio sz]\<rparr>) seg dir buf off)
           = Inr (ret, s1, buf1)"
  shows "dma_enable s1 = dma_enable s \<and>
         (\<exists>T. xfer_log s1 = xfer_log s
                 @ [if dma_enable s \<and> sz > SZ_4K then XferDma sz else XferMmio sz] @ T \<and>
              (T = [] \<or> T = [DmaTerminate] \<and> ret = - ETIMEDOUT))"
proof (cases "dma_enable s \<and> sz > SZ_4K")
  case True
  with assms have "pci_epf_nvme_dma_transfer (s\<lparr>xfer_log := xfer_log s @ [XferDma sz]\<rparr>) seg dir buf off
      = Inr (ret, s1, buf1)" by simp
  from dma_transfer_log[OF this] True show ?thesis by auto
next
  case False
  with assms have "pci_epf_nvme_mmio_transfer (s\<lparr>xfer_log := xfer_log s @ [XferMmio sz]\<rparr>) seg dir buf off
      = Inr (ret, s1, buf1)" by (simp split: if_splits)
  from mmio_transfer_log[OF this] False show ?thesis by auto
qed

lemma transfer_loop_step:
  assumes "sz \<noteq> 0"
    and "(if dma_enable s \<and> sz > SZ_4K
            then pci_epf_nvme_dma_transfer (s\<lparr>xfer_log := xfer_log s @ [XferDma sz]\<rparr>) seg dir buf off
            else pci_epf_nvme_mmio_transfer (s\<lparr>xfer_log := xfer_log s @ [XferMmio sz]\<rparr>) seg dir buf off)
           = x"
  shows "transfer_loop (Suc n) s seg dir buf off sz =
           (case x of
              Inl f \<Rightarrow> Some (Inl f)
            | Inr (ret, s1, buf1) \<Rightarrow>
                if ret < 0 then Some (Inr (ret, s1, buf1))
                else transfer_loop n s1 seg dir buf1 (off + nat ret) (sz - of_int ret))"
  using assms by (simp only: transfer_loop.simps if_False)

lemma transfer_loop_log:
  "transfer_loop fuel s seg dir buf off sz = Some (Inr (r, s', buf')) \<Longrightarrow>
     \<exists>new. xfer_log s' = xfer_log s @ new \<and>
       (\<forall>z. XferDma z \<in> set new \<longrightarrow> dma_enable s \<and> z > SZ_4K) \<and>
       (\<forall>z. XferMmio z \<in> set new \<longrightarrow> \<not> (dma_enable s \<and> z > SZ_4K)) \<and>
       (DmaTerminate \<in> set new \<longrightarrow> r = - ETIMEDOUT) \<and>
       (sz \<noteq> 0 \<longrightarrow> new \<noteq> [] \<and>
          hd new = (if dma_enable s \<and> sz > SZ_4K then XferDma sz else XferMmio sz))"
proof (induction fuel arbitrary: s buf off sz)
  case 0
  then show ?case by simp
next
  case (Suc n)
  show ?case
  proof (cases "sz = 0")
    case True
    with Suc.prems have "s' = s" by simp
    with True show ?thesis by simp
  next
    case False
    let ?ev = "if dma_enable s \<and> sz > SZ_4K then XferDma sz else XferMmio sz"
    define x where "x = (if dma_enable s \<and> sz > SZ_4K
            then pci_epf_nvme_dma_transfer (s\<lparr>xfer_log := xfer_log s @ [XferDma sz]\<rparr>) seg dir buf off
            else pci_epf_nvme_mmio_transfer (s\<lparr>xfer_log := xfer_log s @ [XferMmio sz]\<rparr>) seg dir buf off)"
    note st = transfer_loop_step[OF False x_def[symmetric], of n]
    from Suc.prems st have c: "(case x of
              Inl f \<Rightarrow> Some (Inl f)
            | Inr (ret, s1, buf1) \<Rightarrow>
                if ret < 0 then Some (Inr (ret, s1, buf1))
                else transfer_loop n s1 seg dir buf1 (off + nat ret) (sz - of_int ret))
            = Some (Inr (r, s', buf'))" by simp
    then obtain ret s1 buf1 where p: "x = Inr (ret, s1, buf1)"
      by (cases x) auto
    with c have rest: "(if ret < 0 then Some (Inr (ret, s1, buf1))
                  else transfer_loop n s1 seg dir buf1 (off + nat ret) (sz - of_int ret))
                 = Some (Inr (r, s', buf'))"
      by simp
    from transfer_piece_log[OF p[unfolded x_def]] obtain T where en: "dma_enable s1 = dma_enable s"
      and l: "xfer_log s1 = xfer_log s @ [?ev] @ T"
      and T: "T = [] \<or> T = [DmaTerminate] \<and> ret = - ETIMEDOUT"
      by blast
    have evd: "\<forall>z. ?ev = XferDma z \<longrightarrow> dma_enable s \<and> z > SZ_4K"
      and evm: "\<forall>z. ?ev = XferMmio z \<longrightarrow> \<not> (dma_enable s \<and> z > SZ_4K)"
      and evt: "?ev \<noteq> DmaTerminate"
      by (simp_all split: if_splits)
    define ev where "ev = ?ev"
    note evd = evd[folded ev_def] and evm = evm[folded ev_def] and evt = evt[folded ev_def]
      and l = l[folded ev_def]
    have goal: "\<exists>new. xfer_log s' = xfer_log s @ new \<and>
       (\<forall>z. XferDma z \<in> set new \<longrightarrow> dma_enable s \<and> z > SZ_4K) \<and>
       (\<forall>z. XferMmio z \<in> set new \<longrightarrow> \<not> (dma_enable s \<and> z > SZ_4K)) \<and>
       (DmaTerminate \<in> set new \<longrightarrow> r = - ETIMEDOUT) \<and>
       new \<noteq> [] \<and> hd new = ev"
    proof (cases "ret < 0")
      case True
      with rest have e: "r = ret" "s' = s1" by simp_all
      have "xfer_log s' = xfer_log s @ (ev # T)" using l e by simp
      moreover have "\<forall>z. XferDma z \<in> set (ev # T) \<longrightarrow> dma_enable s \<and> z > SZ_4K"
        using T evd by auto
      moreover have "\<forall>z. XferMmio z \<in> set (ev # T) \<longrightarrow> \<not> (dma_enable s \<and> z > SZ_4K)"
        using T evm by auto
      moreover have "DmaTerminate \<in> set (ev # T) \<longrightarrow> r = - ETIMEDOUT"
        using T evt e by auto
      moreover have "ev # T \<noteq> [] \<and> hd (ev # T) = ev" by simp
      ultimately show ?thesis by blast
    next
      case nn: False
      with T have T0: "T = []" by (auto simp: ETIMEDOUT_def)
      from rest nn have "transfer_loop n s1 seg dir buf1 (off + nat ret) (sz - of_int ret)
                 = Some (Inr (r, s', buf'))" by simp
      from Suc.IH[OF this] obtain new1 where
        l1: "xfer_log s' = xfer_log s1 @ new1"
        and d1: "\<forall>z. XferDma z \<in> set new1 \<longrightarrow> dma_enable s1 \<and> z > SZ_4K"
        and m1: "\<forall>z. XferMmio z \<in> set new1 \<longrightarrow> \<not> (dma_enable s1 \<and> z > SZ_4K)"
        and t1: "DmaTerminate \<in> set new1 \<longrightarrow> r = - ETIMEDOUT"
        by blast
      have "xfer_log s' = xfer_log s @ (ev # new1)" using l l1 T0 by simp
      moreover have "\<forall>z. XferDma z \<in> set (ev # new1) \<longrightarrow> dma_enable s \<and> z > SZ_4K"
        using d1 en evd by auto
      moreover have "\<forall>z. XferMmio z \<in> set (ev # new1) \<longrightarrow> \<not> (dma_enable s \<and> z > SZ_4K)"
        using m1 en evm by auto
      moreover have "DmaTerminate \<in> set (ev # new1) \<longrightarrow> r = - ETIMEDOUT"
        using t1 evt by auto
      moreover have "ev # new1 \<noteq> [] \<and> hd (ev # new1) = ev" by simp
      ultimately show ?thesis by blast
    qed
    thus ?thesis unfolding ev_def by blast
  qed
qed

lemma dma_transfer_timeout:
  assumes "dma_mapping_err s = 0" and "dma_prep_ok s" and "dma_submit_err s = 0"
    and "dma_chan_tx s = dma_chan_rx s \<longrightarrow> fst (epc_mem_map s (pci_addr_s seg) (size_s seg)) = 0"
    and "dma_chan_tx s \<noteq> dma_chan_rx s \<longrightarrow>
           (dir = DMA_FROM_DEVICE \<or> dir = DMA_TO_DEVICE) \<and> dma_slave_config_ret s = 0"
    and "\<not> dma_completes s (pci_addr_s seg) 1000"
  shows "pci_epf_nvme_dma_transfer s seg dir buf off =
           Inr (- ETIMEDOUT, s\<lparr>xfer_log := xfer_log s @ [DmaTerminate]\<rparr>, buf)"
proof (cases "dma_chan_tx s = dma_chan_rx s")
  case True
  with assms(4) obtain m where "epc_mem_map s (pci_addr_s seg) (size_s seg) = (0, m)"
    by (cases "epc_mem_map s (pci_addr_s seg) (size_s seg)") auto
  with True assms(1,2,3,6) show ?thesis
    by (simp add: pci_epf_nvme_dma_transfer_def pci_epf_nvme_dma_memcpy_transfer_def)
next
  case False
  with assms(5) have "dir = DMA_FROM_DEVICE \<or> dir = DMA_TO_DEVICE" "dma_slave_config_ret s = 0"
    by simp_all
  with False assms(1,2,3,6) show ?thesis
    by (auto simp add: pci_epf_nvme_dma_transfer_def pci_epf_nvme_dma_private_transfer_def)
qed

lemma transfer_loop_timeout:
  assumes "dma_enable s" and "sz > SZ_4K" and "dma_mapping_err s = 0" and "dma_prep_ok s"
    and "dma_submit_err s = 0"
    and "dma_chan_tx s = dma_chan_rx s \<longrightarrow> fst (epc_mem_map s (pci_addr_s seg) (size_s seg)) = 0"
    and "dma_chan_tx s \<noteq> dma_chan_rx s \<longrightarrow>
           (dir = DMA_FROM_DEVICE \<or> dir = DMA_TO_DEVICE) \<and> dma_slave_config_ret s = 0"
    and "\<not> dma_completes s (pci_addr_s seg) 1000"
  shows "transfer_loop (Suc n) s seg dir buf off sz =
           Some (Inr (- ETIMEDOUT, s\<lparr>xfer_log := xfer_log s @ [XferDma sz, DmaTerminate]\<rparr>, buf))"
proof -
  have nz: "sz \<noteq> 0" using assms(2) by (auto simp: SZ_4K_def)
  let ?s = "s\<lparr>xfer_log := xfer_log s @ [XferDma sz]\<rparr>"
  have "pci_epf_nvme_dma_transfer ?s seg dir buf off =
           Inr (- ETIMEDOUT, ?s\<lparr>xfer_log := xfer_log ?s @ [DmaTerminate]\<rparr>, buf)"
    using assms by (intro dma_transfer_timeout) simp_all
  hence x: "(if dma_enable s \<and> sz > SZ_4K
            then pci_epf_nvme_dma_transfer (s\<lparr>xfer_log := xfer_log s @ [XferDma sz]\<rparr>) seg dir buf off
            else pci_epf_nvme_mmio_transfer (s\<lparr>xfer_log := xfer_log s @ [XferMmio sz]\<rparr>) seg dir buf off)
        = Inr (- ETIMEDOUT, ?s\<lparr>xfer_log := xfer_log ?s @ [DmaTerminate]\<rparr>, buf)"
    using assms(1,2) by simp
  show ?thesis
    by (simp add: transfer_loop_step[OF nz x] ETIMEDOUT_def del: transfer_loop.simps)
qed

text \<open>
  Claim C10. Every piece of a segment transfer is logged with the path it takes and the
  size that remains: whenever the loop of \<open>pci_epf_nvme_transfer\<close> returns, each piece
  that went through the DMA engine had DMA enabled and more than 4 KiB remaining, each
  piece that went through the memory-mapped copy had not, and the first piece of a
  non-empty transfer is logged accordingly, so the DMA path is taken exactly when DMA is
  enabled and the remaining size exceeds 4 KiB. A termination of the DMA channel in the
  log implies the result \<open>-ETIMEDOUT\<close>. When the piece goes to the DMA engine, the
  descriptor is prepared and submitted, and the completion does not arrive within the
  1000 ms of the wait, the channel is terminated and the transfer returns at once with
  the negative value \<open>-ETIMEDOUT\<close>, the buffer untouched.
\<close>

theorem transfer_path_and_timeout:
  "(\<forall>fuel s seg dir buf off sz r s' buf'.
      transfer_loop fuel s seg dir buf off sz = Some (Inr (r, s', buf')) \<longrightarrow>
      (\<exists>new. xfer_log s' = xfer_log s @ new \<and>
         (\<forall>z. XferDma z \<in> set new \<longrightarrow> dma_enable s \<and> z > SZ_4K) \<and>
         (\<forall>z. XferMmio z \<in> set new \<longrightarrow> \<not> (dma_enable s \<and> z > SZ_4K)) \<and>
         (DmaTerminate \<in> set new \<longrightarrow> r = - ETIMEDOUT) \<and>
         (sz \<noteq> 0 \<longrightarrow> new \<noteq> [] \<and>
            hd new = (if dma_enable s \<and> sz > SZ_4K then XferDma sz else XferMmio sz)))) \<and>
   (\<forall>n s seg dir buf off sz.
      dma_enable s \<and> sz > SZ_4K \<and> dma_mapping_err s = 0 \<and> dma_prep_ok s \<and>
      dma_submit_err s = 0 \<and>
      (dma_chan_tx s = dma_chan_rx s \<longrightarrow> fst (epc_mem_map s (pci_addr_s seg) (size_s seg)) = 0) \<and>
      (dma_chan_tx s \<noteq> dma_chan_rx s \<longrightarrow>
         (dir = DMA_FROM_DEVICE \<or> dir = DMA_TO_DEVICE) \<and> dma_slave_config_ret s = 0) \<and>
      \<not> dma_completes s (pci_addr_s seg) 1000 \<longrightarrow>
      transfer_loop (Suc n) s seg dir buf off sz =
        Some (Inr (- ETIMEDOUT, s\<lparr>xfer_log := xfer_log s @ [XferDma sz, DmaTerminate]\<rparr>, buf)) \<and>
      - ETIMEDOUT < 0) \<and>
   (\<forall>fuel s seg dir buf.
      pci_epf_nvme_transfer fuel s seg dir buf = transfer_loop fuel s seg dir buf 0 (size_s seg))"
proof (intro conjI allI impI)
  fix fuel and s :: pci_epf_nvme and seg dir buf off sz r and s' :: pci_epf_nvme and buf'
  assume "transfer_loop fuel s seg dir buf off sz = Some (Inr (r, s', buf'))"
  thus "\<exists>new. xfer_log s' = xfer_log s @ new \<and>
         (\<forall>z. XferDma z \<in> set new \<longrightarrow> dma_enable s \<and> z > SZ_4K) \<and>
         (\<forall>z. XferMmio z \<in> set new \<longrightarrow> \<not> (dma_enable s \<and> z > SZ_4K)) \<and>
         (DmaTerminate \<in> set new \<longrightarrow> r = - ETIMEDOUT) \<and>
         (sz \<noteq> 0 \<longrightarrow> new \<noteq> [] \<and>
            hd new = (if dma_enable s \<and> sz > SZ_4K then XferDma sz else XferMmio sz))"
    by (rule transfer_loop_log)
next
  fix n and s :: pci_epf_nvme and seg :: pci_epf_nvme_segment and dir buf off and sz :: u64
  assume "dma_enable s \<and> sz > SZ_4K \<and> dma_mapping_err s = 0 \<and> dma_prep_ok s \<and>
      dma_submit_err s = 0 \<and>
      (dma_chan_tx s = dma_chan_rx s \<longrightarrow> fst (epc_mem_map s (pci_addr_s seg) (size_s seg)) = 0) \<and>
      (dma_chan_tx s \<noteq> dma_chan_rx s \<longrightarrow>
         (dir = DMA_FROM_DEVICE \<or> dir = DMA_TO_DEVICE) \<and> dma_slave_config_ret s = 0) \<and>
      \<not> dma_completes s (pci_addr_s seg) 1000"
  thus "transfer_loop (Suc n) s seg dir buf off sz =
        Some (Inr (- ETIMEDOUT, s\<lparr>xfer_log := xfer_log s @ [XferDma sz, DmaTerminate]\<rparr>, buf))"
    by (intro transfer_loop_timeout) blast+
next
  show "- ETIMEDOUT < 0" by (simp add: ETIMEDOUT_def)
next
  fix fuel and s :: pci_epf_nvme and seg dir buf
  show "pci_epf_nvme_transfer fuel s seg dir buf = transfer_loop fuel s seg dir buf 0 (size_s seg)"
    by (simp add: pci_epf_nvme_transfer_def)
qed

theorem transfer_path_and_timeout_witness:
  "(\<exists>s'. pci_epf_nvme_transfer 1 ex_slow (ex_seg 8192) DMA_TO_DEVICE ex_block
           = Some (Inr (- ETIMEDOUT, s', ex_block)) \<and>
         xfer_log s' = [XferDma 8192, DmaTerminate]) \<and>
   (\<exists>r s' buf' new. pci_epf_nvme_transfer 2 ex_epf (ex_seg 8) DMA_FROM_DEVICE (replicate 8 1)
           = Some (Inr (r, s', buf')) \<and>
         xfer_log s' = xfer_log ex_epf @ new \<and> new \<noteq> [] \<and> hd new = XferMmio 8)"
proof -
  note t = transfer_path_and_timeout
  have h2: "dma_enable ex_slow \<and> (8192::u64) > SZ_4K \<and> dma_mapping_err ex_slow = 0 \<and>
      dma_prep_ok ex_slow \<and> dma_submit_err ex_slow = 0 \<and>
      (dma_chan_tx ex_slow = dma_chan_rx ex_slow \<longrightarrow>
         fst (epc_mem_map ex_slow (pci_addr_s (ex_seg 8192)) (size_s (ex_seg 8192))) = 0) \<and>
      (dma_chan_tx ex_slow \<noteq> dma_chan_rx ex_slow \<longrightarrow>
         (DMA_TO_DEVICE = DMA_FROM_DEVICE \<or> DMA_TO_DEVICE = DMA_TO_DEVICE) \<and>
         dma_slave_config_ret ex_slow = 0) \<and>
      \<not> dma_completes ex_slow (pci_addr_s (ex_seg 8192)) 1000"
    by (simp add: ex_slow_def ex_epf_def ex_seg_def SZ_4K_def)
  have sz: "size_s (ex_seg 8192) = 8192" "size_s (ex_seg 8) = 8"
    by (simp_all add: ex_seg_def)
  have lg: "xfer_log ex_slow = []" "dma_enable ex_epf" "\<not> (8::u64) > SZ_4K"
    by (simp_all add: ex_slow_def ex_epf_def SZ_4K_def)
  from t[THEN conjunct2, THEN conjunct1, rule_format, OF h2, of 0 ex_block 0]
    t[THEN conjunct2, THEN conjunct2, rule_format, of 1 ex_slow "ex_seg 8192" DMA_TO_DEVICE ex_block]
  have a: "\<exists>s'. pci_epf_nvme_transfer 1 ex_slow (ex_seg 8192) DMA_TO_DEVICE ex_block
           = Some (Inr (- ETIMEDOUT, s', ex_block)) \<and>
         xfer_log s' = [XferDma 8192, DmaTerminate]"
    using sz lg by simp
  have run: "case pci_epf_nvme_transfer 2 ex_epf (ex_seg 8) DMA_FROM_DEVICE (replicate 8 1) of
               Some (Inr (r, s', buf')) \<Rightarrow> r = 0 \<and> buf' = replicate 8 0
             | _ \<Rightarrow> False"
    by code_simp
  then obtain r s' buf' where
    h1: "pci_epf_nvme_transfer 2 ex_epf (ex_seg 8) DMA_FROM_DEVICE (replicate 8 1)
           = Some (Inr (r, s', buf'))"
    by (auto split: option.splits sum.splits)
  hence "transfer_loop 2 ex_epf (ex_seg 8) DMA_FROM_DEVICE (replicate 8 1) 0 8
           = Some (Inr (r, s', buf'))"
    using t[THEN conjunct2, THEN conjunct2, rule_format, of 2 ex_epf "ex_seg 8" DMA_FROM_DEVICE "replicate 8 1"] sz
    by simp
  from t[THEN conjunct1, rule_format, OF this] lg
  have "\<exists>new. xfer_log s' = xfer_log ex_epf @ new \<and> new \<noteq> [] \<and> hd new = XferMmio 8"
    by auto
  with h1 a show ?thesis by blast
qed

subsection \<open>The PRP resolver: total length of the segments\<close>

lemma alloc_cmd_segs_result:
  assumes "pci_epf_nvme_alloc_cmd_segs s e n = (ret, e1)"
  shows "(ret = 0 \<and> 0 \<le> n \<and> nr_segs e1 = nat n \<and> length (segs e1) = nat n \<and>
          buffer_size e1 = buffer_size e \<and> status e1 = status e \<and> cmd e1 = cmd e) \<or>
         (ret = - ENOMEM \<and> e1 = e)"
  using assms
  by (auto simp: pci_epf_nvme_alloc_cmd_segs_def ENOMEM_def split: if_splits)

lemma parse_prp_simple_total:
  assumes "pci_epf_nvme_cmd_parse_prp_simple s e = (r, e')"
  shows "(r = 0 \<and> segs_total e' = unat (buffer_size e) \<and> status e' = status e \<and>
          buffer_size e' = buffer_size e) \<or>
         (r < 0 \<and> prp_failed e' \<and>
          (status e' = NVME_SC_INTERNAL OR NVME_STATUS_DNR \<longrightarrow> r = - ENOMEM))"
proof -
  let ?L = "buffer_size e"
  let ?p1 = "pci_epf_nvme_prp_size (ctrl s) (prp1 (cmd e))"
  show ?thesis
  proof (cases "?L > ?p1")
    case False
    with assms have "r = 0" "e' = e\<lparr>segs := [\<lparr>pci_addr_s = prp1 (cmd e), size_s = ?L\<rparr>], nr_segs := 1\<rparr>"
      by (auto simp: pci_epf_nvme_cmd_parse_prp_simple_def pci_epf_nvme_alloc_cmd_segs_def
          zero_segment_def Let_def)
    thus ?thesis by (simp add: segs_total_def)
  next
    case big: True
    show ?thesis
    proof (cases "prp2 (cmd e) = 0 \<or> pci_epf_nvme_prp_ofst (ctrl s) (prp2 (cmd e)) \<noteq> 0")
      case True
      with big assms have "r = - EINVAL \<and> prp_failed e' \<and>
          status e' \<noteq> NVME_SC_INTERNAL OR NVME_STATUS_DNR"
        by (auto simp: pci_epf_nvme_cmd_parse_prp_simple_def Let_def prp_failed_def
            NVME_SC_INTERNAL_def NVME_SC_INVALID_FIELD_def NVME_SC_PRP_INVALID_OFFSET_def
            NVME_STATUS_DNR_def split: if_splits)
      thus ?thesis by (simp add: EINVAL_def)
    next
      case ok: False
      show ?thesis
      proof (cases "prp2 (cmd e) \<noteq> prp1 (cmd e) + ?p1")
        case False
        with big ok assms have "r = 0"
          "e' = e\<lparr>segs := [\<lparr>pci_addr_s = prp1 (cmd e), size_s = ?L\<rparr>], nr_segs := 1\<rparr>"
          by (auto simp: pci_epf_nvme_cmd_parse_prp_simple_def pci_epf_nvme_alloc_cmd_segs_def
              zero_segment_def Let_def)
        thus ?thesis by (simp add: segs_total_def)
      next
        case two: True
        show ?thesis
        proof (cases "kcalloc_ok s")
          case False
          with big ok two assms have "r = - ENOMEM"
            "e' = e\<lparr>status := NVME_SC_INTERNAL OR NVME_STATUS_DNR\<rparr>"
            by (auto simp: pci_epf_nvme_cmd_parse_prp_simple_def pci_epf_nvme_alloc_cmd_segs_def
                Let_def ENOMEM_def)
          thus ?thesis by (simp add: prp_failed_def ENOMEM_def)
        next
          case True
          with big ok two assms have r: "r = 0"
            and e: "e' = e\<lparr>nr_segs := 2, segs := [\<lparr>pci_addr_s = prp1 (cmd e), size_s = ?p1\<rparr>,
                    \<lparr>pci_addr_s = prp2 (cmd e), size_s = ?L - ?p1\<rparr>]\<rparr>"
            by (auto simp: pci_epf_nvme_cmd_parse_prp_simple_def pci_epf_nvme_alloc_cmd_segs_def
                Let_def ENOMEM_def zero_segment_def numeral_2_eq_2)
          from big have "?p1 \<le> ?L" by simp
          hence "unat ?p1 + unat (?L - ?p1) = unat ?L"
            by (simp add: unat_sub word_le_nat_alt)
          with r e show ?thesis by (simp add: segs_total_def numeral_2_eq_2)
        qed
      qed
    qed
  qed
qed

lemma new_segment_inv:
  assumes "prp_inv e w" and "w_seg w + 1 < length (segs e)"
  shows "prp_inv (e\<lparr>segs := (segs e)[w_seg w + 1 := \<lparr>pci_addr_s = prp, size_s = 0\<rparr>]\<rparr>)
           (w\<lparr>w_nr_segs := w_nr_segs w + 1, w_seg := w_seg w + 1, w_pci_addr := prp\<rparr>)"
proof -
  from assms have n: "w_nr_segs w = w_seg w + 1" and l: "w_nr_segs w < length (segs e)"
    and s: "sum_list (map (\<lambda>g. unat (size_s g)) (take (w_nr_segs w) (segs e))) = unat (w_size w)"
    by (simp_all add: prp_inv_def)
  have "take (Suc (w_nr_segs w)) ((segs e)[w_nr_segs w := \<lparr>pci_addr_s = prp, size_s = 0\<rparr>])
          = take (w_nr_segs w) (segs e) @ [\<lparr>pci_addr_s = prp, size_s = 0\<rparr>]"
    using l by (simp add: take_Suc_conv_app_nth)
  with s n l show ?thesis by (simp add: prp_inv_def)
qed

lemma add_to_segment_inv:
  assumes "prp_inv e w" and "w_size w < L" and "p \<le> L - w_size w"
  shows "prp_inv (e\<lparr>segs := (segs e)[w_seg w :=
                     (segs e ! w_seg w)\<lparr>size_s := size_s (segs e ! w_seg w) + p\<rparr>]\<rparr>)
           (w\<lparr>w_pci_addr := a, w_size := w_size w + p, w_i := i\<rparr>)"
proof -
  let ?k = "w_seg w"
  let ?g = "segs e ! ?k"
  from assms(1) have n: "w_nr_segs w = Suc ?k" and l: "?k < length (segs e)"
    and s: "sum_list (map (\<lambda>g. unat (size_s g)) (take (Suc ?k) (segs e))) = unat (w_size w)"
    by (simp_all add: prp_inv_def)
  from s l have s1: "sum_list (map (\<lambda>g. unat (size_s g)) (take ?k (segs e))) + unat (size_s ?g)
      = unat (w_size w)"
    by (simp add: take_Suc_conv_app_nth)
  from assms(2) have "unat (L - w_size w) = unat L - unat (w_size w)"
    by (simp add: unat_sub word_le_nat_alt word_less_nat_alt)
  with assms(3) have pb: "unat p \<le> unat L - unat (w_size w)"
    by (simp add: word_le_nat_alt)
  from assms(2) have wl: "unat (w_size w) < unat L" by (simp add: word_less_nat_alt)
  have L64: "unat L < 2 ^ 64" using unsigned_less[of L, where ?'a=nat] by simp
  have a1: "unat (w_size w + p) = unat (w_size w) + unat p"
    using pb wl L64 by (simp add: unat_word_ariths)
  have a2: "unat (size_s ?g + p) = unat (size_s ?g) + unat p"
    using pb wl L64 s1 by (simp add: unat_word_ariths)
  have "take (Suc ?k) ((segs e)[?k := ?g\<lparr>size_s := size_s ?g + p\<rparr>])
          = take ?k (segs e) @ [?g\<lparr>size_s := size_s ?g + p\<rparr>]"
    using l by (simp add: take_Suc_conv_app_nth)
  with s1 a1 a2 n l show ?thesis by (simp add: prp_inv_def)
qed

lemma prp_failed_simps:
  "prp_failed (e\<lparr>status := NVME_SC_INTERNAL OR NVME_STATUS_DNR\<rparr>)"
  "prp_failed (e\<lparr>status := NVME_SC_INVALID_FIELD OR NVME_STATUS_DNR\<rparr>)"
  "prp_failed (e\<lparr>status := NVME_SC_PRP_INVALID_OFFSET OR NVME_STATUS_DNR\<rparr>)"
  by (simp_all add: prp_failed_def)

lemma prp_list_entry_step_inv:
  assumes st: "prp_list_entry_step s e w x = Inr st"
    and inv: "prp_inv e w" and lt: "w_size w < buffer_size e"
    and x: "x = buffer_size e - w_size w"
  shows "prp_step_ok e st"
proof (cases "prp_list_entry (prp_list_buf s) (w_i w)")
  case (Inl f)
  with st show ?thesis by (simp add: prp_list_entry_step_def)
next
  case (Inr prp)
  note en = Inr
  let ?w1 = "w\<lparr>w_prp := prp\<rparr>"
  have inv1: "prp_inv e ?w1" using inv by (simp add: prp_inv_def)
  show ?thesis
  proof (cases "prp = 0")
    case True
    with st en have "st = Return (- EINVAL) s (e\<lparr>status := NVME_SC_INVALID_FIELD OR NVME_STATUS_DNR\<rparr>)"
      by (simp add: prp_list_entry_step_def)
    thus ?thesis by (simp add: prp_step_ok_def prp_failed_simps)
  next
    case nz: False
    show ?thesis
    proof (cases "x > mps (ctrl s) \<and> int (w_i w) = w_nr_prps w - 1")
      case True
      with st en nz have "st = Continue s e (w\<lparr>w_prp := prp, w_nr_prps := 0\<rparr>)"
        by (simp add: prp_list_entry_step_def)
      thus ?thesis using inv by (simp add: prp_step_ok_def prp_inv_def)
    next
      case nl: False
      show ?thesis
      proof (cases "pci_epf_nvme_prp_ofst (ctrl s) prp \<noteq> 0")
        case True
        with st en nz nl have
          "st = Return (- EINVAL) s (e\<lparr>status := NVME_SC_PRP_INVALID_OFFSET OR NVME_STATUS_DNR\<rparr>)"
          by (simp add: prp_list_entry_step_def)
        thus ?thesis by (simp add: prp_step_ok_def prp_failed_simps)
      next
        case al: False
        let ?p = "min (mps (ctrl s)) x"
        have pb: "?p \<le> buffer_size e - w_size w" using x by simp
        show ?thesis
        proof (cases "prp \<noteq> w_pci_addr w")
          case False
          from inv1 have k: "w_seg w < length (segs e)" by (simp add: prp_inv_def)
          with st en nz nl al False have
            "st = Continue s
               (e\<lparr>segs := (segs e)[w_seg ?w1 :=
                     (segs e ! w_seg ?w1)\<lparr>size_s := size_s (segs e ! w_seg ?w1) + ?p\<rparr>]\<rparr>)
               (?w1\<lparr>w_pci_addr := w_pci_addr ?w1 + ?p, w_size := w_size ?w1 + ?p,
                    w_i := w_i ?w1 + 1\<rparr>)"
            by (simp add: prp_list_entry_step_def Let_def)
          moreover have "w_size ?w1 < buffer_size e" "?p \<le> buffer_size e - w_size ?w1"
            using lt pb by simp_all
          note add_to_segment_inv[OF inv1 this]
          ultimately show ?thesis by (simp add: prp_step_ok_def)
        next
          case new: True
          show ?thesis
          proof (cases "w_nr_segs w + 1 > nr_segs e")
            case True
            with st en nz nl al new have
              "st = Return (- EINVAL) s (e\<lparr>status := NVME_SC_INTERNAL OR NVME_STATUS_DNR\<rparr>)"
              by (simp add: prp_list_entry_step_def)
            thus ?thesis by (simp add: prp_step_ok_def prp_failed_simps)
          next
            case fits: False
            show ?thesis
            proof (cases "length (segs e) \<le> w_seg w + 1")
              case True
              with st en nz nl al new fits show ?thesis
                by (simp add: prp_list_entry_step_def)
            next
              case room: False
              let ?e2 = "e\<lparr>segs := (segs e)[w_seg ?w1 + 1 := \<lparr>pci_addr_s = prp, size_s = 0\<rparr>]\<rparr>"
              let ?w2 = "?w1\<lparr>w_nr_segs := w_nr_segs ?w1 + 1, w_seg := w_seg ?w1 + 1, w_pci_addr := prp\<rparr>"
              from room have r1: "w_seg ?w1 + 1 < length (segs e)" by simp
              have inv2: "prp_inv ?e2 ?w2" by (rule new_segment_inv[OF inv1 r1])
              from st en nz nl al new fits room have
                "st = Continue s
                   (?e2\<lparr>segs := (segs ?e2)[w_seg ?w2 :=
                       (segs ?e2 ! w_seg ?w2)\<lparr>size_s := size_s (segs ?e2 ! w_seg ?w2) + ?p\<rparr>]\<rparr>)
                   (?w2\<lparr>w_pci_addr := w_pci_addr ?w2 + ?p, w_size := w_size ?w2 + ?p,
                        w_i := w_i ?w2 + 1\<rparr>)"
                by (simp add: prp_list_entry_step_def Let_def)
              moreover have "w_size ?w2 < buffer_size e" "?p \<le> buffer_size e - w_size ?w2"
                using lt pb by simp_all
              note add_to_segment_inv[OF inv2 this]
              ultimately show ?thesis by (simp add: prp_step_ok_def)
            qed
          qed
        qed
      qed
    qed
  qed
qed

lemma prp_list_body_inv:
  assumes b: "prp_list_body fuel s e w = Some (Inr st)"
    and inv: "prp_inv e w" and lt: "w_size w < buffer_size e"
  shows "prp_step_ok e st"
proof (cases "w_nr_prps w = 0")
  case False
  with b have "prp_list_entry_step s e w (buffer_size e - w_size w) = Inr st"
    by (simp add: prp_list_body_def)
  from prp_list_entry_step_inv[OF this inv lt refl] show ?thesis .
next
  case True
  let ?x = "buffer_size e - w_size w"
  show ?thesis
  proof (cases "pci_epf_nvme_get_prp_list fuel s (w_prp w) ?x")
    case None
    with b True show ?thesis by (simp add: prp_list_body_def)
  next
    case (Some res)
    show ?thesis
    proof (cases res)
      case (Inl f)
      with b True Some show ?thesis by (simp add: prp_list_body_def)
    next
      case (Inr p)
      obtain r s1 where p: "p = (r, s1)" by (cases p)
      show ?thesis
      proof (cases "r < 0")
        case True
        with b \<open>w_nr_prps w = 0\<close> Some Inr p have
          "st = Return (- EINVAL) s1 (e\<lparr>status := NVME_SC_INTERNAL OR NVME_STATUS_DNR\<rparr>)"
          by (simp add: prp_list_body_def)
        thus ?thesis by (simp add: prp_step_ok_def prp_failed_simps)
      next
        case False
        let ?w = "w\<lparr>w_nr_prps := r, w_i := 0\<rparr>"
        from b \<open>w_nr_prps w = 0\<close> Some Inr p False have
          e: "prp_list_entry_step s1 e ?w ?x = Inr st"
          by (simp add: prp_list_body_def)
        have i: "prp_inv e ?w" using inv by (simp add: prp_inv_def)
        have l: "w_size ?w < buffer_size e" and x: "?x = buffer_size e - w_size ?w"
          using lt by simp_all
        from prp_list_entry_step_inv[OF e i l x] show ?thesis .
      qed
    qed
  qed
qed

lemma prp_list_loop_total:
  "prp_list_loop fuel s e w = Some (Inr (r, s', e')) \<Longrightarrow> prp_inv e w \<Longrightarrow>
     (r = 0 \<and> segs_total e' = unat (buffer_size e) \<and> buffer_size e' = buffer_size e \<and>
      status e' = status e) \<or>
     (r = - EINVAL \<and> prp_failed e')"
proof (induction fuel arbitrary: s e w)
  case 0
  then show ?case by simp
next
  case (Suc n)
  show ?case
  proof (cases "w_size w < buffer_size e")
    case False
    show ?thesis
    proof (cases "w_size w = buffer_size e")
      case True
      with Suc.prems(1) have "r = 0" "e' = e\<lparr>nr_segs := w_nr_segs w\<rparr>"
        by simp_all
      with Suc.prems(2) True show ?thesis
        by (simp add: segs_total_def prp_inv_def)
    next
      case ne: False
      with False Suc.prems(1) have "r = - EINVAL"
        "e' = e\<lparr>nr_segs := w_nr_segs w, status := NVME_SC_INTERNAL OR NVME_STATUS_DNR\<rparr>"
        by simp_all
      thus ?thesis by (simp add: prp_failed_def)
    qed
  next
    case True
    show ?thesis
    proof (cases "prp_list_body n s e w")
      case None
      with True Suc.prems(1) show ?thesis by simp
    next
      case (Some res)
      show ?thesis
      proof (cases res)
        case (Inl f)
        with True Some Suc.prems(1) show ?thesis by simp
      next
        case (Inr st)
        with Some have b: "prp_list_body n s e w = Some (Inr st)" by simp
        from prp_list_body_inv[OF b Suc.prems(2) True] have ok: "prp_step_ok e st" .
        show ?thesis
        proof (cases st)
          case (Return r1 s1 e1)
          with True b Suc.prems(1) have "r = r1" "e' = e1" by simp_all
          with ok Return show ?thesis by (simp add: prp_step_ok_def)
        next
          case (Continue s1 e1 w1)
          with True b Suc.prems(1) have l: "prp_list_loop n s1 e1 w1 = Some (Inr (r, s', e'))"
            by simp
          from ok Continue have i: "prp_inv e1 w1" and bs: "buffer_size e1 = buffer_size e"
            and stt: "status e1 = status e"
            by (simp_all add: prp_step_ok_def)
          from Suc.IH[OF l i] bs stt show ?thesis by simp
        qed
      qed
    qed
  qed
qed

lemma parse_prp_list_total:
  assumes "pci_epf_nvme_cmd_parse_prp_list fuel s e = Some (Inr (r, s', e'))"
  shows "(r = 0 \<and> segs_total e' = unat (buffer_size e) \<and> buffer_size e' = buffer_size e \<and>
          status e' = status e) \<or>
         (r = - EINVAL \<and> prp_failed e')"
proof (cases "prp1 (cmd e) = 0")
  case True
  with assms have "r = - EINVAL" "e' = e\<lparr>status := NVME_SC_INVALID_FIELD OR NVME_STATUS_DNR\<rparr>"
    by (auto simp add: pci_epf_nvme_cmd_parse_prp_list_def)
  thus ?thesis by (simp add: prp_failed_simps)
next
  case p1: False
  let ?prp = "prp1 (cmd e)"
  let ?n = "sint (ucast (drop_bit NVME_CTRL_PAGE_SHIFT
              (buffer_size e + pci_epf_nvme_prp_ofst (ctrl s) ?prp + NVME_CTRL_PAGE_SIZE - 1)) :: u32)"
  obtain ret e1 where a: "pci_epf_nvme_alloc_cmd_segs s e ?n = (ret, e1)"
    by (cases "pci_epf_nvme_alloc_cmd_segs s e ?n")
  show ?thesis
  proof (cases "ret = 0")
    case False
    with assms p1 a have "r = - EINVAL" "e' = e1\<lparr>status := NVME_SC_INTERNAL OR NVME_STATUS_DNR\<rparr>"
      by (auto simp add: pci_epf_nvme_cmd_parse_prp_list_def Let_def)
    thus ?thesis by (simp add: prp_failed_simps)
  next
    case ok: True
    with alloc_cmd_segs_result[OF a] have
      f: "buffer_size e1 = buffer_size e" "status e1 = status e"
      by (auto simp: ENOMEM_def)
    show ?thesis
    proof (cases "segs e1 = []")
      case True
      with assms p1 a ok show ?thesis
        by (simp add: pci_epf_nvme_cmd_parse_prp_list_def Let_def)
    next
      case ne: False
      let ?sz = "pci_epf_nvme_prp_size (ctrl s) ?prp"
      let ?e2 = "e1\<lparr>segs := (segs e1)[0 := \<lparr>pci_addr_s = ?prp, size_s = ?sz\<rparr>]\<rparr>"
      show ?thesis
      proof (cases "prp2 (cmd e) = 0")
        case True
        with assms p1 a ok ne have "r = - EINVAL"
          "e' = ?e2\<lparr>status := NVME_SC_INVALID_FIELD OR NVME_STATUS_DNR\<rparr>"
          by (auto simp add: pci_epf_nvme_cmd_parse_prp_list_def Let_def)
        thus ?thesis by (simp add: prp_failed_def)
      next
        case False
        let ?w = "\<lparr>w_size = ?sz, w_prp = prp2 (cmd e), w_nr_prps = 0, w_i = 0, w_seg = 0,
                   w_nr_segs = 1, w_pci_addr = ?prp + ?sz\<rparr>"
        from assms p1 a ok ne False have l: "prp_list_loop fuel s ?e2 ?w = Some (Inr (r, s', e'))"
          by (simp add: pci_epf_nvme_cmd_parse_prp_list_def Let_def)
        from ne obtain g gs where "segs e1 = g # gs" by (cases "segs e1") auto
        hence i: "prp_inv ?e2 ?w" by (simp add: prp_inv_def)
        from prp_list_loop_total[OF l i] f show ?thesis by simp
      qed
    qed
  qed
qed

text \<open>
  Claim C5. Whenever the resolver returns, on the simple path
  (\<open>pci_epf_nvme_cmd_parse_prp_simple\<close>, which always returns) or on the list path
  (\<open>pci_epf_nvme_cmd_parse_prp_list\<close>), it either returns 0, and then the lengths of
  the segments of the command add up to exactly the transfer length \<open>buffer_size\<close>, with
  the status untouched, or it returns a negative value and has set the status to
  Internal, or, for a PRP entry it rejects, to InvalidField (a null entry) or
  PRPInvalidOffset (an entry with an offset), each with the do-not-retry bit. A walk of
  the list whose running size exceeds the transfer length ends with the status Internal.
\<close>

theorem prp_segments_total:
  "(\<forall>s e r e'. pci_epf_nvme_cmd_parse_prp_simple s e = (r, e') \<longrightarrow>
      (r = 0 \<and> segs_total e' = unat (buffer_size e) \<and> status e' = status e \<and>
       buffer_size e' = buffer_size e) \<or>
      (r < 0 \<and> prp_failed e')) \<and>
   (\<forall>fuel s e r s' e'. pci_epf_nvme_cmd_parse_prp_list fuel s e = Some (Inr (r, s', e')) \<longrightarrow>
      (r = 0 \<and> segs_total e' = unat (buffer_size e) \<and> status e' = status e \<and>
       buffer_size e' = buffer_size e) \<or>
      (r = - EINVAL \<and> prp_failed e')) \<and>
   (\<forall>n s e w. w_size w > buffer_size e \<longrightarrow>
      prp_list_loop (Suc n) s e w =
        Some (Inr (- EINVAL, s,
                   e\<lparr>nr_segs := w_nr_segs w, status := NVME_SC_INTERNAL OR NVME_STATUS_DNR\<rparr>)))"
proof (intro conjI allI impI)
  fix s :: pci_epf_nvme and e r e'
  assume "pci_epf_nvme_cmd_parse_prp_simple s e = (r, e')"
  from parse_prp_simple_total[OF this]
  show "(r = 0 \<and> segs_total e' = unat (buffer_size e) \<and> status e' = status e \<and>
       buffer_size e' = buffer_size e) \<or>
      (r < 0 \<and> prp_failed e')"
    by blast
next
  fix fuel and s :: pci_epf_nvme and e r and s' :: pci_epf_nvme and e'
  assume "pci_epf_nvme_cmd_parse_prp_list fuel s e = Some (Inr (r, s', e'))"
  from parse_prp_list_total[OF this]
  show "(r = 0 \<and> segs_total e' = unat (buffer_size e) \<and> status e' = status e \<and>
       buffer_size e' = buffer_size e) \<or>
      (r = - EINVAL \<and> prp_failed e')"
    by blast
next
  fix n and s :: pci_epf_nvme and e :: pci_epf_nvme_cmd and w :: prp_walk
  assume "w_size w > buffer_size e"
  hence "\<not> w_size w < buffer_size e" "w_size w \<noteq> buffer_size e"
    by auto
  thus "prp_list_loop (Suc n) s e w =
        Some (Inr (- EINVAL, s,
                   e\<lparr>nr_segs := w_nr_segs w, status := NVME_SC_INTERNAL OR NVME_STATUS_DNR\<rparr>))"
    by simp
qed

theorem prp_segments_total_witness:
  "(\<exists>e'. pci_epf_nvme_cmd_parse_prp_simple ex_epf (ex_rw 6144 0x10800 0x30000) = (0, e') \<and>
          segs_total e' = 6144) \<and>
   (\<exists>s' e'. pci_epf_nvme_cmd_parse_prp_list 5 ex_host (ex_rw 12288 0x10000 0x20000)
               = Some (Inr (0, s', e')) \<and>
          segs_total e' = 12288) \<and>
   (\<exists>s' e'. pci_epf_nvme_cmd_parse_prp_list 1 ex_epf (ex_rw 2048 0x10000 0x20000)
               = Some (Inr (- EINVAL, s', e')) \<and>
          status e' = NVME_SC_INTERNAL OR NVME_STATUS_DNR)"
proof -
  note t = prp_segments_total
  have b: "buffer_size (ex_rw 6144 0x10800 0x30000) = 6144"
    "buffer_size (ex_rw 12288 0x10000 0x20000) = 12288"
    by (simp_all add: ex_rw_def ex_cmd_def)
  have ne: "- EINVAL \<noteq> 0" by (simp add: EINVAL_def)
  have "case pci_epf_nvme_cmd_parse_prp_simple ex_epf (ex_rw 6144 0x10800 0x30000) of
          (r, e') \<Rightarrow> r = 0"
    by code_simp
  then obtain e1 where h1: "pci_epf_nvme_cmd_parse_prp_simple ex_epf (ex_rw 6144 0x10800 0x30000) = (0, e1)"
    by (auto split: prod.splits)
  from t[THEN conjunct1, rule_format, OF h1] b
  have a1: "segs_total e1 = 6144" by simp
  have "case pci_epf_nvme_cmd_parse_prp_list 5 ex_host (ex_rw 12288 0x10000 0x20000) of
          Some (Inr (r, s', e')) \<Rightarrow> r = 0
        | _ \<Rightarrow> False"
    by code_simp
  then obtain s2 e2 where h2: "pci_epf_nvme_cmd_parse_prp_list 5 ex_host (ex_rw 12288 0x10000 0x20000)
      = Some (Inr (0, s2, e2))"
    by (auto split: option.splits sum.splits)
  from t[THEN conjunct2, THEN conjunct1, rule_format, OF h2] b ne
  have a2: "segs_total e2 = 12288" by simp
  let ?e = "(ex_rw 2048 0x10000 0x20000)\<lparr>segs := [\<lparr>pci_addr_s = 0x10000, size_s = 4096\<rparr>], nr_segs := 1\<rparr>"
  let ?w = "\<lparr>w_size = 4096, w_prp = 0x20000, w_nr_prps = 0, w_i = 0, w_seg = 0,
             w_nr_segs = 1, w_pci_addr = 0x11000\<rparr>"
  have h3: "w_size ?w > buffer_size ?e"
    by (simp add: ex_rw_def ex_cmd_def)
  have u: "pci_epf_nvme_cmd_parse_prp_list 1 ex_epf (ex_rw 2048 0x10000 0x20000)
             = prp_list_loop (Suc 0) ex_epf ?e ?w"
    by (simp add: pci_epf_nvme_cmd_parse_prp_list_def Let_def ex_rw_def ex_cmd_def ex_epf_def
        ex_ctrl_def pci_epf_nvme_prp_ofst_def pci_epf_nvme_prp_size_def
        pci_epf_nvme_alloc_cmd_segs_def NVME_CTRL_PAGE_SHIFT_def NVME_CTRL_PAGE_SIZE_def
        zero_segment_def drop_bit_eq_div del: prp_list_loop.simps)
  from t[THEN conjunct2, THEN conjunct2, rule_format, OF h3, of 0 ex_epf] u
  have a3: "\<exists>s' e'. pci_epf_nvme_cmd_parse_prp_list 1 ex_epf (ex_rw 2048 0x10000 0x20000)
               = Some (Inr (- EINVAL, s', e')) \<and>
          status e' = NVME_SC_INTERNAL OR NVME_STATUS_DNR"
    by simp
  from h1 a1 h2 a2 a3 show ?thesis by blast
qed

end
